theory Spec2Isabelle
  imports Main "HOL-Library.Char_ord" "HOL-Library.List_Lexorder"
begin

section \<open>Data model\<close>

text \<open>
  Timestamps are the ISO-8601 UTC strings produced by \<^verbatim>\<open>new Date().toISOString()\<close>,
  represented by the instant they denote: the format has a fixed width, so the order of
  the strings is the order of the instants. Quantities and stock levels are the integer
  values of the JavaScript numbers.
\<close>

type_synonym timestamp = nat

text \<open>
  The declaration of \<^verbatim>\<open>Tool\<close> is in \<^verbatim>\<open>../types\<close>. The hooks
  read the columns \<^verbatim>\<open>name\<close>, \<^verbatim>\<open>stock\<close> and
  \<^verbatim>\<open>available_stock\<close> and name \<^verbatim>\<open>id\<close>,
  \<^verbatim>\<open>created_at\<close> and \<^verbatim>\<open>updated_at\<close>; the remaining columns
  are kept by name in \<open>other_columns\<close>.
\<close>

record tool_columns =
  name :: string
  stock :: int
  available_stock :: int
  other_columns :: "(string \<times> string) list"

text \<open>A row of the table \<^verbatim>\<open>tools\<close>; \<open>tool_row_id\<close> is the column \<^verbatim>\<open>id\<close>.\<close>

record tool = tool_columns +
  tool_row_id :: string
  tool_created_at :: timestamp
  tool_updated_at :: timestamp

text \<open>
  The object that \<^verbatim>\<open>addTool\<close> receives. Its declared type,
  \<^verbatim>\<open>Omit<Tool, 'id' | 'created_at' | 'updated_at'>\<close>, does not list the three
  keys, and it does not forbid them either: an object that has them (a
  \<^verbatim>\<open>Tool\<close>, say) is assignable to it, and the spread in \<^verbatim>\<open>addTool\<close>
  copies every key the object has. So each of the three is present or absent:
  \<open>new_id\<close> is the key \<^verbatim>\<open>id\<close>, \<open>new_created_at\<close> the key
  \<^verbatim>\<open>created_at\<close>, \<open>new_updated_at\<close> the key \<^verbatim>\<open>updated_at\<close>.
\<close>

record tool_new = tool_columns +
  new_id :: "string option"
  new_created_at :: "timestamp option"
  new_updated_at :: "timestamp option"

text \<open>
  An object of type \<^verbatim>\<open>Partial<Tool>\<close>, and the argument of every
  \<^verbatim>\<open>update\<close> on the table \<^verbatim>\<open>tools\<close>: each key is present or absent.
\<close>

record tool_patch =
  patch_id :: "string option"
  patch_name :: "string option"
  patch_stock :: "int option"
  patch_available_stock :: "int option"
  patch_other_columns :: "(string \<times> string) list option"
  patch_created_at :: "timestamp option"
  patch_updated_at :: "timestamp option"

definition no_patch :: tool_patch where
  "no_patch = \<lparr>patch_id = None, patch_name = None, patch_stock = None,
     patch_available_stock = None, patch_other_columns = None,
     patch_created_at = None, patch_updated_at = None\<rparr>"

text \<open>
  The object inserted into the table \<^verbatim>\<open>movements\<close>; \<open>movement_type\<close> is the
  key \<^verbatim>\<open>type\<close>, \<open>movement_notes\<close> the key
  \<^verbatim>\<open>notes\<close>. An optional argument that was not given, and a key that the object
  does not have, are \<open>None\<close>.
\<close>

record movement_new =
  tool_id :: string
  tool_name :: string
  movement_type :: string
  quantity :: int
  user_name :: string
  area :: string
  movement_notes :: "string option"
  checkout_date :: timestamp
  checkin_date :: "timestamp option"
  status :: string

text \<open>A row of the table \<^verbatim>\<open>movements\<close>; \<open>movement_row_id\<close> is the column \<^verbatim>\<open>id\<close>.\<close>

record movement = movement_new +
  movement_row_id :: string
  created_at :: timestamp

text \<open>\<^verbatim>\<open>ToolUsage\<close>: each field carries the prefix \<open>usage_\<close>.\<close>

record tool_usage =
  usage_tool_id :: string
  usage_tool_name :: string
  usage_user_name :: string
  usage_area :: string
  usage_quantity :: int
  usage_checkout_date :: timestamp
  usage_movement_id :: string

text \<open>
  Errors: \<open>Error msg\<close> is \<^verbatim>\<open>new Error(msg)\<close>, \<open>TypeError\<close> is what
  reading a property of \<^verbatim>\<open>null\<close> throws, \<open>BackendError\<close> is an error object
  that the backend put into the \<^verbatim>\<open>error\<close> field of a response.
\<close>

datatype error = Error string | TypeError string | BackendError string

text \<open>The \<^verbatim>\<open>{ data, error }\<close> object that every backend call resolves to.\<close>

type_synonym 'a response = "'a option \<times> error option"

datatype log_entry = Warn string | ErrorLog string error

section \<open>The remote API\<close>

text \<open>
  Each constructor is one request that the hooks build with the client's query builder,
  with the arguments the source gives it. \<open>ToolsUpdateByIdSelect\<close> is the update that
  ends in \<^verbatim>\<open>.select().single()\<close> and resolves to the updated row,
  \<open>ToolsUpdateById\<close> the one that does not.
\<close>

datatype call =
    ToolsSelectAllOrderByName
  | ToolsSelectAvailableStockById string
  | ToolsInsert tool_new
  | ToolsUpdateByIdSelect string tool_patch
  | ToolsUpdateById string tool_patch
  | ToolsDeleteById string
  | MovementsSelectAllOrderByCreatedAtDesc
  | MovementsSelectByStatusOrderByCheckoutDateDesc string
  | MovementsSelectById string
  | MovementsInsert movement_new
  | MovementsUpdateStatusById string string timestamp
  | AuthSignInWithPassword string string
  | AuthSignOut
  | Subscribe string
  | Unsubscribe string

text \<open>
  The backend is not part of the repository: it is a parameter, any family of
  functions from the state \<open>'w\<close> of the outside world to a response and a new state.
  \<open>now\<close> is the clock that \<^verbatim>\<open>new Date()\<close> reads.
\<close>

record 'w backend =
  tools_select_all :: "'w \<Rightarrow> tool list response \<times> 'w"
  tools_select_available_stock :: "string \<Rightarrow> 'w \<Rightarrow> int response \<times> 'w"
  tools_insert :: "tool_new \<Rightarrow> 'w \<Rightarrow> tool response \<times> 'w"
  tools_update_by_id_select :: "string \<Rightarrow> tool_patch \<Rightarrow> 'w \<Rightarrow> tool response \<times> 'w"
  tools_update_by_id :: "string \<Rightarrow> tool_patch \<Rightarrow> 'w \<Rightarrow> unit response \<times> 'w"
  tools_delete_by_id :: "string \<Rightarrow> 'w \<Rightarrow> unit response \<times> 'w"
  movements_select_all :: "'w \<Rightarrow> movement list response \<times> 'w"
  movements_select_by_status :: "string \<Rightarrow> 'w \<Rightarrow> movement list response \<times> 'w"
  movements_select_by_id :: "string \<Rightarrow> 'w \<Rightarrow> movement response \<times> 'w"
  movements_insert :: "movement_new \<Rightarrow> 'w \<Rightarrow> movement response \<times> 'w"
  movements_update_status :: "string \<Rightarrow> string \<Rightarrow> timestamp \<Rightarrow> 'w \<Rightarrow> unit response \<times> 'w"
  auth_sign_in :: "string \<Rightarrow> string \<Rightarrow> 'w \<Rightarrow> string response \<times> 'w"
  auth_sign_out :: "'w \<Rightarrow> unit response \<times> 'w"
  now :: "'w \<Rightarrow> timestamp"

text \<open>
  The state that the hooks run in: the outside world, the requests issued so far,
  the console, and the React state of the two hooks (\<open>loading\<close> is the flag of
  \<^verbatim>\<open>useTools\<close>, \<open>movements_loading\<close> the flag \<^verbatim>\<open>loading\<close> of
  \<^verbatim>\<open>useMovements\<close>). \<open>subscriptions\<close> and \<open>movements_subscriptions\<close> are the
  tables whose change events the effect of each hook is subscribed to: the subscription
  objects that its cleanup function holds.

  An operation runs from its call to its return with no other operation of the page in
  between. What other clients do to the database between two requests is part of the
  backend's step: the backend is arbitrary, so the world may change in any way whenever a
  request is served.
\<close>

record 'w st =
  world :: 'w
  trace :: "call list"
  console :: "log_entry list"
  tools :: "tool list"
  toolsInUse :: "tool_usage list"
  loading :: bool
  subscriptions :: "string list"
  movements :: "movement list"
  movements_loading :: bool
  movements_subscriptions :: "string list"

text \<open>Awaiting one request: the request is recorded and the world moves on.\<close>

definition remote :: "call \<Rightarrow> ('w \<Rightarrow> 'a \<times> 'w) \<Rightarrow> 'w st \<Rightarrow> 'a \<times> 'w st" where
  "remote c f s = (case f (world s) of (r, w) \<Rightarrow> (r, s\<lparr>world := w, trace := trace s @ [c]\<rparr>))"

definition console_error :: "string \<Rightarrow> error \<Rightarrow> 'w st \<Rightarrow> 'w st" where
  "console_error msg e s = s\<lparr>console := console s @ [ErrorLog msg e]\<rparr>"

definition console_warn :: "string \<Rightarrow> 'w st \<Rightarrow> 'w st" where
  "console_warn msg s = s\<lparr>console := console s @ [Warn msg]\<rparr>"

text \<open>\<^verbatim>\<open>data || []\<close>\<close>

definition or_empty :: "'a list option \<Rightarrow> 'a list" where
  "or_empty d = (case d of None \<Rightarrow> [] | Some xs \<Rightarrow> xs)"

text \<open>What \<^verbatim>\<open>supabase.from\<close> and \<^verbatim>\<open>supabase.channel\<close> throw when the client is \<^verbatim>\<open>null\<close>.\<close>

definition null_client :: "string \<Rightarrow> error" where
  "null_client prop = TypeError (''Cannot read properties of null (reading '' @ prop @ '')'')"

definition not_configured :: error where
  "not_configured = Error ''Supabase not configured''"

section \<open>The hook useTools\<close>

definition fetchTools :: "'w backend option \<Rightarrow> 'w st \<Rightarrow> 'w st" where
  "fetchTools supabase s =
     (case supabase of
        None \<Rightarrow> console_error ''Error fetching tools:'' (null_client ''from'') s
      | Some bk \<Rightarrow>
          (case remote ToolsSelectAllOrderByName (tools_select_all bk) s of
             ((data, Some e), s1) \<Rightarrow> console_error ''Error fetching tools:'' e s1
           | ((data, None), s1) \<Rightarrow> s1\<lparr>tools := or_empty data\<rparr>))"

definition usage_of :: "movement \<Rightarrow> tool_usage" where
  "usage_of m = \<lparr>usage_tool_id = tool_id m, usage_tool_name = tool_name m,
     usage_user_name = user_name m, usage_area = area m, usage_quantity = quantity m,
     usage_checkout_date = checkout_date m, usage_movement_id = movement_row_id m\<rparr>"

definition fetchToolsInUse :: "'w backend option \<Rightarrow> 'w st \<Rightarrow> 'w st" where
  "fetchToolsInUse supabase s =
     (case supabase of
        None \<Rightarrow> console_error ''Error fetching tools in use:'' (null_client ''from'') s
      | Some bk \<Rightarrow>
          (case remote (MovementsSelectByStatusOrderByCheckoutDateDesc ''active'')
                  (movements_select_by_status bk ''active'') s of
             ((data, Some e), s1) \<Rightarrow> console_error ''Error fetching tools in use:'' e s1
           | ((data, None), s1) \<Rightarrow> s1\<lparr>toolsInUse := map usage_of (or_empty data)\<rparr>))"

definition addTool :: "'w backend option \<Rightarrow> tool_new \<Rightarrow> 'w st \<Rightarrow> tool response \<times> 'w st" where
  "addTool supabase t s =
     (case supabase of
        None \<Rightarrow> ((None, Some (null_client ''from'')), s)
      | Some bk \<Rightarrow>
          (case remote (ToolsInsert (t\<lparr>available_stock := stock t\<rparr>))
                  (tools_insert bk (t\<lparr>available_stock := stock t\<rparr>)) s of
             ((data, Some e), s1) \<Rightarrow> ((None, Some e), s1)
           | ((data, None), s1) \<Rightarrow> ((data, None), fetchTools supabase s1)))"

definition updateTool ::
  "'w backend option \<Rightarrow> string \<Rightarrow> tool_patch \<Rightarrow> 'w st \<Rightarrow> tool response \<times> 'w st" where
  "updateTool supabase i updates s =
     (case supabase of
        None \<Rightarrow> ((None, Some (null_client ''from'')), s)
      | Some bk \<Rightarrow>
          (case remote
                  (ToolsUpdateByIdSelect i (updates\<lparr>patch_updated_at := Some (now bk (world s))\<rparr>))
                  (tools_update_by_id_select bk i (updates\<lparr>patch_updated_at := Some (now bk (world s))\<rparr>)) s of
             ((data, Some e), s1) \<Rightarrow> ((None, Some e), s1)
           | ((data, None), s1) \<Rightarrow> ((data, None), fetchTools supabase s1)))"

definition deleteTool :: "'w backend option \<Rightarrow> string \<Rightarrow> 'w st \<Rightarrow> error option \<times> 'w st" where
  "deleteTool supabase i s =
     (case supabase of
        None \<Rightarrow> (Some (null_client ''from''), s)
      | Some bk \<Rightarrow>
          (case remote (ToolsDeleteById i) (tools_delete_by_id bk i) s of
             ((data, Some e), s1) \<Rightarrow> (Some e, s1)
           | ((data, None), s1) \<Rightarrow> (None, fetchTools supabase s1)))"

text \<open>
  The effect of \<^verbatim>\<open>useTools\<close>. \<^verbatim>\<open>loadData()\<close> sets
  \<open>loading\<close> and starts both fetches, which run up to their first
  \<^verbatim>\<open>await\<close>: with a client nothing has been sent by then, the request of a
  query goes out when the awaited builder is resolved, after the body of the effect has
  finished. So the two calls of \<^verbatim>\<open>subscribe()\<close> come first, then the two
  selects in the order the fetches were started; each fetch has one request and writes its
  own piece of state, so their continuations are run one after the other, and
  \<open>loading\<close> is cleared when both are done. With a \<^verbatim>\<open>null\<close> client each
  fetch throws and logs before its \<^verbatim>\<open>await\<close>, then
  \<^verbatim>\<open>supabase.channel\<close> throws out of the effect, and \<open>loading\<close> is
  still set. The definition \<open>loadData\<close> is the part of \<^verbatim>\<open>loadData()\<close>
  that runs after the body of the effect: the two requests with their continuations and
  the clearing of \<open>loading\<close>; the setting of \<open>loading\<close> is in
  \<open>useTools_mount\<close>.
\<close>

definition subscribe :: "string \<Rightarrow> 'w st \<Rightarrow> 'w st" where
  "subscribe table s = s\<lparr>trace := trace s @ [Subscribe table], subscriptions := subscriptions s @ [table]\<rparr>"

definition unsubscribe :: "string \<Rightarrow> 'w st \<Rightarrow> 'w st" where
  "unsubscribe table s =
     s\<lparr>trace := trace s @ [Unsubscribe table], subscriptions := removeAll table (subscriptions s)\<rparr>"

definition loadData :: "'w backend option \<Rightarrow> 'w st \<Rightarrow> 'w st" where
  "loadData supabase s = (fetchToolsInUse supabase (fetchTools supabase s))\<lparr>loading := False\<rparr>"

definition useTools_mount :: "'w backend option \<Rightarrow> 'w st \<Rightarrow> error option \<times> 'w st" where
  "useTools_mount supabase s =
     (case supabase of
        None \<Rightarrow>
          (Some (null_client ''channel''),
           fetchToolsInUse supabase (fetchTools supabase (s\<lparr>loading := True\<rparr>)))
      | Some bk \<Rightarrow>
          (None, loadData supabase (subscribe ''movements'' (subscribe ''tools'' (s\<lparr>loading := True\<rparr>)))))"

definition useTools_unmount :: "'w st \<Rightarrow> 'w st" where
  "useTools_unmount s = unsubscribe ''movements'' (unsubscribe ''tools'' s)"

text \<open>
  A change event of a table reaches the callback registered for that table while the
  subscription is held.
\<close>

definition useTools_on_change :: "'w backend option \<Rightarrow> string \<Rightarrow> 'w st \<Rightarrow> 'w st" where
  "useTools_on_change supabase table s =
     (if table \<notin> set (subscriptions s) then s
      else if table = ''tools'' then fetchTools supabase s
      else if table = ''movements'' then fetchTools supabase (fetchToolsInUse supabase s)
      else s)"

definition useTools_refetch :: "'w backend option \<Rightarrow> 'w st \<Rightarrow> 'w st" where
  "useTools_refetch supabase s = fetchToolsInUse supabase (fetchTools supabase s)"

section \<open>The hook useMovements\<close>

definition fetchMovements :: "'w backend option \<Rightarrow> 'w st \<Rightarrow> 'w st" where
  "fetchMovements supabase s =
     (case supabase of
        None \<Rightarrow>
          (console_warn ''Supabase not configured - using empty movements list'' s)
            \<lparr>movements := [], movements_loading := False\<rparr>
      | Some bk \<Rightarrow>
          (case remote MovementsSelectAllOrderByCreatedAtDesc (movements_select_all bk) s of
             ((data, Some e), s1) \<Rightarrow>
               (console_error ''Error fetching movements:'' e s1)
                 \<lparr>movements := [], movements_loading := False\<rparr>
           | ((data, None), s1) \<Rightarrow> s1\<lparr>movements := or_empty data, movements_loading := False\<rparr>))"

definition checkout_row ::
  "string \<Rightarrow> string \<Rightarrow> int \<Rightarrow> string \<Rightarrow> string \<Rightarrow> string option \<Rightarrow> timestamp \<Rightarrow> movement_new" where
  "checkout_row toolId toolName qty userName ar nts t =
     \<lparr>tool_id = toolId, tool_name = toolName, movement_type = ''checkout'', quantity = qty,
      user_name = userName, area = ar, movement_notes = nts, checkout_date = t,
      checkin_date = None, status = ''active''\<rparr>"

definition stock_patch :: "int \<Rightarrow> tool_patch" where
  "stock_patch v = no_patch\<lparr>patch_available_stock := Some v\<rparr>"

definition createCheckout ::
  "'w backend option \<Rightarrow> string \<Rightarrow> string \<Rightarrow> int \<Rightarrow> string \<Rightarrow> string \<Rightarrow> string option \<Rightarrow> 'w st
     \<Rightarrow> movement response \<times> 'w st" where
  "createCheckout supabase toolId toolName qty userName ar nts s =
     (case supabase of
        None \<Rightarrow> ((None, Some not_configured), s)
      | Some bk \<Rightarrow>
          (case remote (ToolsSelectAvailableStockById toolId)
                  (tools_select_available_stock bk toolId) s of
             ((None, err), s1) \<Rightarrow> ((None, Some (Error ''Stock insuficiente'')), s1)
           | ((Some avail, err), s1) \<Rightarrow>
               if avail < qty then ((None, Some (Error ''Stock insuficiente'')), s1)
               else
                 (case remote
                         (MovementsInsert
                            (checkout_row toolId toolName qty userName ar nts (now bk (world s1))))
                         (movements_insert bk
                            (checkout_row toolId toolName qty userName ar nts (now bk (world s1))))
                         s1 of
                    ((data, Some e), s2) \<Rightarrow> ((None, Some e), s2)
                  | ((data, None), s2) \<Rightarrow>
                      (case remote (ToolsUpdateById toolId (stock_patch (avail - qty)))
                              (tools_update_by_id bk toolId (stock_patch (avail - qty))) s2 of
                         (upd, s3) \<Rightarrow> ((data, None), fetchMovements supabase s3)))))"

definition checkin_row :: "movement \<Rightarrow> int \<Rightarrow> string \<Rightarrow> string option \<Rightarrow> timestamp \<Rightarrow> movement_new" where
  "checkin_row m returnQuantity userName nts t =
     \<lparr>tool_id = tool_id m, tool_name = tool_name m, movement_type = ''checkin'',
      quantity = returnQuantity, user_name = userName, area = area m, movement_notes = nts,
      checkout_date = checkout_date m, checkin_date = Some t, status = ''returned''\<rparr>"

definition createCheckin ::
  "'w backend option \<Rightarrow> string \<Rightarrow> int \<Rightarrow> string \<Rightarrow> string option \<Rightarrow> 'w st
     \<Rightarrow> movement response \<times> 'w st" where
  "createCheckin supabase movementId returnQuantity userName nts s =
     (case supabase of
        None \<Rightarrow> ((None, Some not_configured), s)
      | Some bk \<Rightarrow>
          (case remote (MovementsSelectById movementId) (movements_select_by_id bk movementId) s of
             ((None, err), s1) \<Rightarrow> ((None, Some (Error ''Movimiento no encontrado'')), s1)
           | ((Some m, err), s1) \<Rightarrow>
               (case remote (MovementsUpdateStatusById movementId ''returned'' (now bk (world s1)))
                       (movements_update_status bk movementId ''returned'' (now bk (world s1))) s1 of
                  (upd, s2) \<Rightarrow>
                    (case remote
                            (MovementsInsert (checkin_row m returnQuantity userName nts (now bk (world s2))))
                            (movements_insert bk
                               (checkin_row m returnQuantity userName nts (now bk (world s2))))
                            s2 of
                       ((data, Some e), s3) \<Rightarrow> ((None, Some e), s3)
                     | ((data, None), s3) \<Rightarrow>
                         (case remote (ToolsSelectAvailableStockById (tool_id m))
                                 (tools_select_available_stock bk (tool_id m)) s3 of
                            ((None, err2), s4) \<Rightarrow> ((data, None), fetchMovements supabase s4)
                          | ((Some avail, err2), s4) \<Rightarrow>
                              (case remote
                                      (ToolsUpdateById (tool_id m) (stock_patch (avail + returnQuantity)))
                                      (tools_update_by_id bk (tool_id m)
                                         (stock_patch (avail + returnQuantity)))
                                      s4 of
                                 (upd2, s5) \<Rightarrow> ((data, None), fetchMovements supabase s5)))))))"

definition movements_subscribe :: "string \<Rightarrow> 'w st \<Rightarrow> 'w st" where
  "movements_subscribe table s =
     s\<lparr>trace := trace s @ [Subscribe table],
       movements_subscriptions := movements_subscriptions s @ [table]\<rparr>"

definition movements_unsubscribe :: "string \<Rightarrow> 'w st \<Rightarrow> 'w st" where
  "movements_unsubscribe table s =
     s\<lparr>trace := trace s @ [Unsubscribe table],
       movements_subscriptions := removeAll table (movements_subscriptions s)\<rparr>"

text \<open>
  The effect of \<^verbatim>\<open>useMovements\<close>. \<^verbatim>\<open>fetchMovements()\<close> runs
  up to its \<^verbatim>\<open>await\<close>; without a client that is all of it, and the effect
  returns before subscribing, with no cleanup function. With a client the effect
  subscribes, and the select goes out after that.
\<close>

definition useMovements_mount :: "'w backend option \<Rightarrow> 'w st \<Rightarrow> 'w st" where
  "useMovements_mount supabase s =
     (case supabase of
        None \<Rightarrow> fetchMovements supabase s
      | Some bk \<Rightarrow> fetchMovements supabase (movements_subscribe ''movements'' s))"

definition useMovements_unmount :: "'w backend option \<Rightarrow> 'w st \<Rightarrow> 'w st" where
  "useMovements_unmount supabase s =
     (case supabase of None \<Rightarrow> s | Some bk \<Rightarrow> movements_unsubscribe ''movements'' s)"

definition useMovements_on_change :: "'w backend option \<Rightarrow> string \<Rightarrow> 'w st \<Rightarrow> 'w st" where
  "useMovements_on_change supabase table s =
     (if table \<notin> set (movements_subscriptions s) then s
      else if table = ''movements'' then fetchMovements supabase s
      else s)"

section \<open>The auth helper\<close>

definition signIn ::
  "'w backend option \<Rightarrow> string \<Rightarrow> string \<Rightarrow> 'w st \<Rightarrow> string response \<times> 'w st" where
  "signIn supabase email password s =
     (case supabase of
        None \<Rightarrow> ((None, Some not_configured), s)
      | Some bk \<Rightarrow>
          (case remote (AuthSignInWithPassword email password) (auth_sign_in bk email password) s of
             ((data, err), s1) \<Rightarrow> ((data, err), s1)))"

definition signOut :: "'w backend option \<Rightarrow> 'w st \<Rightarrow> error option \<times> 'w st" where
  "signOut supabase s =
     (case supabase of
        None \<Rightarrow> (Some not_configured, s)
      | Some bk \<Rightarrow> (case remote AuthSignOut (auth_sign_out bk) s of ((data, err), s1) \<Rightarrow> (err, s1)))"

section \<open>A reference backend\<close>

text \<open>
  The hosted service is outside the repository. This in-memory database follows the
  documented meaning of the requests above (filter, order, \<^verbatim>\<open>single\<close>, insert,
  update, delete) and gives the concrete instances of the theorems below something to run
  on. The request with ordinal number \<open>n\<close> fails when \<open>n\<close> is in \<open>db_failing\<close>; the
  clock advances by one with every request.
\<close>

record db =
  db_tools :: "tool list"
  db_movements :: "movement list"
  db_users :: "(string \<times> string) list"
  db_clock :: timestamp
  db_served :: nat
  db_failing :: "nat list"

definition request_failed :: error where
  "request_failed = BackendError ''request failed''"

definition serve :: "(db \<Rightarrow> 'a response \<times> db) \<Rightarrow> db \<Rightarrow> 'a response \<times> db" where
  "serve f w =
     (if db_served w \<in> set (db_failing w)
      then ((None, Some request_failed), w\<lparr>db_clock := Suc (db_clock w), db_served := Suc (db_served w)\<rparr>)
      else f (w\<lparr>db_clock := Suc (db_clock w), db_served := Suc (db_served w)\<rparr>))"

definition single :: "'a list \<Rightarrow> 'a response" where
  "single rows = (case rows of [r] \<Rightarrow> (Some r, None) | _ \<Rightarrow> (None, Some (BackendError ''PGRST116'')))"

definition fresh_id :: "db \<Rightarrow> string" where
  "fresh_id w = replicate (db_served w) (CHR ''i'')"

text \<open>
  The row that an insert stores: a column the inserted object does not give takes its
  default, a fresh id and the time of the insert.
\<close>

definition stored :: "tool_new \<Rightarrow> db \<Rightarrow> tool" where
  "stored t w =
     \<lparr>name = name t, stock = stock t, available_stock = available_stock t,
      other_columns = other_columns t,
      tool_row_id = (case new_id t of None \<Rightarrow> fresh_id w | Some v \<Rightarrow> v),
      tool_created_at = (case new_created_at t of None \<Rightarrow> db_clock w | Some v \<Rightarrow> v),
      tool_updated_at = (case new_updated_at t of None \<Rightarrow> db_clock w | Some v \<Rightarrow> v)\<rparr>"

definition apply_patch :: "tool_patch \<Rightarrow> tool \<Rightarrow> tool" where
  "apply_patch p t =
     t\<lparr>tool_row_id := (case patch_id p of None \<Rightarrow> tool_row_id t | Some v \<Rightarrow> v),
       name := (case patch_name p of None \<Rightarrow> name t | Some v \<Rightarrow> v),
       stock := (case patch_stock p of None \<Rightarrow> stock t | Some v \<Rightarrow> v),
       available_stock := (case patch_available_stock p of None \<Rightarrow> available_stock t | Some v \<Rightarrow> v),
       other_columns := (case patch_other_columns p of None \<Rightarrow> other_columns t | Some v \<Rightarrow> v),
       tool_created_at := (case patch_created_at p of None \<Rightarrow> tool_created_at t | Some v \<Rightarrow> v),
       tool_updated_at := (case patch_updated_at p of None \<Rightarrow> tool_updated_at t | Some v \<Rightarrow> v)\<rparr>"

definition patch_where :: "string \<Rightarrow> tool_patch \<Rightarrow> tool list \<Rightarrow> tool list" where
  "patch_where i p ts = map (\<lambda>t. if tool_row_id t = i then apply_patch p t else t) ts"

definition mark_where :: "string \<Rightarrow> string \<Rightarrow> timestamp \<Rightarrow> movement list \<Rightarrow> movement list" where
  "mark_where i st t ms =
     map (\<lambda>m. if movement_row_id m = i then m\<lparr>status := st, checkin_date := Some t\<rparr> else m) ms"

definition active_desc :: "string \<Rightarrow> movement list \<Rightarrow> movement list" where
  "active_desc st ms = rev (sort_key checkout_date (filter (\<lambda>m. status m = st) ms))"

definition mem_backend :: "db backend" where
  "mem_backend =
     \<lparr>tools_select_all = serve (\<lambda>w. ((Some (sort_key name (db_tools w)), None), w)),
      tools_select_available_stock =
        (\<lambda>i. serve (\<lambda>w. (single (map available_stock (filter (\<lambda>t. tool_row_id t = i) (db_tools w))), w))),
      tools_insert = (\<lambda>t. serve (\<lambda>w. ((Some (stored t w), None), w\<lparr>db_tools := db_tools w @ [stored t w]\<rparr>))),
      tools_update_by_id_select =
        (\<lambda>i p. serve (\<lambda>w.
           (single (filter (\<lambda>t. tool_row_id t = (case patch_id p of None \<Rightarrow> i | Some v \<Rightarrow> v))
                      (patch_where i p (filter (\<lambda>t. tool_row_id t = i) (db_tools w)))),
            w\<lparr>db_tools := patch_where i p (db_tools w)\<rparr>))),
      tools_update_by_id =
        (\<lambda>i p. serve (\<lambda>w. ((None, None), w\<lparr>db_tools := patch_where i p (db_tools w)\<rparr>))),
      tools_delete_by_id =
        (\<lambda>i. serve (\<lambda>w. ((None, None), w\<lparr>db_tools := filter (\<lambda>t. tool_row_id t \<noteq> i) (db_tools w)\<rparr>))),
      movements_select_all = serve (\<lambda>w. ((Some (rev (sort_key created_at (db_movements w))), None), w)),
      movements_select_by_status = (\<lambda>st. serve (\<lambda>w. ((Some (active_desc st (db_movements w)), None), w))),
      movements_select_by_id =
        (\<lambda>i. serve (\<lambda>w. (single (filter (\<lambda>m. movement_row_id m = i) (db_movements w)), w))),
      movements_insert =
        (\<lambda>m. serve (\<lambda>w.
           ((Some (movement_new.extend m \<lparr>movement_row_id = fresh_id w, created_at = db_clock w\<rparr>), None),
            w\<lparr>db_movements := db_movements w @
                 [movement_new.extend m \<lparr>movement_row_id = fresh_id w, created_at = db_clock w\<rparr>]\<rparr>))),
      movements_update_status =
        (\<lambda>i st t. serve (\<lambda>w. ((None, None), w\<lparr>db_movements := mark_where i st t (db_movements w)\<rparr>))),
      auth_sign_in =
        (\<lambda>email password. serve (\<lambda>w.
           (if (email, password) \<in> set (db_users w) then (Some email, None)
            else (None, Some (BackendError ''Invalid login credentials'')), w))),
      auth_sign_out = serve (\<lambda>w. ((None, None), w)),
      now = db_clock\<rparr>"

text \<open>The state of a page that has not rendered yet, in front of a given database.\<close>

definition init :: "db \<Rightarrow> db st" where
  "init w = \<lparr>world = w, trace = [], console = [], tools = [], toolsInUse = [], loading = True,
     subscriptions = [], movements = [], movements_loading = True, movements_subscriptions = []\<rparr>"

section \<open>Requests issued by an operation\<close>

text \<open>The requests that were added to the trace between two states.\<close>

definition issued :: "'w st \<Rightarrow> 'w st \<Rightarrow> call list" where
  "issued s s' = drop (length (trace s)) (trace s')"

fun inserted_tools :: "call list \<Rightarrow> tool_new list" where
  "inserted_tools [] = []"
| "inserted_tools (ToolsInsert r # cs) = r # inserted_tools cs"
| "inserted_tools (c # cs) = inserted_tools cs"


section \<open>What the page can do\<close>

text \<open>
  Everything that changes the state of the two hooks: mounting and unmounting them, a
  change event reaching one of them, and the functions they return.
\<close>

datatype action =
    MountTools
  | UnmountTools
  | ToolsChannelEvent string
  | AddTool tool_new
  | UpdateTool string tool_patch
  | DeleteTool string
  | RefetchTools
  | MountMovements
  | UnmountMovements
  | MovementsChannelEvent string
  | CreateCheckout string string int string string "string option"
  | CreateCheckin string int string "string option"
  | RefetchMovements
  | SignIn string string
  | SignOut

fun perform :: "'w backend option \<Rightarrow> action \<Rightarrow> 'w st \<Rightarrow> 'w st" where
  "perform supabase MountTools s = snd (useTools_mount supabase s)"
| "perform supabase UnmountTools s = useTools_unmount s"
| "perform supabase (ToolsChannelEvent table) s = useTools_on_change supabase table s"
| "perform supabase (AddTool t) s = snd (addTool supabase t s)"
| "perform supabase (UpdateTool i updates) s = snd (updateTool supabase i updates s)"
| "perform supabase (DeleteTool i) s = snd (deleteTool supabase i s)"
| "perform supabase RefetchTools s = useTools_refetch supabase s"
| "perform supabase MountMovements s = useMovements_mount supabase s"
| "perform supabase UnmountMovements s = useMovements_unmount supabase s"
| "perform supabase (MovementsChannelEvent table) s = useMovements_on_change supabase table s"
| "perform supabase (CreateCheckout toolId toolName qty userName ar nts) s =
     snd (createCheckout supabase toolId toolName qty userName ar nts s)"
| "perform supabase (CreateCheckin movementId returnQuantity userName nts) s =
     snd (createCheckin supabase movementId returnQuantity userName nts s)"
| "perform supabase RefetchMovements s = fetchMovements supabase s"
| "perform supabase (SignIn email password) s = snd (signIn supabase email password s)"
| "perform supabase SignOut s = snd (signOut supabase s)"

text \<open>
  \<open>pulls s s'\<close>: going from \<open>s\<close> to \<open>s'\<close> only added requests, and each of the
  three lists is either what it was or the select that fills it was among the requests
  added.
\<close>

definition pulls :: "'w st \<Rightarrow> 'w st \<Rightarrow> bool" where
  "pulls s s' \<longleftrightarrow>
     take (length (trace s)) (trace s') = trace s
     \<and> (tools s' = tools s \<or> ToolsSelectAllOrderByName \<in> set (issued s s'))
     \<and> (toolsInUse s' = toolsInUse s
          \<or> MovementsSelectByStatusOrderByCheckoutDateDesc ''active'' \<in> set (issued s s'))
     \<and> (movements s' = movements s \<or> MovementsSelectAllOrderByCreatedAtDesc \<in> set (issued s s'))"

section \<open>Example data\<close>

definition hammer :: tool_new where
  "hammer = \<lparr>name = ''hammer'', stock = 5, available_stock = 0, other_columns = [],
     new_id = None, new_created_at = None, new_updated_at = None\<rparr>"

definition hammer_row :: tool where
  "hammer_row = \<lparr>name = ''hammer'', stock = 5, available_stock = 5, other_columns = [],
     tool_row_id = ''t1'', tool_created_at = 1, tool_updated_at = 1\<rparr>"

definition empty_db :: db where
  "empty_db = \<lparr>db_tools = [], db_movements = [], db_users = [], db_clock = 100,
     db_served = 0, db_failing = []\<rparr>"

definition users_db :: db where
  "users_db = empty_db\<lparr>db_users := [(''ana@taller.example'', ''secreto'')]\<rparr>"

definition checkout_a :: movement where
  "checkout_a = \<lparr>tool_id = ''t1'', tool_name = ''hammer'', movement_type = ''checkout'',
     quantity = 2, user_name = ''ana'', area = ''taller'', movement_notes = None,
     checkout_date = 10, checkin_date = None, status = ''active'',
     movement_row_id = ''m1'', created_at = 10\<rparr>"

definition checkout_b :: movement where
  "checkout_b = \<lparr>tool_id = ''t2'', tool_name = ''saw'', movement_type = ''checkout'',
     quantity = 1, user_name = ''luis'', area = ''obra'', movement_notes = Some ''urgente'',
     checkout_date = 30, checkin_date = None, status = ''active'',
     movement_row_id = ''m2'', created_at = 30\<rparr>"

definition checkout_c :: movement where
  "checkout_c = \<lparr>tool_id = ''t1'', tool_name = ''hammer'', movement_type = ''checkout'',
     quantity = 1, user_name = ''eva'', area = ''taller'', movement_notes = None,
     checkout_date = 20, checkin_date = Some 25, status = ''returned'',
     movement_row_id = ''m3'', created_at = 20\<rparr>"

definition movements_db :: db where
  "movements_db = empty_db\<lparr>db_movements := [checkout_a, checkout_b, checkout_c]\<rparr>"

definition stock_db :: db where
  "stock_db = empty_db\<lparr>db_tools := [hammer_row]\<rparr>"

definition insert_fails_db :: db where
  "insert_fails_db = stock_db\<lparr>db_failing := [1]\<rparr>"

definition lent_hammer :: tool where
  "lent_hammer = hammer_row\<lparr>available_stock := 3\<rparr>"

definition lent_db :: db where
  "lent_db = empty_db\<lparr>db_tools := [lent_hammer], db_movements := [checkout_a]\<rparr>"

definition stock_read_fails_db :: db where
  "stock_read_fails_db = lent_db\<lparr>db_failing := [3]\<rparr>"

definition read_fails_db :: db where
  "read_fails_db = empty_db\<lparr>db_failing := [0]\<rparr>"

definition update_fails_db :: db where
  "update_fails_db = stock_db\<lparr>db_failing := [2]\<rparr>"

definition checkin_insert_fails_db :: db where
  "checkin_insert_fails_db = lent_db\<lparr>db_failing := [2]\<rparr>"

definition known_tool :: tool_new where
  "known_tool = \<lparr>name = ''hammer'', stock = 5, available_stock = 2, other_columns = [],
     new_id = Some ''t1'', new_created_at = Some 1, new_updated_at = Some 1\<rparr>"

text \<open>More example data: pages in front of the reference backend.\<close>

definition unmounted_page :: "db st" where
  "unmounted_page = useTools_unmount (snd (useTools_mount (Some mem_backend) (init empty_db)))"

definition written_elsewhere :: "db st" where
  "written_elsewhere =
     unmounted_page\<lparr>world := (world unmounted_page)\<lparr>db_tools := [hammer_row], db_movements := [checkout_a]\<rparr>\<rparr>"

definition mounted :: "db st" where
  "mounted = snd (useTools_mount (Some mem_backend) (init empty_db))"

definition lent_elsewhere :: "db st" where
  "lent_elsewhere = mounted\<lparr>world := (world mounted)\<lparr>db_movements := [checkout_a]\<rparr>\<rparr>"

definition page :: "db st" where
  "page = useMovements_mount (Some mem_backend) (snd (useTools_mount (Some mem_backend) (init stock_db)))"

definition rename :: tool_patch where
  "rename = no_patch\<lparr>patch_name := Some ''mallet''\<rparr>"

section \<open>Properties of single operations\<close>

lemma trace_fetchTools: "trace (fetchTools (Some bk) s) = trace s @ [ToolsSelectAllOrderByName]"
  by (simp add: fetchTools_def remote_def console_error_def split: prod.splits option.splits)

lemma trace_fetchToolsInUse:
  "trace (fetchToolsInUse (Some bk) s) =
     trace s @ [MovementsSelectByStatusOrderByCheckoutDateDesc ''active'']"
  by (simp add: fetchToolsInUse_def remote_def console_error_def split: prod.splits option.splits)

lemma trace_fetchMovements:
  "trace (fetchMovements (Some bk) s) = trace s @ [MovementsSelectAllOrderByCreatedAtDesc]"
  by (simp add: fetchMovements_def remote_def console_error_def split: prod.splits option.splits)

lemma fetchTools_error:
  "tools_select_all bk (world s) = ((d, Some e), w) \<Longrightarrow>
   fetchTools (Some bk) s =
     s\<lparr>world := w, trace := trace s @ [ToolsSelectAllOrderByName],
       console := console s @ [ErrorLog ''Error fetching tools:'' e]\<rparr>"
  by (simp add: fetchTools_def remote_def console_error_def)

lemma fetchTools_ok:
  "tools_select_all bk (world s) = ((d, None), w) \<Longrightarrow>
   fetchTools (Some bk) s =
     s\<lparr>world := w, trace := trace s @ [ToolsSelectAllOrderByName], tools := or_empty d\<rparr>"
  by (simp add: fetchTools_def remote_def)

lemma fetchToolsInUse_error:
  "movements_select_by_status bk ''active'' (world s) = ((d, Some e), w) \<Longrightarrow>
   fetchToolsInUse (Some bk) s =
     s\<lparr>world := w,
       trace := trace s @ [MovementsSelectByStatusOrderByCheckoutDateDesc ''active''],
       console := console s @ [ErrorLog ''Error fetching tools in use:'' e]\<rparr>"
  by (simp add: fetchToolsInUse_def remote_def console_error_def)

lemma fetchToolsInUse_ok:
  "movements_select_by_status bk ''active'' (world s) = ((d, None), w) \<Longrightarrow>
   fetchToolsInUse (Some bk) s =
     s\<lparr>world := w,
       trace := trace s @ [MovementsSelectByStatusOrderByCheckoutDateDesc ''active''],
       toolsInUse := map usage_of (or_empty d)\<rparr>"
  by (simp add: fetchToolsInUse_def remote_def)

lemma fetchMovements_error:
  "movements_select_all bk (world s) = ((d, Some e), w) \<Longrightarrow>
   fetchMovements (Some bk) s =
     s\<lparr>world := w, trace := trace s @ [MovementsSelectAllOrderByCreatedAtDesc],
       console := console s @ [ErrorLog ''Error fetching movements:'' e],
       movements := [], movements_loading := False\<rparr>"
  by (simp add: fetchMovements_def remote_def console_error_def)

lemma fetchMovements_ok:
  "movements_select_all bk (world s) = ((d, None), w) \<Longrightarrow>
   fetchMovements (Some bk) s =
     s\<lparr>world := w, trace := trace s @ [MovementsSelectAllOrderByCreatedAtDesc],
       movements := or_empty d, movements_loading := False\<rparr>"
  by (simp add: fetchMovements_def remote_def)

lemma addTool_error:
  "tools_insert bk (t\<lparr>available_stock := stock t\<rparr>) (world s) = ((d, Some e), w) \<Longrightarrow>
   addTool (Some bk) t s =
     ((None, Some e), s\<lparr>world := w, trace := trace s @ [ToolsInsert (t\<lparr>available_stock := stock t\<rparr>)]\<rparr>)"
  by (simp add: addTool_def remote_def)

lemma addTool_ok:
  "tools_insert bk (t\<lparr>available_stock := stock t\<rparr>) (world s) = ((d, None), w) \<Longrightarrow>
   addTool (Some bk) t s =
     ((d, None),
      fetchTools (Some bk)
        (s\<lparr>world := w, trace := trace s @ [ToolsInsert (t\<lparr>available_stock := stock t\<rparr>)]\<rparr>))"
  by (simp add: addTool_def remote_def)

lemma updateTool_error:
  "tools_update_by_id_select bk i (u\<lparr>patch_updated_at := Some (now bk (world s))\<rparr>) (world s)
     = ((d, Some e), w) \<Longrightarrow>
   updateTool (Some bk) i u s =
     ((None, Some e),
      s\<lparr>world := w,
        trace := trace s @ [ToolsUpdateByIdSelect i (u\<lparr>patch_updated_at := Some (now bk (world s))\<rparr>)]\<rparr>)"
  by (simp add: updateTool_def remote_def)

lemma updateTool_ok:
  "tools_update_by_id_select bk i (u\<lparr>patch_updated_at := Some (now bk (world s))\<rparr>) (world s)
     = ((d, None), w) \<Longrightarrow>
   updateTool (Some bk) i u s =
     ((d, None),
      fetchTools (Some bk)
        (s\<lparr>world := w,
           trace := trace s @ [ToolsUpdateByIdSelect i (u\<lparr>patch_updated_at := Some (now bk (world s))\<rparr>)]\<rparr>))"
  by (simp add: updateTool_def remote_def)

lemma deleteTool_error:
  "tools_delete_by_id bk i (world s) = ((d, Some e), w) \<Longrightarrow>
   deleteTool (Some bk) i s = (Some e, s\<lparr>world := w, trace := trace s @ [ToolsDeleteById i]\<rparr>)"
  by (simp add: deleteTool_def remote_def)

lemma deleteTool_ok:
  "tools_delete_by_id bk i (world s) = ((d, None), w) \<Longrightarrow>
   deleteTool (Some bk) i s =
     (None, fetchTools (Some bk) (s\<lparr>world := w, trace := trace s @ [ToolsDeleteById i]\<rparr>))"
  by (simp add: deleteTool_def remote_def)

lemma addTool_issued:
  "issued s (snd (addTool (Some bk) t s)) =
     ToolsInsert (t\<lparr>available_stock := stock t\<rparr>) #
       (if snd (fst (addTool (Some bk) t s)) = None then [ToolsSelectAllOrderByName] else [])"
  by (simp add: issued_def addTool_def remote_def trace_fetchTools split: prod.splits option.splits)

lemma mem_select_by_status:
  "db_served w \<notin> set (db_failing w) \<Longrightarrow>
   movements_select_by_status mem_backend st w =
     ((Some (active_desc st (db_movements w)), None),
      w\<lparr>db_clock := Suc (db_clock w), db_served := Suc (db_served w)\<rparr>)"
  by (simp add: mem_backend_def serve_def)

lemma usage_of_fields:
  "usage_tool_id (usage_of m) = tool_id m" "usage_tool_name (usage_of m) = tool_name m"
  "usage_user_name (usage_of m) = user_name m" "usage_area (usage_of m) = area m"
  "usage_quantity (usage_of m) = quantity m" "usage_checkout_date (usage_of m) = checkout_date m"
  "usage_movement_id (usage_of m) = movement_row_id m"
  by (simp_all add: usage_of_def)

lemma active_desc_set: "set (active_desc st ms) = {m \<in> set ms. status m = st}"
  by (auto simp: active_desc_def)

lemma active_desc_sorted: "sorted (rev (map checkout_date (active_desc st ms)))"
  by (simp add: active_desc_def rev_map [symmetric])

lemma active_desc_length: "length (active_desc st ms) = length (filter (\<lambda>m. status m = st) ms)"
  by (simp add: active_desc_def)

lemma createCheckout_no_tool:
  "tools_select_available_stock bk toolId (world s) = ((None, err), w1) \<Longrightarrow>
   createCheckout (Some bk) toolId toolName qty userName ar nts s =
     ((None, Some (Error ''Stock insuficiente'')),
      s\<lparr>world := w1, trace := trace s @ [ToolsSelectAvailableStockById toolId]\<rparr>)"
  by (simp add: createCheckout_def remote_def)

lemma createCheckout_insufficient:
  "tools_select_available_stock bk toolId (world s) = ((Some a, err), w1) \<Longrightarrow> a < qty \<Longrightarrow>
   createCheckout (Some bk) toolId toolName qty userName ar nts s =
     ((None, Some (Error ''Stock insuficiente'')),
      s\<lparr>world := w1, trace := trace s @ [ToolsSelectAvailableStockById toolId]\<rparr>)"
  by (simp add: createCheckout_def remote_def)

lemma createCheckout_insert_error:
  "tools_select_available_stock bk toolId (world s) = ((Some a, err), w1) \<Longrightarrow> \<not> a < qty \<Longrightarrow>
   movements_insert bk (checkout_row toolId toolName qty userName ar nts (now bk w1)) w1
     = ((d, Some e), w2) \<Longrightarrow>
   createCheckout (Some bk) toolId toolName qty userName ar nts s =
     ((None, Some e),
      s\<lparr>world := w2,
        trace := trace s @ [ToolsSelectAvailableStockById toolId,
          MovementsInsert (checkout_row toolId toolName qty userName ar nts (now bk w1))]\<rparr>)"
  by (simp add: createCheckout_def remote_def)

lemma createCheckout_ok:
  "tools_select_available_stock bk toolId (world s) = ((Some a, err), w1) \<Longrightarrow> \<not> a < qty \<Longrightarrow>
   movements_insert bk (checkout_row toolId toolName qty userName ar nts (now bk w1)) w1
     = ((d, None), w2) \<Longrightarrow>
   tools_update_by_id bk toolId (stock_patch (a - qty)) w2 = (u, w3) \<Longrightarrow>
   createCheckout (Some bk) toolId toolName qty userName ar nts s =
     ((d, None),
      fetchMovements (Some bk)
        (s\<lparr>world := w3,
           trace := trace s @ [ToolsSelectAvailableStockById toolId,
             MovementsInsert (checkout_row toolId toolName qty userName ar nts (now bk w1)),
             ToolsUpdateById toolId (stock_patch (a - qty))]\<rparr>))"
  by (simp add: createCheckout_def remote_def)

lemma createCheckin_not_found:
  "movements_select_by_id bk movementId (world s) = ((None, err), w1) \<Longrightarrow>
   createCheckin (Some bk) movementId returnQuantity userName nts s =
     ((None, Some (Error ''Movimiento no encontrado'')),
      s\<lparr>world := w1, trace := trace s @ [MovementsSelectById movementId]\<rparr>)"
  by (simp add: createCheckin_def remote_def)

lemma createCheckin_insert_error:
  "movements_select_by_id bk movementId (world s) = ((Some m, err), w1) \<Longrightarrow>
   movements_update_status bk movementId ''returned'' (now bk w1) w1 = (u, w2) \<Longrightarrow>
   movements_insert bk (checkin_row m returnQuantity userName nts (now bk w2)) w2
     = ((d, Some e), w3) \<Longrightarrow>
   createCheckin (Some bk) movementId returnQuantity userName nts s =
     ((None, Some e),
      s\<lparr>world := w3,
        trace := trace s @ [MovementsSelectById movementId,
          MovementsUpdateStatusById movementId ''returned'' (now bk w1),
          MovementsInsert (checkin_row m returnQuantity userName nts (now bk w2))]\<rparr>)"
  by (simp add: createCheckin_def remote_def)

lemma createCheckin_no_tool:
  "movements_select_by_id bk movementId (world s) = ((Some m, err), w1) \<Longrightarrow>
   movements_update_status bk movementId ''returned'' (now bk w1) w1 = (u, w2) \<Longrightarrow>
   movements_insert bk (checkin_row m returnQuantity userName nts (now bk w2)) w2
     = ((d, None), w3) \<Longrightarrow>
   tools_select_available_stock bk (tool_id m) w3 = ((None, err2), w4) \<Longrightarrow>
   createCheckin (Some bk) movementId returnQuantity userName nts s =
     ((d, None),
      fetchMovements (Some bk)
        (s\<lparr>world := w4,
           trace := trace s @ [MovementsSelectById movementId,
             MovementsUpdateStatusById movementId ''returned'' (now bk w1),
             MovementsInsert (checkin_row m returnQuantity userName nts (now bk w2)),
             ToolsSelectAvailableStockById (tool_id m)]\<rparr>))"
  by (simp add: createCheckin_def remote_def)

lemma createCheckin_ok:
  "movements_select_by_id bk movementId (world s) = ((Some m, err), w1) \<Longrightarrow>
   movements_update_status bk movementId ''returned'' (now bk w1) w1 = (u, w2) \<Longrightarrow>
   movements_insert bk (checkin_row m returnQuantity userName nts (now bk w2)) w2
     = ((d, None), w3) \<Longrightarrow>
   tools_select_available_stock bk (tool_id m) w3 = ((Some a, err2), w4) \<Longrightarrow>
   tools_update_by_id bk (tool_id m) (stock_patch (a + returnQuantity)) w4 = (u2, w5) \<Longrightarrow>
   createCheckin (Some bk) movementId returnQuantity userName nts s =
     ((d, None),
      fetchMovements (Some bk)
        (s\<lparr>world := w5,
           trace := trace s @ [MovementsSelectById movementId,
             MovementsUpdateStatusById movementId ''returned'' (now bk w1),
             MovementsInsert (checkin_row m returnQuantity userName nts (now bk w2)),
             ToolsSelectAvailableStockById (tool_id m),
             ToolsUpdateById (tool_id m) (stock_patch (a + returnQuantity))]\<rparr>))"
  by (simp add: createCheckin_def remote_def)

lemma fetchTools_subscriptions: "subscriptions (fetchTools supabase s) = subscriptions s"
  by (simp add: fetchTools_def remote_def console_error_def split: prod.splits option.splits)

lemma fetchToolsInUse_subscriptions: "subscriptions (fetchToolsInUse supabase s) = subscriptions s"
  by (simp add: fetchToolsInUse_def remote_def console_error_def split: prod.splits option.splits)

lemma fetchMovements_subscriptions:
  "movements_subscriptions (fetchMovements supabase s) = movements_subscriptions s"
  by (simp add: fetchMovements_def remote_def console_error_def console_warn_def
      split: prod.splits option.splits)

lemma useTools_unmount_silent:
  "useTools_on_change supabase table (useTools_unmount s) = useTools_unmount s"
  by (simp add: useTools_on_change_def useTools_unmount_def unsubscribe_def)

lemma useMovements_unmount_silent:
  "useMovements_on_change (Some bk) table (useMovements_unmount (Some bk) s)
     = useMovements_unmount (Some bk) s"
  by (simp add: useMovements_on_change_def useMovements_unmount_def movements_unsubscribe_def)

lemma on_movements_issued:
  "issued s (fetchTools (Some bk) (fetchToolsInUse (Some bk) s)) =
     [MovementsSelectByStatusOrderByCheckoutDateDesc ''active'', ToolsSelectAllOrderByName]"
  by (simp add: issued_def trace_fetchTools trace_fetchToolsInUse)

lemma addTool_refetch:
  "snd (fst (addTool (Some bk) t s)) = None \<Longrightarrow>
   \<exists>s'. snd (addTool (Some bk) t s) = fetchTools (Some bk) s'
     \<and> trace s' = trace s @ [ToolsInsert (t\<lparr>available_stock := stock t\<rparr>)]"
  by (auto simp: addTool_def remote_def split: prod.splits option.splits)

lemma updateTool_refetch:
  "snd (fst (updateTool (Some bk) i u s)) = None \<Longrightarrow>
   \<exists>s'. snd (updateTool (Some bk) i u s) = fetchTools (Some bk) s'
     \<and> trace s' = trace s @
         [ToolsUpdateByIdSelect i (u\<lparr>patch_updated_at := Some (now bk (world s))\<rparr>)]"
  by (auto simp: updateTool_def remote_def split: prod.splits option.splits)

lemma deleteTool_refetch:
  "fst (deleteTool (Some bk) i s) = None \<Longrightarrow>
   \<exists>s'. snd (deleteTool (Some bk) i s) = fetchTools (Some bk) s'
     \<and> trace s' = trace s @ [ToolsDeleteById i]"
  by (auto simp: deleteTool_def remote_def split: prod.splits option.splits)

lemma createCheckout_refetch:
  "snd (fst (createCheckout (Some bk) toolId toolName qty userName ar nts s)) = None \<Longrightarrow>
   \<exists>s'. snd (createCheckout (Some bk) toolId toolName qty userName ar nts s)
       = fetchMovements (Some bk) s'"
  by (auto simp: createCheckout_def remote_def split: prod.splits option.splits if_splits)

lemma createCheckin_refetch:
  "snd (fst (createCheckin (Some bk) movementId returnQuantity userName nts s)) = None \<Longrightarrow>
   \<exists>s'. snd (createCheckin (Some bk) movementId returnQuantity userName nts s)
       = fetchMovements (Some bk) s'"
  by (auto simp: createCheckin_def remote_def split: prod.splits option.splits)

lemma addTool_result:
  "tools_insert bk (t\<lparr>available_stock := stock t\<rparr>) (world s) = ((d, err), w) \<Longrightarrow>
   fst (addTool (Some bk) t s) = ((case err of None \<Rightarrow> d | Some e \<Rightarrow> None), err)
   \<and> issued s (snd (addTool (Some bk) t s)) =
       ToolsInsert (t\<lparr>available_stock := stock t\<rparr>) #
         (case err of None \<Rightarrow> [ToolsSelectAllOrderByName] | Some e \<Rightarrow> [])"
  by (cases err) (simp_all add: addTool_ok addTool_error issued_def trace_fetchTools)

lemma updateTool_result:
  "tools_update_by_id_select bk i (u\<lparr>patch_updated_at := Some (now bk (world s))\<rparr>) (world s)
     = ((d, err), w) \<Longrightarrow>
   fst (updateTool (Some bk) i u s) = ((case err of None \<Rightarrow> d | Some e \<Rightarrow> None), err)
   \<and> issued s (snd (updateTool (Some bk) i u s)) =
       ToolsUpdateByIdSelect i (u\<lparr>patch_updated_at := Some (now bk (world s))\<rparr>) #
         (case err of None \<Rightarrow> [ToolsSelectAllOrderByName] | Some e \<Rightarrow> [])"
  by (cases err) (simp_all add: updateTool_ok updateTool_error issued_def trace_fetchTools)

lemma deleteTool_result:
  "tools_delete_by_id bk i (world s) = ((d, err), w) \<Longrightarrow>
   fst (deleteTool (Some bk) i s) = err
   \<and> issued s (snd (deleteTool (Some bk) i s)) =
       ToolsDeleteById i # (case err of None \<Rightarrow> [ToolsSelectAllOrderByName] | Some e \<Rightarrow> [])"
  by (cases err) (simp_all add: deleteTool_ok deleteTool_error issued_def trace_fetchTools)

lemma createCheckout_ok_issued:
  assumes "tools_select_available_stock bk toolId (world s) = ((Some a, err), w1)" "\<not> a < qty"
    "movements_insert bk (checkout_row toolId toolName qty userName ar nts (now bk w1)) w1
       = ((d, None), w2)"
  shows "issued s (snd (createCheckout (Some bk) toolId toolName qty userName ar nts s)) =
          [ToolsSelectAvailableStockById toolId,
           MovementsInsert (checkout_row toolId toolName qty userName ar nts (now bk w1)),
           ToolsUpdateById toolId (no_patch\<lparr>patch_available_stock := Some (a - qty)\<rparr>),
           MovementsSelectAllOrderByCreatedAtDesc]"
proof -
  obtain r w3 where "tools_update_by_id bk toolId (stock_patch (a - qty)) w2 = (r, w3)"
    by (cases "tools_update_by_id bk toolId (stock_patch (a - qty)) w2")
  from createCheckout_ok [OF assms this] show ?thesis
    by (simp add: issued_def trace_fetchMovements stock_patch_def)
qed

lemma createCheckin_ok_issued:
  assumes "movements_select_by_id bk movementId (world s) = ((Some m, err), w1)"
    "movements_update_status bk movementId ''returned'' (now bk w1) w1 = (r, w2)"
    "movements_insert bk (checkin_row m returnQuantity userName nts (now bk w2)) w2
       = ((d, None), w3)"
    "tools_select_available_stock bk (tool_id m) w3 = ((Some a, err2), w4)"
  shows "issued s (snd (createCheckin (Some bk) movementId returnQuantity userName nts s)) =
          [MovementsSelectById movementId,
           MovementsUpdateStatusById movementId ''returned'' (now bk w1),
           MovementsInsert (checkin_row m returnQuantity userName nts (now bk w2)),
           ToolsSelectAvailableStockById (tool_id m),
           ToolsUpdateById (tool_id m) (no_patch\<lparr>patch_available_stock := Some (a + returnQuantity)\<rparr>),
           MovementsSelectAllOrderByCreatedAtDesc]"
proof -
  obtain r2 w5 where
    "tools_update_by_id bk (tool_id m) (stock_patch (a + returnQuantity)) w4 = (r2, w5)"
    by (cases "tools_update_by_id bk (tool_id m) (stock_patch (a + returnQuantity)) w4")
  from createCheckin_ok [OF assms this] show ?thesis
    by (simp add: issued_def trace_fetchMovements stock_patch_def)
qed

subsection \<open>Evaluating the reference backend\<close>

lemmas mem_simps = mem_backend_def serve_def single_def fresh_id_def stored_def patch_where_def
  apply_patch_def mark_where_def active_desc_def request_failed_def

lemmas example_simps = init_def empty_db_def stock_db_def hammer_row_def

lemmas lent_simps = lent_db_def lent_hammer_def checkout_a_def

subsection \<open>Mounting, and what changes a list\<close>

lemma pulls_append:
  "trace s' = trace s @ cs \<Longrightarrow>
   tools s' = tools s \<or> ToolsSelectAllOrderByName \<in> set cs \<Longrightarrow>
   toolsInUse s' = toolsInUse s \<or> MovementsSelectByStatusOrderByCheckoutDateDesc ''active'' \<in> set cs \<Longrightarrow>
   movements s' = movements s \<or> MovementsSelectAllOrderByCreatedAtDesc \<in> set cs \<Longrightarrow>
   pulls s s'"
  by (simp add: pulls_def issued_def)

lemma pulls_refl: "pulls s s"
  by (simp add: pulls_def issued_def)

lemma pulls_trans:
  assumes "pulls s s1" "pulls s1 s2"
  shows "pulls s s2"
proof -
  obtain cs where cs: "trace s1 = trace s @ cs"
    using assms(1) by (metis append_take_drop_id pulls_def)
  obtain ds where ds: "trace s2 = trace s1 @ ds"
    using assms(2) by (metis append_take_drop_id pulls_def)
  have i1: "issued s s1 = cs" and i2: "issued s1 s2 = ds" and i: "issued s s2 = cs @ ds"
    by (simp_all add: issued_def cs ds)
  show ?thesis
    using assms by (auto simp: pulls_def i1 i2 i cs ds)
qed

lemma pulls_fetchTools: "pulls s (fetchTools (Some bk) s)"
  by (rule pulls_append [where cs = "[ToolsSelectAllOrderByName]"])
    (simp_all add: fetchTools_def remote_def console_error_def split: prod.splits option.splits)

lemma pulls_fetchToolsInUse: "pulls s (fetchToolsInUse (Some bk) s)"
  by (rule pulls_append [where cs = "[MovementsSelectByStatusOrderByCheckoutDateDesc ''active'']"])
    (simp_all add: fetchToolsInUse_def remote_def console_error_def split: prod.splits option.splits)

lemma pulls_fetchMovements: "pulls s (fetchMovements (Some bk) s)"
  by (rule pulls_append [where cs = "[MovementsSelectAllOrderByCreatedAtDesc]"])
    (simp_all add: fetchMovements_def remote_def console_error_def split: prod.splits option.splits)

lemma pulls_local:
  "trace s' = trace s @ cs \<Longrightarrow> tools s' = tools s \<Longrightarrow> toolsInUse s' = toolsInUse s \<Longrightarrow>
   movements s' = movements s \<Longrightarrow> pulls s s'"
  by (simp add: pulls_def issued_def)

lemma pulls_then_fetchTools:
  "pulls s s' \<Longrightarrow> pulls s (fetchTools (Some bk) s')"
  by (erule pulls_trans) (rule pulls_fetchTools)

lemma pulls_then_fetchMovements:
  "pulls s s' \<Longrightarrow> pulls s (fetchMovements (Some bk) s')"
  by (erule pulls_trans) (rule pulls_fetchMovements)

lemma pulls_addTool: "pulls s (snd (addTool (Some bk) t s))"
  by (auto simp: addTool_def remote_def split: prod.splits option.splits
      intro!: pulls_then_fetchTools pulls_local)

lemma pulls_updateTool: "pulls s (snd (updateTool (Some bk) i u s))"
  by (auto simp: updateTool_def remote_def split: prod.splits option.splits
      intro!: pulls_then_fetchTools pulls_local)

lemma pulls_deleteTool: "pulls s (snd (deleteTool (Some bk) i s))"
  by (auto simp: deleteTool_def remote_def split: prod.splits option.splits
      intro!: pulls_then_fetchTools pulls_local)

lemma pulls_createCheckout:
  "pulls s (snd (createCheckout (Some bk) toolId toolName qty userName ar nts s))"
  by (auto simp: createCheckout_def remote_def split: prod.splits option.splits
      intro!: pulls_then_fetchMovements pulls_local)

lemma pulls_createCheckin:
  "pulls s (snd (createCheckin (Some bk) movementId returnQuantity userName nts s))"
  by (auto simp: createCheckin_def remote_def split: prod.splits option.splits
      intro!: pulls_then_fetchMovements pulls_local)

lemma pulls_useTools_mount: "pulls s (snd (useTools_mount (Some bk) s))"
proof -
  have a: "pulls s (subscribe ''movements'' (subscribe ''tools'' (s\<lparr>loading := True\<rparr>)))"
    by (rule pulls_local [where cs = "[Subscribe ''tools'', Subscribe ''movements'']"])
      (simp_all add: subscribe_def)
  have b: "pulls x ((fetchToolsInUse (Some bk) (fetchTools (Some bk) x))\<lparr>loading := False\<rparr>)" for x
  proof -
    have "pulls x (fetchToolsInUse (Some bk) (fetchTools (Some bk) x))"
      by (rule pulls_trans [OF pulls_fetchTools pulls_fetchToolsInUse])
    then show ?thesis by (simp add: pulls_def issued_def)
  qed
  show ?thesis
    by (simp add: useTools_mount_def loadData_def) (rule pulls_trans [OF a b])
qed

lemma pulls_useMovements_mount: "pulls s (useMovements_mount (Some bk) s)"
proof -
  have a: "pulls s (movements_subscribe ''movements'' s)"
    by (rule pulls_local [where cs = "[Subscribe ''movements'']"])
      (simp_all add: movements_subscribe_def)
  show ?thesis
    by (simp add: useMovements_mount_def) (rule pulls_trans [OF a pulls_fetchMovements])
qed

lemma pulls_perform: "pulls s (perform (Some bk) a s)"
proof (cases a)
  case MountTools
  then show ?thesis by (simp add: pulls_useTools_mount)
next
  case UnmountTools
  then show ?thesis
    by (auto simp: useTools_unmount_def unsubscribe_def intro!: pulls_local)
next
  case (ToolsChannelEvent table)
  then show ?thesis
    by (auto simp: useTools_on_change_def pulls_refl pulls_fetchTools
        intro: pulls_trans [OF pulls_fetchToolsInUse pulls_fetchTools])
next
  case (AddTool t)
  then show ?thesis by (simp add: pulls_addTool)
next
  case (UpdateTool i u)
  then show ?thesis by (simp add: pulls_updateTool)
next
  case (DeleteTool i)
  then show ?thesis by (simp add: pulls_deleteTool)
next
  case RefetchTools
  then show ?thesis
    by (simp add: useTools_refetch_def pulls_trans [OF pulls_fetchTools pulls_fetchToolsInUse])
next
  case MountMovements
  then show ?thesis by (simp add: pulls_useMovements_mount)
next
  case UnmountMovements
  then show ?thesis
    by (auto simp: useMovements_unmount_def movements_unsubscribe_def intro!: pulls_local)
next
  case (MovementsChannelEvent table)
  then show ?thesis
    by (auto simp: useMovements_on_change_def pulls_refl pulls_fetchMovements)
next
  case (CreateCheckout toolId toolName qty userName ar nts)
  then show ?thesis by (simp add: pulls_createCheckout)
next
  case (CreateCheckin movementId returnQuantity userName nts)
  then show ?thesis by (simp add: pulls_createCheckin)
next
  case RefetchMovements
  then show ?thesis by (simp add: pulls_fetchMovements)
next
  case (SignIn email password)
  then show ?thesis
    by (auto simp: signIn_def remote_def split: prod.splits intro!: pulls_local)
next
  case SignOut
  then show ?thesis
    by (auto simp: signOut_def remote_def split: prod.splits intro!: pulls_local)
qed

lemma useTools_mount_state:
  assumes "tools_select_all bk (world s) = ((d1, e1), w1)"
    and "movements_select_by_status bk ''active'' w1 = ((d2, e2), w2)"
  shows "snd (useTools_mount (Some bk) s) =
     s\<lparr>world := w2,
       trace := trace s @ [Subscribe ''tools'', Subscribe ''movements'', ToolsSelectAllOrderByName,
         MovementsSelectByStatusOrderByCheckoutDateDesc ''active''],
       console := console s
         @ (case e1 of None \<Rightarrow> [] | Some x \<Rightarrow> [ErrorLog ''Error fetching tools:'' x])
         @ (case e2 of None \<Rightarrow> [] | Some x \<Rightarrow> [ErrorLog ''Error fetching tools in use:'' x]),
       tools := (case e1 of None \<Rightarrow> or_empty d1 | Some x \<Rightarrow> tools s),
       toolsInUse := (case e2 of None \<Rightarrow> map usage_of (or_empty d2) | Some x \<Rightarrow> toolsInUse s),
       loading := False,
       subscriptions := subscriptions s @ [''tools'', ''movements'']\<rparr>"
  using assms
  by (cases e1; cases e2)
    (simp_all add: useTools_mount_def loadData_def subscribe_def fetchTools_def fetchToolsInUse_def
      remote_def console_error_def)

lemma useMovements_mount_state:
  assumes "movements_select_all bk (world s) = ((d, e), w)"
  shows "useMovements_mount (Some bk) s =
     s\<lparr>world := w,
       trace := trace s @ [Subscribe ''movements'', MovementsSelectAllOrderByCreatedAtDesc],
       console := console s
         @ (case e of None \<Rightarrow> [] | Some x \<Rightarrow> [ErrorLog ''Error fetching movements:'' x]),
       movements := (case e of None \<Rightarrow> or_empty d | Some x \<Rightarrow> []),
       movements_loading := False,
       movements_subscriptions := movements_subscriptions s @ [''movements'']\<rparr>"
  using assms
  by (cases e)
    (simp_all add: useMovements_mount_def movements_subscribe_def fetchMovements_def remote_def
      console_error_def)

lemma refetch_issued:
  "issued s (useTools_refetch (Some bk) s) =
     [ToolsSelectAllOrderByName, MovementsSelectByStatusOrderByCheckoutDateDesc ''active'']"
  by (simp add: issued_def useTools_refetch_def trace_fetchTools trace_fetchToolsInUse)

lemma mem_mounted:
  "snd (useTools_mount (Some mem_backend) (init empty_db)) = (init empty_db)
      \<lparr>world := empty_db\<lparr>db_clock := 102, db_served := 2\<rparr>,
        trace := [Subscribe ''tools'', Subscribe ''movements'', ToolsSelectAllOrderByName,
          MovementsSelectByStatusOrderByCheckoutDateDesc ''active''],
        loading := False, subscriptions := [''tools'', ''movements'']\<rparr>"
  by (simp add: useTools_mount_def loadData_def fetchTools_def fetchToolsInUse_def
      subscribe_def remote_def or_empty_def mem_simps example_simps numeral_2_eq_2)

lemma written_elsewhere_eq:
  "written_elsewhere = (init empty_db)
      \<lparr>world := empty_db\<lparr>db_tools := [hammer_row], db_movements := [checkout_a],
          db_clock := 102, db_served := 2\<rparr>,
        trace := [Subscribe ''tools'', Subscribe ''movements'', ToolsSelectAllOrderByName,
          MovementsSelectByStatusOrderByCheckoutDateDesc ''active'', Unsubscribe ''tools'',
          Unsubscribe ''movements''],
        loading := False, subscriptions := []\<rparr>"
  by (simp add: written_elsewhere_def unmounted_page_def mem_mounted useTools_unmount_def
      unsubscribe_def)

lemma addTool_refetched:
  "tools_insert bk (t\<lparr>available_stock := stock t\<rparr>) (world s) = ((d, None), w) \<Longrightarrow>
   tools_select_all bk w = ((d2, None), w2) \<Longrightarrow>
   addTool (Some bk) t s =
     ((d, None),
      s\<lparr>world := w2,
        trace := trace s @ [ToolsInsert (t\<lparr>available_stock := stock t\<rparr>), ToolsSelectAllOrderByName],
        tools := or_empty d2\<rparr>)"
  by (simp add: addTool_ok fetchTools_ok)

lemma updateTool_refetched:
  "tools_update_by_id_select bk i (u\<lparr>patch_updated_at := Some (now bk (world s))\<rparr>) (world s)
     = ((d, None), w) \<Longrightarrow>
   tools_select_all bk w = ((d2, None), w2) \<Longrightarrow>
   updateTool (Some bk) i u s =
     ((d, None),
      s\<lparr>world := w2,
        trace := trace s @
          [ToolsUpdateByIdSelect i (u\<lparr>patch_updated_at := Some (now bk (world s))\<rparr>),
           ToolsSelectAllOrderByName],
        tools := or_empty d2\<rparr>)"
  by (simp add: updateTool_ok fetchTools_ok)

lemma deleteTool_refetched:
  "tools_delete_by_id bk i (world s) = ((d, None), w) \<Longrightarrow>
   tools_select_all bk w = ((d2, None), w2) \<Longrightarrow>
   deleteTool (Some bk) i s =
     (None,
      s\<lparr>world := w2, trace := trace s @ [ToolsDeleteById i, ToolsSelectAllOrderByName],
        tools := or_empty d2\<rparr>)"
  by (simp add: deleteTool_ok fetchTools_ok)

lemma createCheckout_refetched:
  "tools_select_available_stock bk toolId (world s) = ((Some a, err), w1) \<Longrightarrow> \<not> a < qty \<Longrightarrow>
   movements_insert bk (checkout_row toolId toolName qty userName ar nts (now bk w1)) w1
     = ((d, None), w2) \<Longrightarrow>
   tools_update_by_id bk toolId (stock_patch (a - qty)) w2 = (r, w3) \<Longrightarrow>
   movements_select_all bk w3 = ((d4, None), w4) \<Longrightarrow>
   createCheckout (Some bk) toolId toolName qty userName ar nts s =
     ((d, None),
      s\<lparr>world := w4,
        trace := trace s @ [ToolsSelectAvailableStockById toolId,
          MovementsInsert (checkout_row toolId toolName qty userName ar nts (now bk w1)),
          ToolsUpdateById toolId (stock_patch (a - qty)),
          MovementsSelectAllOrderByCreatedAtDesc],
        movements := or_empty d4, movements_loading := False\<rparr>)"
  by (simp add: createCheckout_ok fetchMovements_ok)

lemma createCheckin_refetched:
  "movements_select_by_id bk movementId (world s) = ((Some m, err), w1) \<Longrightarrow>
   movements_update_status bk movementId ''returned'' (now bk w1) w1 = (r, w2) \<Longrightarrow>
   movements_insert bk (checkin_row m returnQuantity userName nts (now bk w2)) w2
     = ((d, None), w3) \<Longrightarrow>
   tools_select_available_stock bk (tool_id m) w3 = ((Some a, err2), w4) \<Longrightarrow>
   tools_update_by_id bk (tool_id m) (stock_patch (a + returnQuantity)) w4 = (r2, w5) \<Longrightarrow>
   movements_select_all bk w5 = ((d6, None), w6) \<Longrightarrow>
   createCheckin (Some bk) movementId returnQuantity userName nts s =
     ((d, None),
      s\<lparr>world := w6,
        trace := trace s @ [MovementsSelectById movementId,
          MovementsUpdateStatusById movementId ''returned'' (now bk w1),
          MovementsInsert (checkin_row m returnQuantity userName nts (now bk w2)),
          ToolsSelectAvailableStockById (tool_id m),
          ToolsUpdateById (tool_id m) (stock_patch (a + returnQuantity)),
          MovementsSelectAllOrderByCreatedAtDesc],
        movements := or_empty d6, movements_loading := False\<rparr>)"
  by (simp add: createCheckin_ok fetchMovements_ok)

lemma fetchMovements_keeps_tools:
  "tools (fetchMovements supabase s) = tools s \<and> toolsInUse (fetchMovements supabase s) = toolsInUse s"
  by (simp add: fetchMovements_def remote_def console_error_def console_warn_def
      split: prod.splits option.splits)

lemma createCheckout_keeps_tools:
  "tools (snd (createCheckout (Some bk) toolId toolName qty userName ar nts s)) = tools s
   \<and> toolsInUse (snd (createCheckout (Some bk) toolId toolName qty userName ar nts s)) = toolsInUse s
   \<and> ToolsSelectAllOrderByName
        \<notin> set (issued s (snd (createCheckout (Some bk) toolId toolName qty userName ar nts s)))
   \<and> MovementsSelectByStatusOrderByCheckoutDateDesc ''active''
        \<notin> set (issued s (snd (createCheckout (Some bk) toolId toolName qty userName ar nts s)))"
  by (simp add: createCheckout_def remote_def issued_def fetchMovements_keeps_tools
      trace_fetchMovements split: prod.splits option.splits)

lemma createCheckin_keeps_tools:
  "tools (snd (createCheckin (Some bk) movementId returnQuantity userName nts s)) = tools s
   \<and> toolsInUse (snd (createCheckin (Some bk) movementId returnQuantity userName nts s)) = toolsInUse s
   \<and> ToolsSelectAllOrderByName
        \<notin> set (issued s (snd (createCheckin (Some bk) movementId returnQuantity userName nts s)))
   \<and> MovementsSelectByStatusOrderByCheckoutDateDesc ''active''
        \<notin> set (issued s (snd (createCheckin (Some bk) movementId returnQuantity userName nts s)))"
  by (simp add: createCheckin_def remote_def issued_def fetchMovements_keeps_tools
      trace_fetchMovements split: prod.splits option.splits)

lemma page_eq:
  "page = (init stock_db)
     \<lparr>world := stock_db\<lparr>db_clock := 103, db_served := 3\<rparr>,
       trace := [Subscribe ''tools'', Subscribe ''movements'', ToolsSelectAllOrderByName,
         MovementsSelectByStatusOrderByCheckoutDateDesc ''active'', Subscribe ''movements'',
         MovementsSelectAllOrderByCreatedAtDesc],
       tools := [hammer_row], loading := False, subscriptions := [''tools'', ''movements''],
       movements_loading := False, movements_subscriptions := [''movements'']\<rparr>"
  by (simp add: page_def useTools_mount_def useMovements_mount_def loadData_def subscribe_def
      movements_subscribe_def fetchTools_def fetchToolsInUse_def fetchMovements_def remote_def
      or_empty_def mem_simps init_def empty_db_def stock_db_def numeral_2_eq_2 numeral_3_eq_3)

section \<open>Claims\<close>

text \<open>
  C8: with a client, \<^verbatim>\<open>signIn\<close> issues one request, the backend's
  \<^verbatim>\<open>signInWithPassword\<close> with the given email and password, and returns the
  \<open>data\<close> and \<open>error\<close> of its response as they are; \<^verbatim>\<open>signOut\<close> issues
  the backend's \<^verbatim>\<open>signOut\<close> and returns the \<open>error\<close> of its response as it is.
  Nothing else changes.
\<close>

theorem signIn_signOut_forward:
  "signIn (Some bk) email password s =
     (fst (auth_sign_in bk email password (world s)),
      s\<lparr>world := snd (auth_sign_in bk email password (world s)),
        trace := trace s @ [AuthSignInWithPassword email password]\<rparr>)
   \<and> signOut (Some bk) s =
     (snd (fst (auth_sign_out bk (world s))),
      s\<lparr>world := snd (auth_sign_out bk (world s)), trace := trace s @ [AuthSignOut]\<rparr>)"
  by (simp add: signIn_def signOut_def remote_def split: prod.splits)

theorem signIn_signOut_forward_witness:
  "fst (signIn (Some mem_backend) ''ana@taller.example'' ''secreto'' (init users_db))
     = (Some ''ana@taller.example'', None)
   \<and> fst (signIn (Some mem_backend) ''ana@taller.example'' ''otro'' (init users_db))
     = (None, Some (BackendError ''Invalid login credentials''))
   \<and> trace (snd (signIn (Some mem_backend) ''ana@taller.example'' ''otro'' (init users_db)))
     = [AuthSignInWithPassword ''ana@taller.example'' ''otro'']
   \<and> fst (signOut (Some mem_backend) (init users_db)) = None
   \<and> trace (snd (signOut (Some mem_backend) (init users_db))) = [AuthSignOut]"
  using signIn_signOut_forward [of mem_backend "''ana@taller.example''" "''secreto''" "init users_db"]
    signIn_signOut_forward [of mem_backend "''ana@taller.example''" "''otro''" "init users_db"]
  by (simp add: mem_backend_def serve_def users_db_def empty_db_def init_def)

text \<open>
  C9: without a client (\<^verbatim>\<open>supabase\<close> is \<^verbatim>\<open>null\<close>)
  \<^verbatim>\<open>fetchMovements\<close> warns, sets \<open>movements\<close> to the empty list and
  \<open>loading\<close> to false and issues no request; \<^verbatim>\<open>createCheckout\<close>,
  \<^verbatim>\<open>createCheckin\<close> and \<^verbatim>\<open>signIn\<close> return \<open>data\<close> null with the
  error 'Supabase not configured', \<^verbatim>\<open>signOut\<close> returns that error, all without
  a request. The operations of \<^verbatim>\<open>useTools\<close> have no such guard: they
  dereference the null client, and what they log or return is the TypeError of that.
\<close>

theorem unconfigured_client:
  "fetchMovements None s =
     s\<lparr>console := console s @ [Warn ''Supabase not configured - using empty movements list''],
       movements := [], movements_loading := False\<rparr>
   \<and> createCheckout None toolId toolName qty userName ar nts s =
       ((None, Some (Error ''Supabase not configured'')), s)
   \<and> createCheckin None movementId returnQuantity userName nts s =
       ((None, Some (Error ''Supabase not configured'')), s)
   \<and> signIn None email password s = ((None, Some (Error ''Supabase not configured'')), s)
   \<and> signOut None s = (Some (Error ''Supabase not configured''), s)
   \<and> fetchTools None s =
       s\<lparr>console := console s @ [ErrorLog ''Error fetching tools:'' (null_client ''from'')]\<rparr>
   \<and> fetchToolsInUse None s =
       s\<lparr>console := console s @ [ErrorLog ''Error fetching tools in use:'' (null_client ''from'')]\<rparr>
   \<and> addTool None t s = ((None, Some (null_client ''from'')), s)
   \<and> updateTool None i updates s = ((None, Some (null_client ''from'')), s)
   \<and> deleteTool None i s = (Some (null_client ''from''), s)
   \<and> fst (useTools_mount None s) = Some (null_client ''channel'')
   \<and> null_client ''from'' \<noteq> Error ''Supabase not configured''
   \<and> null_client ''channel'' \<noteq> Error ''Supabase not configured''"
  by (simp add: fetchMovements_def createCheckout_def createCheckin_def signIn_def signOut_def
      fetchTools_def fetchToolsInUse_def addTool_def updateTool_def deleteTool_def
      useTools_mount_def console_warn_def console_error_def not_configured_def null_client_def)

theorem unconfigured_client_witness:
  "trace (fetchMovements None (init empty_db)) = []
   \<and> movements (fetchMovements None (init empty_db)) = []
   \<and> movements_loading (fetchMovements None (init empty_db)) = False
   \<and> world (fetchMovements None (init empty_db)) = empty_db
   \<and> createCheckout None ''t1'' ''hammer'' 1 ''ana'' ''taller'' None (init empty_db)
       = ((None, Some (Error ''Supabase not configured'')), init empty_db)
   \<and> tools (fetchTools None (init empty_db)) = []
   \<and> console (fetchTools None (init empty_db))
       = [ErrorLog ''Error fetching tools:'' (TypeError ''Cannot read properties of null (reading from)'')]"
  using unconfigured_client [of "init empty_db" "''t1''" "''hammer''" 1 "''ana''" "''taller''" None]
  by (simp add: init_def null_client_def)

text \<open>
  C7: after a \<^verbatim>\<open>fetchToolsInUse\<close> whose request came back without error,
  \<open>toolsInUse\<close> is the list of the rows of the response, in their order, each mapped to a
  \<^verbatim>\<open>ToolUsage\<close> that copies \<open>tool_id\<close>, \<open>tool_name\<close>, \<open>user_name\<close>,
  \<open>area\<close>, \<open>quantity\<close> and \<open>checkout_date\<close> and takes \<open>movement_id\<close> from the
  row's id; the one request issued asks for the movements with status 'active' ordered by
  \<open>checkout_date\<close> descending. On the reference backend these rows are exactly the rows
  of the table \<^verbatim>\<open>movements\<close> with status 'active', and \<open>toolsInUse\<close> is in
  descending order of \<open>checkout_date\<close>.
\<close>

theorem toolsInUse_mirrors_active:
  "(\<forall>rows w. movements_select_by_status bk ''active'' (world s) = ((Some rows, None), w) \<longrightarrow>
      toolsInUse (fetchToolsInUse (Some bk) s) = map usage_of rows
      \<and> issued s (fetchToolsInUse (Some bk) s) = [MovementsSelectByStatusOrderByCheckoutDateDesc ''active'']
      \<and> (\<forall>i < length rows.
            usage_tool_id (toolsInUse (fetchToolsInUse (Some bk) s) ! i) = tool_id (rows ! i)
          \<and> usage_tool_name (toolsInUse (fetchToolsInUse (Some bk) s) ! i) = tool_name (rows ! i)
          \<and> usage_user_name (toolsInUse (fetchToolsInUse (Some bk) s) ! i) = user_name (rows ! i)
          \<and> usage_area (toolsInUse (fetchToolsInUse (Some bk) s) ! i) = area (rows ! i)
          \<and> usage_quantity (toolsInUse (fetchToolsInUse (Some bk) s) ! i) = quantity (rows ! i)
          \<and> usage_checkout_date (toolsInUse (fetchToolsInUse (Some bk) s) ! i) = checkout_date (rows ! i)
          \<and> usage_movement_id (toolsInUse (fetchToolsInUse (Some bk) s) ! i) = movement_row_id (rows ! i)))
   \<and> (db_served (world t) \<notin> set (db_failing (world t)) \<longrightarrow>
        toolsInUse (fetchToolsInUse (Some mem_backend) t)
          = map usage_of (active_desc ''active'' (db_movements (world t)))
      \<and> set (active_desc ''active'' (db_movements (world t)))
          = {m \<in> set (db_movements (world t)). status m = ''active''}
      \<and> length (toolsInUse (fetchToolsInUse (Some mem_backend) t))
          = length (filter (\<lambda>m. status m = ''active'') (db_movements (world t)))
      \<and> sorted (rev (map usage_checkout_date (toolsInUse (fetchToolsInUse (Some mem_backend) t)))))"
proof (intro conjI allI impI)
  fix rows w
  assume r: "movements_select_by_status bk ''active'' (world s) = ((Some rows, None), w)"
  have eq: "fetchToolsInUse (Some bk) s =
      s\<lparr>world := w,
        trace := trace s @ [MovementsSelectByStatusOrderByCheckoutDateDesc ''active''],
        toolsInUse := map usage_of (or_empty (Some rows))\<rparr>"
    by (rule fetchToolsInUse_ok [OF r])
  show u: "toolsInUse (fetchToolsInUse (Some bk) s) = map usage_of rows"
    by (simp add: eq or_empty_def)
  show "issued s (fetchToolsInUse (Some bk) s) = [MovementsSelectByStatusOrderByCheckoutDateDesc ''active'']"
    by (simp add: eq issued_def)
  fix i
  assume i: "i < length rows"
  show "usage_tool_id (toolsInUse (fetchToolsInUse (Some bk) s) ! i) = tool_id (rows ! i)"
    "usage_tool_name (toolsInUse (fetchToolsInUse (Some bk) s) ! i) = tool_name (rows ! i)"
    "usage_user_name (toolsInUse (fetchToolsInUse (Some bk) s) ! i) = user_name (rows ! i)"
    "usage_area (toolsInUse (fetchToolsInUse (Some bk) s) ! i) = area (rows ! i)"
    "usage_quantity (toolsInUse (fetchToolsInUse (Some bk) s) ! i) = quantity (rows ! i)"
    "usage_checkout_date (toolsInUse (fetchToolsInUse (Some bk) s) ! i) = checkout_date (rows ! i)"
    "usage_movement_id (toolsInUse (fetchToolsInUse (Some bk) s) ! i) = movement_row_id (rows ! i)"
    using i by (simp_all add: u usage_of_fields)
next
  assume ok: "db_served (world t) \<notin> set (db_failing (world t))"
  have eq: "fetchToolsInUse (Some mem_backend) t =
      t\<lparr>world := (world t)\<lparr>db_clock := Suc (db_clock (world t)), db_served := Suc (db_served (world t))\<rparr>,
        trace := trace t @ [MovementsSelectByStatusOrderByCheckoutDateDesc ''active''],
        toolsInUse := map usage_of (or_empty (Some (active_desc ''active'' (db_movements (world t)))))\<rparr>"
    by (rule fetchToolsInUse_ok [OF mem_select_by_status [OF ok]])
  show u: "toolsInUse (fetchToolsInUse (Some mem_backend) t)
      = map usage_of (active_desc ''active'' (db_movements (world t)))"
    by (simp add: eq or_empty_def)
  show "set (active_desc ''active'' (db_movements (world t)))
      = {m \<in> set (db_movements (world t)). status m = ''active''}"
    by (rule active_desc_set)
  show "length (toolsInUse (fetchToolsInUse (Some mem_backend) t))
      = length (filter (\<lambda>m. status m = ''active'') (db_movements (world t)))"
    by (simp add: u active_desc_length)
  have "map usage_checkout_date (map usage_of xs) = map checkout_date xs" for xs :: "movement list"
    by (induction xs) (simp_all add: usage_of_fields)
  then have "map usage_checkout_date (toolsInUse (fetchToolsInUse (Some mem_backend) t))
      = map checkout_date (active_desc ''active'' (db_movements (world t)))"
    by (simp only: u)
  then show "sorted (rev (map usage_checkout_date (toolsInUse (fetchToolsInUse (Some mem_backend) t))))"
    by (simp only: active_desc_sorted)
qed

theorem toolsInUse_mirrors_active_witness:
  "toolsInUse (fetchToolsInUse (Some mem_backend) (init movements_db))
     = [\<lparr>usage_tool_id = ''t2'', usage_tool_name = ''saw'', usage_user_name = ''luis'',
         usage_area = ''obra'', usage_quantity = 1, usage_checkout_date = 30,
         usage_movement_id = ''m2''\<rparr>,
        \<lparr>usage_tool_id = ''t1'', usage_tool_name = ''hammer'', usage_user_name = ''ana'',
         usage_area = ''taller'', usage_quantity = 2, usage_checkout_date = 10,
         usage_movement_id = ''m1''\<rparr>]"
proof -
  have ok: "db_served (world (init movements_db)) \<notin> set (db_failing (world (init movements_db)))"
    by (simp add: init_def movements_db_def empty_db_def)
  have rows: "active_desc ''active'' (db_movements (world (init movements_db))) = [checkout_b, checkout_a]"
    by (simp add: active_desc_def init_def movements_db_def empty_db_def checkout_a_def
        checkout_b_def checkout_c_def)
  from toolsInUse_mirrors_active [of mem_backend "init movements_db" "init movements_db"] ok
  have "toolsInUse (fetchToolsInUse (Some mem_backend) (init movements_db))
      = map usage_of (active_desc ''active'' (db_movements (world (init movements_db))))"
    by blast
  then show ?thesis
    by (simp add: rows usage_of_def checkout_a_def checkout_b_def)
qed

text \<open>
  C2, as stated, fails: a checkout that passes the stock guard (5 available, 2 requested)
  and whose insert the backend rejects returns the backend's error, leaves no movement
  behind and writes no stock update; the stock stays 5.
\<close>

theorem checkout_insert_rejected:
  "fst (fst (tools_select_available_stock mem_backend ''t1'' (world (init insert_fails_db)))) = Some 5
   \<and> \<not> (5::int) < 2
   \<and> fst (createCheckout (Some mem_backend) ''t1'' ''hammer'' 2 ''ana'' ''taller'' None (init insert_fails_db))
       = (None, Some (BackendError ''request failed''))
   \<and> trace (snd (createCheckout (Some mem_backend) ''t1'' ''hammer'' 2 ''ana'' ''taller'' None
         (init insert_fails_db)))
       = [ToolsSelectAvailableStockById ''t1'',
          MovementsInsert (checkout_row ''t1'' ''hammer'' 2 ''ana'' ''taller'' None 101)]
   \<and> db_movements (world (snd (createCheckout (Some mem_backend) ''t1'' ''hammer'' 2 ''ana'' ''taller''
         None (init insert_fails_db)))) = []
   \<and> map available_stock (db_tools (world (snd (createCheckout (Some mem_backend) ''t1'' ''hammer'' 2
         ''ana'' ''taller'' None (init insert_fails_db))))) = [5]"
  by (simp add: createCheckout_def remote_def mem_simps example_simps insert_fails_db_def)

text \<open>
  C2, amended: with a client, \<^verbatim>\<open>createCheckout\<close> first reads the tool's
  \<open>available_stock\<close>. If no row comes back, or the value is less than the requested
  quantity, it returns \<open>data\<close> null with the error 'Stock insuficiente' and has issued
  nothing but that read. Otherwise it issues the insert of an 'active' checkout movement
  for the tool and the quantity; if the backend rejects the insert, it returns that error
  and issues nothing more; if the insert is accepted, it writes
  \<open>available_stock\<close> = the value read minus the quantity, which is not negative,
  re-fetches the movements and returns the inserted row.
\<close>

theorem checkout_guard:
  "(\<forall>err w1. tools_select_available_stock bk toolId (world s) = ((None, err), w1) \<longrightarrow>
      createCheckout (Some bk) toolId toolName qty userName ar nts s =
        ((None, Some (Error ''Stock insuficiente'')),
         s\<lparr>world := w1, trace := trace s @ [ToolsSelectAvailableStockById toolId]\<rparr>))
   \<and> (\<forall>a err w1. tools_select_available_stock bk toolId (world s) = ((Some a, err), w1) \<and> a < qty \<longrightarrow>
      createCheckout (Some bk) toolId toolName qty userName ar nts s =
        ((None, Some (Error ''Stock insuficiente'')),
         s\<lparr>world := w1, trace := trace s @ [ToolsSelectAvailableStockById toolId]\<rparr>))
   \<and> (\<forall>a err w1 d e w2.
        tools_select_available_stock bk toolId (world s) = ((Some a, err), w1) \<and> \<not> a < qty
        \<and> movements_insert bk (checkout_row toolId toolName qty userName ar nts (now bk w1)) w1
            = ((d, Some e), w2) \<longrightarrow>
      createCheckout (Some bk) toolId toolName qty userName ar nts s =
        ((None, Some e),
         s\<lparr>world := w2,
           trace := trace s @ [ToolsSelectAvailableStockById toolId,
             MovementsInsert (checkout_row toolId toolName qty userName ar nts (now bk w1))]\<rparr>))
   \<and> (\<forall>a err w1 d w2.
        tools_select_available_stock bk toolId (world s) = ((Some a, err), w1) \<and> \<not> a < qty
        \<and> movements_insert bk (checkout_row toolId toolName qty userName ar nts (now bk w1)) w1
            = ((d, None), w2) \<longrightarrow>
      fst (createCheckout (Some bk) toolId toolName qty userName ar nts s) = (d, None)
      \<and> issued s (snd (createCheckout (Some bk) toolId toolName qty userName ar nts s)) =
          [ToolsSelectAvailableStockById toolId,
           MovementsInsert (checkout_row toolId toolName qty userName ar nts (now bk w1)),
           ToolsUpdateById toolId (no_patch\<lparr>patch_available_stock := Some (a - qty)\<rparr>),
           MovementsSelectAllOrderByCreatedAtDesc]
      \<and> 0 \<le> a - qty)
   \<and> status (checkout_row toolId toolName qty userName ar nts t) = ''active''
   \<and> movement_type (checkout_row toolId toolName qty userName ar nts t) = ''checkout''
   \<and> quantity (checkout_row toolId toolName qty userName ar nts t) = qty
   \<and> tool_id (checkout_row toolId toolName qty userName ar nts t) = toolId"
proof (intro conjI allI impI)
  fix err w1
  assume "tools_select_available_stock bk toolId (world s) = ((None, err), w1)"
  then show "createCheckout (Some bk) toolId toolName qty userName ar nts s =
        ((None, Some (Error ''Stock insuficiente'')),
         s\<lparr>world := w1, trace := trace s @ [ToolsSelectAvailableStockById toolId]\<rparr>)"
    by (rule createCheckout_no_tool)
next
  fix a err w1
  assume "tools_select_available_stock bk toolId (world s) = ((Some a, err), w1) \<and> a < qty"
  then show "createCheckout (Some bk) toolId toolName qty userName ar nts s =
        ((None, Some (Error ''Stock insuficiente'')),
         s\<lparr>world := w1, trace := trace s @ [ToolsSelectAvailableStockById toolId]\<rparr>)"
    by (simp add: createCheckout_insufficient)
next
  fix a err w1 d e w2
  assume "tools_select_available_stock bk toolId (world s) = ((Some a, err), w1) \<and> \<not> a < qty
        \<and> movements_insert bk (checkout_row toolId toolName qty userName ar nts (now bk w1)) w1
            = ((d, Some e), w2)"
  then show "createCheckout (Some bk) toolId toolName qty userName ar nts s =
        ((None, Some e),
         s\<lparr>world := w2,
           trace := trace s @ [ToolsSelectAvailableStockById toolId,
             MovementsInsert (checkout_row toolId toolName qty userName ar nts (now bk w1))]\<rparr>)"
    by (simp add: createCheckout_insert_error)
next
  fix a err w1 d w2
  assume h: "tools_select_available_stock bk toolId (world s) = ((Some a, err), w1) \<and> \<not> a < qty
        \<and> movements_insert bk (checkout_row toolId toolName qty userName ar nts (now bk w1)) w1
            = ((d, None), w2)"
  obtain u w3 where upd: "tools_update_by_id bk toolId (stock_patch (a - qty)) w2 = (u, w3)"
    by (cases "tools_update_by_id bk toolId (stock_patch (a - qty)) w2")
  have eq: "createCheckout (Some bk) toolId toolName qty userName ar nts s =
     ((d, None),
      fetchMovements (Some bk)
        (s\<lparr>world := w3,
           trace := trace s @ [ToolsSelectAvailableStockById toolId,
             MovementsInsert (checkout_row toolId toolName qty userName ar nts (now bk w1)),
             ToolsUpdateById toolId (stock_patch (a - qty))]\<rparr>))"
    using h upd by (simp add: createCheckout_ok)
  show "fst (createCheckout (Some bk) toolId toolName qty userName ar nts s) = (d, None)"
    by (simp add: eq)
  show "issued s (snd (createCheckout (Some bk) toolId toolName qty userName ar nts s)) =
          [ToolsSelectAvailableStockById toolId,
           MovementsInsert (checkout_row toolId toolName qty userName ar nts (now bk w1)),
           ToolsUpdateById toolId (no_patch\<lparr>patch_available_stock := Some (a - qty)\<rparr>),
           MovementsSelectAllOrderByCreatedAtDesc]"
    by (simp add: eq issued_def trace_fetchMovements stock_patch_def)
  show "0 \<le> a - qty" using h by simp
qed (simp_all add: checkout_row_def)

theorem checkout_guard_witness:
  "createCheckout (Some mem_backend) ''t1'' ''hammer'' 7 ''ana'' ''taller'' None (init stock_db)
     = ((None, Some (Error ''Stock insuficiente'')),
        (init stock_db)\<lparr>world := stock_db\<lparr>db_clock := 101, db_served := 1\<rparr>,
          trace := [ToolsSelectAvailableStockById ''t1'']\<rparr>)
   \<and> issued (init stock_db)
        (snd (createCheckout (Some mem_backend) ''t1'' ''hammer'' 2 ''ana'' ''taller'' None (init stock_db)))
     = [ToolsSelectAvailableStockById ''t1'',
        MovementsInsert (checkout_row ''t1'' ''hammer'' 2 ''ana'' ''taller'' None 101),
        ToolsUpdateById ''t1'' (no_patch\<lparr>patch_available_stock := Some 3\<rparr>),
        MovementsSelectAllOrderByCreatedAtDesc]"
proof -
  have sel: "tools_select_available_stock mem_backend ''t1'' (world (init stock_db))
      = ((Some 5, None), stock_db\<lparr>db_clock := 101, db_served := 1\<rparr>)"
    by (simp add: mem_simps example_simps)
  have ins: "movements_insert mem_backend
        (checkout_row ''t1'' ''hammer'' 2 ''ana'' ''taller'' None
           (now mem_backend (stock_db\<lparr>db_clock := 101, db_served := 1\<rparr>)))
        (stock_db\<lparr>db_clock := 101, db_served := 1\<rparr>)
      = ((Some (movement_new.extend (checkout_row ''t1'' ''hammer'' 2 ''ana'' ''taller'' None 101)
                  \<lparr>movement_row_id = ''ii'', created_at = 102\<rparr>), None),
         stock_db\<lparr>db_clock := 102, db_served := 2,
           db_movements := [movement_new.extend (checkout_row ''t1'' ''hammer'' 2 ''ana'' ''taller'' None 101)
                  \<lparr>movement_row_id = ''ii'', created_at = 102\<rparr>]\<rparr>)"
    by (simp add: mem_simps example_simps numeral_2_eq_2)
  have nw: "now mem_backend = db_clock"
    by (simp add: mem_backend_def)
  note g = checkout_guard [where bk = mem_backend and toolId = "''t1''" and s = "init stock_db"
      and qty = 7 and toolName = "''hammer''" and userName = "''ana''" and ar = "''taller''" and nts = None]
  note h = checkout_guard [where bk = mem_backend and toolId = "''t1''" and s = "init stock_db"
      and qty = 2 and toolName = "''hammer''" and userName = "''ana''" and ar = "''taller''" and nts = None]
  have a: "createCheckout (Some mem_backend) ''t1'' ''hammer'' 7 ''ana'' ''taller'' None (init stock_db)
     = ((None, Some (Error ''Stock insuficiente'')),
        (init stock_db)\<lparr>world := stock_db\<lparr>db_clock := 101, db_served := 1\<rparr>,
          trace := [ToolsSelectAvailableStockById ''t1'']\<rparr>)"
    using g sel by (simp add: init_def)
  have b: "issued (init stock_db)
        (snd (createCheckout (Some mem_backend) ''t1'' ''hammer'' 2 ''ana'' ''taller'' None (init stock_db)))
     = [ToolsSelectAvailableStockById ''t1'',
        MovementsInsert (checkout_row ''t1'' ''hammer'' 2 ''ana'' ''taller'' None 101),
        ToolsUpdateById ''t1'' (no_patch\<lparr>patch_available_stock := Some 3\<rparr>),
        MovementsSelectAllOrderByCreatedAtDesc]"
    using h sel ins by (simp add: nw)
  show ?thesis using a b by simp
qed

text \<open>
  C4, as stated, fails: a check-in of 2 for an existing movement of an existing tool,
  whose read of the tool's \<open>available_stock\<close> comes back without a row, marks the
  movement returned, inserts the check-in movement and returns it without error, and writes
  no stock update: the stock is 3 before and after.
\<close>

theorem checkin_without_stock_update:
  "fst (createCheckin (Some mem_backend) ''m1'' 2 ''ana'' None (init stock_read_fails_db))
     = (Some (movement_new.extend (checkin_row checkout_a 2 ''ana'' None 102)
          \<lparr>movement_row_id = ''iii'', created_at = 103\<rparr>), None)
   \<and> trace (snd (createCheckin (Some mem_backend) ''m1'' 2 ''ana'' None (init stock_read_fails_db)))
     = [MovementsSelectById ''m1'',
        MovementsUpdateStatusById ''m1'' ''returned'' 101,
        MovementsInsert (checkin_row checkout_a 2 ''ana'' None 102),
        ToolsSelectAvailableStockById ''t1'',
        MovementsSelectAllOrderByCreatedAtDesc]
   \<and> map available_stock (db_tools (world (init stock_read_fails_db))) = [3]
   \<and> map available_stock
        (db_tools (world (snd (createCheckin (Some mem_backend) ''m1'' 2 ''ana'' None
           (init stock_read_fails_db))))) = [3]"
  by (simp add: createCheckin_def remote_def fetchMovements_def mem_simps example_simps lent_simps
      stock_read_fails_db_def numeral_3_eq_3 numeral_2_eq_2)

text \<open>
  C4, amended: with a client, \<^verbatim>\<open>createCheckin\<close> first reads the original
  movement; when no row comes back it returns 'Movimiento no encontrado' and issues nothing
  else. Otherwise it issues the update that marks the movement 'returned' with a
  \<open>checkin_date\<close>, then the insert of a 'returned' checkin movement that copies
  \<open>tool_id\<close>, \<open>tool_name\<close>, \<open>area\<close> and \<open>checkout_date\<close> from the original
  and carries \<open>returnQuantity\<close>. If the insert is rejected it returns that error. If
  it is accepted it reads the tool's \<open>available_stock\<close> and, when a row comes back,
  writes that value plus \<open>returnQuantity\<close>, whatever \<open>returnQuantity\<close> is: nothing
  compares it with the quantity checked out. So a check-in can take
  \<open>available_stock\<close> above \<open>stock\<close>: returning 10 for a movement of 2 takes a
  tool with stock 5 from 3 available to 13.
\<close>

theorem checkin_steps:
  "(\<forall>err w1. movements_select_by_id bk movementId (world s) = ((None, err), w1) \<longrightarrow>
      createCheckin (Some bk) movementId returnQuantity userName nts s =
        ((None, Some (Error ''Movimiento no encontrado'')),
         s\<lparr>world := w1, trace := trace s @ [MovementsSelectById movementId]\<rparr>))
   \<and> (\<forall>m err w1 u w2 d e w3.
        movements_select_by_id bk movementId (world s) = ((Some m, err), w1)
        \<and> movements_update_status bk movementId ''returned'' (now bk w1) w1 = (u, w2)
        \<and> movements_insert bk (checkin_row m returnQuantity userName nts (now bk w2)) w2 = ((d, Some e), w3) \<longrightarrow>
      createCheckin (Some bk) movementId returnQuantity userName nts s =
        ((None, Some e),
         s\<lparr>world := w3,
           trace := trace s @ [MovementsSelectById movementId,
             MovementsUpdateStatusById movementId ''returned'' (now bk w1),
             MovementsInsert (checkin_row m returnQuantity userName nts (now bk w2))]\<rparr>))
   \<and> (\<forall>m err w1 u w2 d w3 err2 w4.
        movements_select_by_id bk movementId (world s) = ((Some m, err), w1)
        \<and> movements_update_status bk movementId ''returned'' (now bk w1) w1 = (u, w2)
        \<and> movements_insert bk (checkin_row m returnQuantity userName nts (now bk w2)) w2 = ((d, None), w3)
        \<and> tools_select_available_stock bk (tool_id m) w3 = ((None, err2), w4) \<longrightarrow>
      fst (createCheckin (Some bk) movementId returnQuantity userName nts s) = (d, None)
      \<and> issued s (snd (createCheckin (Some bk) movementId returnQuantity userName nts s)) =
          [MovementsSelectById movementId,
           MovementsUpdateStatusById movementId ''returned'' (now bk w1),
           MovementsInsert (checkin_row m returnQuantity userName nts (now bk w2)),
           ToolsSelectAvailableStockById (tool_id m),
           MovementsSelectAllOrderByCreatedAtDesc])
   \<and> (\<forall>m err w1 u w2 d w3 a err2 w4.
        movements_select_by_id bk movementId (world s) = ((Some m, err), w1)
        \<and> movements_update_status bk movementId ''returned'' (now bk w1) w1 = (u, w2)
        \<and> movements_insert bk (checkin_row m returnQuantity userName nts (now bk w2)) w2 = ((d, None), w3)
        \<and> tools_select_available_stock bk (tool_id m) w3 = ((Some a, err2), w4) \<longrightarrow>
      fst (createCheckin (Some bk) movementId returnQuantity userName nts s) = (d, None)
      \<and> issued s (snd (createCheckin (Some bk) movementId returnQuantity userName nts s)) =
          [MovementsSelectById movementId,
           MovementsUpdateStatusById movementId ''returned'' (now bk w1),
           MovementsInsert (checkin_row m returnQuantity userName nts (now bk w2)),
           ToolsSelectAvailableStockById (tool_id m),
           ToolsUpdateById (tool_id m) (no_patch\<lparr>patch_available_stock := Some (a + returnQuantity)\<rparr>),
           MovementsSelectAllOrderByCreatedAtDesc])
   \<and> checkin_row m0 returnQuantity userName nts t =
       \<lparr>tool_id = tool_id m0, tool_name = tool_name m0, movement_type = ''checkin'',
        quantity = returnQuantity, user_name = userName, area = area m0, movement_notes = nts,
        checkout_date = checkout_date m0, checkin_date = Some t, status = ''returned''\<rparr>
   \<and> map (\<lambda>t. (stock t, available_stock t))
       (db_tools (world (snd (createCheckin (Some mem_backend) ''m1'' 10 ''ana'' None (init lent_db)))))
     = [(5, 13)]"
proof (intro conjI allI impI)
  fix err w1
  assume "movements_select_by_id bk movementId (world s) = ((None, err), w1)"
  then show "createCheckin (Some bk) movementId returnQuantity userName nts s =
        ((None, Some (Error ''Movimiento no encontrado'')),
         s\<lparr>world := w1, trace := trace s @ [MovementsSelectById movementId]\<rparr>)"
    by (rule createCheckin_not_found)
next
  fix m err w1 u w2 d e w3
  assume "movements_select_by_id bk movementId (world s) = ((Some m, err), w1)
        \<and> movements_update_status bk movementId ''returned'' (now bk w1) w1 = (u, w2)
        \<and> movements_insert bk (checkin_row m returnQuantity userName nts (now bk w2)) w2 = ((d, Some e), w3)"
  then show "createCheckin (Some bk) movementId returnQuantity userName nts s =
        ((None, Some e),
         s\<lparr>world := w3,
           trace := trace s @ [MovementsSelectById movementId,
             MovementsUpdateStatusById movementId ''returned'' (now bk w1),
             MovementsInsert (checkin_row m returnQuantity userName nts (now bk w2))]\<rparr>)"
    by (simp add: createCheckin_insert_error)
next
  fix m err w1 u w2 d w3 err2 w4
  assume "movements_select_by_id bk movementId (world s) = ((Some m, err), w1)
        \<and> movements_update_status bk movementId ''returned'' (now bk w1) w1 = (u, w2)
        \<and> movements_insert bk (checkin_row m returnQuantity userName nts (now bk w2)) w2 = ((d, None), w3)
        \<and> tools_select_available_stock bk (tool_id m) w3 = ((None, err2), w4)"
  then have eq: "createCheckin (Some bk) movementId returnQuantity userName nts s =
     ((d, None),
      fetchMovements (Some bk)
        (s\<lparr>world := w4,
           trace := trace s @ [MovementsSelectById movementId,
             MovementsUpdateStatusById movementId ''returned'' (now bk w1),
             MovementsInsert (checkin_row m returnQuantity userName nts (now bk w2)),
             ToolsSelectAvailableStockById (tool_id m)]\<rparr>))"
    by (simp add: createCheckin_no_tool)
  show "fst (createCheckin (Some bk) movementId returnQuantity userName nts s) = (d, None)"
    by (simp add: eq)
  show "issued s (snd (createCheckin (Some bk) movementId returnQuantity userName nts s)) =
          [MovementsSelectById movementId,
           MovementsUpdateStatusById movementId ''returned'' (now bk w1),
           MovementsInsert (checkin_row m returnQuantity userName nts (now bk w2)),
           ToolsSelectAvailableStockById (tool_id m),
           MovementsSelectAllOrderByCreatedAtDesc]"
    by (simp add: eq issued_def trace_fetchMovements)
next
  fix m err w1 u w2 d w3 a err2 w4
  assume h: "movements_select_by_id bk movementId (world s) = ((Some m, err), w1)
        \<and> movements_update_status bk movementId ''returned'' (now bk w1) w1 = (u, w2)
        \<and> movements_insert bk (checkin_row m returnQuantity userName nts (now bk w2)) w2 = ((d, None), w3)
        \<and> tools_select_available_stock bk (tool_id m) w3 = ((Some a, err2), w4)"
  obtain u2 w5 where
    upd2: "tools_update_by_id bk (tool_id m) (stock_patch (a + returnQuantity)) w4 = (u2, w5)"
    by (cases "tools_update_by_id bk (tool_id m) (stock_patch (a + returnQuantity)) w4")
  have eq: "createCheckin (Some bk) movementId returnQuantity userName nts s =
     ((d, None),
      fetchMovements (Some bk)
        (s\<lparr>world := w5,
           trace := trace s @ [MovementsSelectById movementId,
             MovementsUpdateStatusById movementId ''returned'' (now bk w1),
             MovementsInsert (checkin_row m returnQuantity userName nts (now bk w2)),
             ToolsSelectAvailableStockById (tool_id m),
             ToolsUpdateById (tool_id m) (stock_patch (a + returnQuantity))]\<rparr>))"
    using h upd2 by (simp add: createCheckin_ok)
  show "fst (createCheckin (Some bk) movementId returnQuantity userName nts s) = (d, None)"
    by (simp add: eq)
  show "issued s (snd (createCheckin (Some bk) movementId returnQuantity userName nts s)) =
          [MovementsSelectById movementId,
           MovementsUpdateStatusById movementId ''returned'' (now bk w1),
           MovementsInsert (checkin_row m returnQuantity userName nts (now bk w2)),
           ToolsSelectAvailableStockById (tool_id m),
           ToolsUpdateById (tool_id m) (no_patch\<lparr>patch_available_stock := Some (a + returnQuantity)\<rparr>),
           MovementsSelectAllOrderByCreatedAtDesc]"
    by (simp add: eq issued_def trace_fetchMovements stock_patch_def)
next
  show "checkin_row m0 returnQuantity userName nts t =
       \<lparr>tool_id = tool_id m0, tool_name = tool_name m0, movement_type = ''checkin'',
        quantity = returnQuantity, user_name = userName, area = area m0, movement_notes = nts,
        checkout_date = checkout_date m0, checkin_date = Some t, status = ''returned''\<rparr>"
    by (simp add: checkin_row_def)
next
  show "map (\<lambda>t. (stock t, available_stock t))
       (db_tools (world (snd (createCheckin (Some mem_backend) ''m1'' 10 ''ana'' None (init lent_db)))))
     = [(5, 13)]"
    by (simp add: createCheckin_def remote_def fetchMovements_def mem_simps example_simps lent_simps
        stock_patch_def no_patch_def numeral_3_eq_3 numeral_2_eq_2)
qed

theorem checkin_steps_witness:
  "createCheckin (Some mem_backend) ''m9'' 1 ''ana'' None (init lent_db)
     = ((None, Some (Error ''Movimiento no encontrado'')),
        (init lent_db)\<lparr>world := lent_db\<lparr>db_clock := 101, db_served := 1\<rparr>,
          trace := [MovementsSelectById ''m9'']\<rparr>)
   \<and> map (\<lambda>t. (stock t, available_stock t))
       (db_tools (world (snd (createCheckin (Some mem_backend) ''m1'' 10 ''ana'' None (init lent_db)))))
     = [(5, 13)]
   \<and> quantity checkout_a = 2"
proof -
  have sel: "movements_select_by_id mem_backend ''m9'' (world (init lent_db))
      = ((None, Some (BackendError ''PGRST116'')), lent_db\<lparr>db_clock := 101, db_served := 1\<rparr>)"
    by (simp add: mem_simps example_simps lent_simps)
  note g = checkin_steps [where bk = mem_backend and movementId = "''m9''" and s = "init lent_db"
      and returnQuantity = 1 and userName = "''ana''" and nts = None]
  have a: "createCheckin (Some mem_backend) ''m9'' 1 ''ana'' None (init lent_db)
     = ((None, Some (Error ''Movimiento no encontrado'')),
        (init lent_db)\<lparr>world := lent_db\<lparr>db_clock := 101, db_served := 1\<rparr>,
          trace := [MovementsSelectById ''m9'']\<rparr>)"
    using g sel by (simp add: init_def)
  show ?thesis using a g by (simp add: checkout_a_def)
qed

text \<open>
  C5, as stated, fails twice. A failed \<^verbatim>\<open>fetchMovements\<close> does more than
  log: it empties the list of movements it held. And a failure of the stock update in
  \<^verbatim>\<open>createCheckout\<close> is neither logged nor returned: the result has no error,
  the console is empty, the movement is in the table and the stock is still 5.
\<close>

theorem failure_beyond_log_or_return:
  "movements ((init read_fails_db)\<lparr>movements := [checkout_a]\<rparr>) = [checkout_a]
   \<and> movements (fetchMovements (Some mem_backend) ((init read_fails_db)\<lparr>movements := [checkout_a]\<rparr>)) = []
   \<and> map available_stock (db_tools (world (snd (createCheckout (Some mem_backend) ''t1'' ''hammer'' 2
        ''ana'' ''taller'' None (init update_fails_db))))) = [5]
   \<and> map quantity (db_movements (world (snd (createCheckout (Some mem_backend) ''t1'' ''hammer'' 2
        ''ana'' ''taller'' None (init update_fails_db))))) = [2]
   \<and> snd (fst (createCheckout (Some mem_backend) ''t1'' ''hammer'' 2 ''ana'' ''taller'' None
        (init update_fails_db))) = None
   \<and> console (snd (createCheckout (Some mem_backend) ''t1'' ''hammer'' 2 ''ana'' ''taller'' None
        (init update_fails_db))) = []
   \<and> trace (snd (createCheckout (Some mem_backend) ''t1'' ''hammer'' 2 ''ana'' ''taller'' None
        (init update_fails_db)))
       = [ToolsSelectAvailableStockById ''t1'',
          MovementsInsert (checkout_row ''t1'' ''hammer'' 2 ''ana'' ''taller'' None 101),
          ToolsUpdateById ''t1'' (stock_patch 3),
          MovementsSelectAllOrderByCreatedAtDesc]"
  by (simp add: createCheckout_def fetchMovements_def remote_def console_error_def mem_simps
      example_simps read_fails_db_def update_fails_db_def checkout_row_def movement_new.defs
      numeral_2_eq_2 numeral_3_eq_3)

text \<open>
  C5, amended: when a request whose \<open>error\<close> the operation inspects comes back with
  one (the select of \<^verbatim>\<open>fetchTools\<close>, \<^verbatim>\<open>fetchToolsInUse\<close> and
  \<^verbatim>\<open>fetchMovements\<close>, the write of \<^verbatim>\<open>addTool\<close>,
  \<^verbatim>\<open>updateTool\<close> and \<^verbatim>\<open>deleteTool\<close>, the insert of
  \<^verbatim>\<open>createCheckout\<close> and \<^verbatim>\<open>createCheckin\<close>), the operation issues no
  further request, so neither a retry nor a compensating write: the fetches log the error
  (\<^verbatim>\<open>fetchMovements\<close> also sets \<open>movements\<close> to the empty list and
  \<open>loading\<close> to false), the mutations return it with \<open>data\<close> null. After a
  rejected insert in \<^verbatim>\<open>createCheckin\<close> the update to 'returned' has been issued
  and stays.
\<close>

theorem failure_stops_operation:
  "(\<forall>d e w. tools_select_all bk (world s) = ((d, Some e), w) \<longrightarrow>
      fetchTools (Some bk) s =
        s\<lparr>world := w, trace := trace s @ [ToolsSelectAllOrderByName],
          console := console s @ [ErrorLog ''Error fetching tools:'' e]\<rparr>)
   \<and> (\<forall>d e w. movements_select_by_status bk ''active'' (world s) = ((d, Some e), w) \<longrightarrow>
      fetchToolsInUse (Some bk) s =
        s\<lparr>world := w,
          trace := trace s @ [MovementsSelectByStatusOrderByCheckoutDateDesc ''active''],
          console := console s @ [ErrorLog ''Error fetching tools in use:'' e]\<rparr>)
   \<and> (\<forall>d e w. movements_select_all bk (world s) = ((d, Some e), w) \<longrightarrow>
      fetchMovements (Some bk) s =
        s\<lparr>world := w, trace := trace s @ [MovementsSelectAllOrderByCreatedAtDesc],
          console := console s @ [ErrorLog ''Error fetching movements:'' e],
          movements := [], movements_loading := False\<rparr>)
   \<and> (\<forall>d e w. tools_insert bk (t\<lparr>available_stock := stock t\<rparr>) (world s) = ((d, Some e), w) \<longrightarrow>
      addTool (Some bk) t s =
        ((None, Some e),
         s\<lparr>world := w, trace := trace s @ [ToolsInsert (t\<lparr>available_stock := stock t\<rparr>)]\<rparr>))
   \<and> (\<forall>d e w.
        tools_update_by_id_select bk i (u\<lparr>patch_updated_at := Some (now bk (world s))\<rparr>) (world s)
          = ((d, Some e), w) \<longrightarrow>
      updateTool (Some bk) i u s =
        ((None, Some e),
         s\<lparr>world := w,
           trace := trace s @
             [ToolsUpdateByIdSelect i (u\<lparr>patch_updated_at := Some (now bk (world s))\<rparr>)]\<rparr>))
   \<and> (\<forall>d e w. tools_delete_by_id bk i (world s) = ((d, Some e), w) \<longrightarrow>
      deleteTool (Some bk) i s = (Some e, s\<lparr>world := w, trace := trace s @ [ToolsDeleteById i]\<rparr>))
   \<and> (\<forall>a err w1 d e w2.
        tools_select_available_stock bk toolId (world s) = ((Some a, err), w1) \<and> \<not> a < qty
        \<and> movements_insert bk (checkout_row toolId toolName qty userName ar nts (now bk w1)) w1
            = ((d, Some e), w2) \<longrightarrow>
      createCheckout (Some bk) toolId toolName qty userName ar nts s =
        ((None, Some e),
         s\<lparr>world := w2,
           trace := trace s @ [ToolsSelectAvailableStockById toolId,
             MovementsInsert (checkout_row toolId toolName qty userName ar nts (now bk w1))]\<rparr>))
   \<and> (\<forall>m err w1 r w2 d e w3.
        movements_select_by_id bk movementId (world s) = ((Some m, err), w1)
        \<and> movements_update_status bk movementId ''returned'' (now bk w1) w1 = (r, w2)
        \<and> movements_insert bk (checkin_row m returnQuantity userName nts (now bk w2)) w2
            = ((d, Some e), w3) \<longrightarrow>
      createCheckin (Some bk) movementId returnQuantity userName nts s =
        ((None, Some e),
         s\<lparr>world := w3,
           trace := trace s @ [MovementsSelectById movementId,
             MovementsUpdateStatusById movementId ''returned'' (now bk w1),
             MovementsInsert (checkin_row m returnQuantity userName nts (now bk w2))]\<rparr>))"
proof (intro conjI)
  show "(\<forall>d e w. tools_select_all bk (world s) = ((d, Some e), w) \<longrightarrow>
      fetchTools (Some bk) s =
        s\<lparr>world := w, trace := trace s @ [ToolsSelectAllOrderByName],
          console := console s @ [ErrorLog ''Error fetching tools:'' e]\<rparr>)"
    by (simp add: fetchTools_error)
  show "(\<forall>d e w. movements_select_by_status bk ''active'' (world s) = ((d, Some e), w) \<longrightarrow>
      fetchToolsInUse (Some bk) s =
        s\<lparr>world := w,
          trace := trace s @ [MovementsSelectByStatusOrderByCheckoutDateDesc ''active''],
          console := console s @ [ErrorLog ''Error fetching tools in use:'' e]\<rparr>)"
    by (simp add: fetchToolsInUse_error)
  show "(\<forall>d e w. movements_select_all bk (world s) = ((d, Some e), w) \<longrightarrow>
      fetchMovements (Some bk) s =
        s\<lparr>world := w, trace := trace s @ [MovementsSelectAllOrderByCreatedAtDesc],
          console := console s @ [ErrorLog ''Error fetching movements:'' e],
          movements := [], movements_loading := False\<rparr>)"
    by (simp add: fetchMovements_error)
  show "(\<forall>d e w. tools_insert bk (t\<lparr>available_stock := stock t\<rparr>) (world s) = ((d, Some e), w) \<longrightarrow>
      addTool (Some bk) t s =
        ((None, Some e),
         s\<lparr>world := w, trace := trace s @ [ToolsInsert (t\<lparr>available_stock := stock t\<rparr>)]\<rparr>))"
    by (simp add: addTool_error)
  show "(\<forall>d e w.
        tools_update_by_id_select bk i (u\<lparr>patch_updated_at := Some (now bk (world s))\<rparr>) (world s)
          = ((d, Some e), w) \<longrightarrow>
      updateTool (Some bk) i u s =
        ((None, Some e),
         s\<lparr>world := w,
           trace := trace s @
             [ToolsUpdateByIdSelect i (u\<lparr>patch_updated_at := Some (now bk (world s))\<rparr>)]\<rparr>))"
    by (simp add: updateTool_error)
  show "(\<forall>d e w. tools_delete_by_id bk i (world s) = ((d, Some e), w) \<longrightarrow>
      deleteTool (Some bk) i s = (Some e, s\<lparr>world := w, trace := trace s @ [ToolsDeleteById i]\<rparr>))"
    by (simp add: deleteTool_error)
  show "(\<forall>a err w1 d e w2.
        tools_select_available_stock bk toolId (world s) = ((Some a, err), w1) \<and> \<not> a < qty
        \<and> movements_insert bk (checkout_row toolId toolName qty userName ar nts (now bk w1)) w1
            = ((d, Some e), w2) \<longrightarrow>
      createCheckout (Some bk) toolId toolName qty userName ar nts s =
        ((None, Some e),
         s\<lparr>world := w2,
           trace := trace s @ [ToolsSelectAvailableStockById toolId,
             MovementsInsert (checkout_row toolId toolName qty userName ar nts (now bk w1))]\<rparr>))"
    by (simp add: createCheckout_insert_error)
  show "(\<forall>m err w1 r w2 d e w3.
        movements_select_by_id bk movementId (world s) = ((Some m, err), w1)
        \<and> movements_update_status bk movementId ''returned'' (now bk w1) w1 = (r, w2)
        \<and> movements_insert bk (checkin_row m returnQuantity userName nts (now bk w2)) w2
            = ((d, Some e), w3) \<longrightarrow>
      createCheckin (Some bk) movementId returnQuantity userName nts s =
        ((None, Some e),
         s\<lparr>world := w3,
           trace := trace s @ [MovementsSelectById movementId,
             MovementsUpdateStatusById movementId ''returned'' (now bk w1),
             MovementsInsert (checkin_row m returnQuantity userName nts (now bk w2))]\<rparr>))"
    by (simp add: createCheckin_insert_error)
qed

theorem failure_stops_operation_witness:
  "createCheckin (Some mem_backend) ''m1'' 2 ''ana'' None (init checkin_insert_fails_db)
     = ((None, Some (BackendError ''request failed'')),
        (init checkin_insert_fails_db)
          \<lparr>world := checkin_insert_fails_db
             \<lparr>db_movements := [checkout_a\<lparr>status := ''returned'', checkin_date := Some 101\<rparr>],
              db_clock := 103, db_served := 3\<rparr>,
           trace := [MovementsSelectById ''m1'',
             MovementsUpdateStatusById ''m1'' ''returned'' 101,
             MovementsInsert (checkin_row checkout_a 2 ''ana'' None 102)]\<rparr>)"
proof -
  have nw: "now mem_backend = db_clock"
    by (simp add: mem_backend_def)
  have sel: "movements_select_by_id mem_backend ''m1'' (world (init checkin_insert_fails_db))
      = ((Some checkout_a, None), checkin_insert_fails_db\<lparr>db_clock := 101, db_served := 1\<rparr>)"
    by (simp add: mem_simps example_simps checkin_insert_fails_db_def lent_simps)
  have upd: "movements_update_status mem_backend ''m1'' ''returned'' 101
        (checkin_insert_fails_db\<lparr>db_clock := 101, db_served := 1\<rparr>)
      = ((None, None), checkin_insert_fails_db
           \<lparr>db_movements := [checkout_a\<lparr>status := ''returned'', checkin_date := Some 101\<rparr>],
            db_clock := 102, db_served := 2\<rparr>)"
    by (simp add: mem_simps example_simps checkin_insert_fails_db_def lent_simps)
  have ins: "movements_insert mem_backend (checkin_row checkout_a 2 ''ana'' None 102)
        (checkin_insert_fails_db
           \<lparr>db_movements := [checkout_a\<lparr>status := ''returned'', checkin_date := Some 101\<rparr>],
            db_clock := 102, db_served := 2\<rparr>)
      = ((None, Some (BackendError ''request failed'')), checkin_insert_fails_db
           \<lparr>db_movements := [checkout_a\<lparr>status := ''returned'', checkin_date := Some 101\<rparr>],
            db_clock := 103, db_served := 3\<rparr>)"
    by (simp add: mem_simps example_simps checkin_insert_fails_db_def lent_simps)
  note f = failure_stops_operation [where bk = mem_backend and s = "init checkin_insert_fails_db"
      and movementId = "''m1''" and returnQuantity = 2 and userName = "''ana''" and nts = None]
  show ?thesis using f sel upd ins by (simp add: nw init_def)
qed

text \<open>
  C1, as stated, fails for \<^verbatim>\<open>createCheckout\<close>: the same call writes
  \<open>available_stock\<close> 3 when the row it read first said 5 and 1 when it said 3, values
  that are neither arguments nor anything the backend returned; and asked for 4 of 3 it
  issues no write at all and returns an error of its own making.
\<close>

theorem checkout_computes_stock:
  "trace (snd (createCheckout (Some mem_backend) ''t1'' ''hammer'' 2 ''ana'' ''taller'' None (init stock_db)))
     = [ToolsSelectAvailableStockById ''t1'',
        MovementsInsert (checkout_row ''t1'' ''hammer'' 2 ''ana'' ''taller'' None 101),
        ToolsUpdateById ''t1'' (no_patch\<lparr>patch_available_stock := Some 3\<rparr>),
        MovementsSelectAllOrderByCreatedAtDesc]
   \<and> trace (snd (createCheckout (Some mem_backend) ''t1'' ''hammer'' 2 ''ana'' ''taller'' None (init lent_db)))
     = [ToolsSelectAvailableStockById ''t1'',
        MovementsInsert (checkout_row ''t1'' ''hammer'' 2 ''ana'' ''taller'' None 101),
        ToolsUpdateById ''t1'' (no_patch\<lparr>patch_available_stock := Some 1\<rparr>),
        MovementsSelectAllOrderByCreatedAtDesc]
   \<and> createCheckout (Some mem_backend) ''t1'' ''hammer'' 4 ''ana'' ''taller'' None (init lent_db)
     = ((None, Some (Error ''Stock insuficiente'')),
        (init lent_db)\<lparr>world := lent_db\<lparr>db_clock := 101, db_served := 1\<rparr>,
          trace := [ToolsSelectAvailableStockById ''t1'']\<rparr>)
   \<and> tools_select_available_stock mem_backend ''t1'' (world (init lent_db))
     = ((Some 3, None), lent_db\<lparr>db_clock := 101, db_served := 1\<rparr>)"
  by (simp add: createCheckout_def fetchMovements_def remote_def stock_patch_def mem_simps
      example_simps lent_simps)

text \<open>
  C1, amended: with a client, \<^verbatim>\<open>fetchTools\<close>, \<^verbatim>\<open>fetchToolsInUse\<close>
  and \<^verbatim>\<open>fetchMovements\<close> issue one select each and store the rows of the
  response (the tools in use as their projection); \<^verbatim>\<open>addTool\<close>,
  \<^verbatim>\<open>updateTool\<close> and \<^verbatim>\<open>deleteTool\<close> issue one write built from their
  arguments, return the backend's data and error, and re-fetch the tools after a write
  without error; \<^verbatim>\<open>signIn\<close> and \<^verbatim>\<open>signOut\<close> forward to the auth API.
  \<^verbatim>\<open>createCheckout\<close> and \<^verbatim>\<open>createCheckin\<close> are not passthroughs: after
  their reads they write an \<open>available_stock\<close> computed from the value read, minus the
  quantity checked out or plus the quantity returned.
\<close>

theorem passthrough_operations:
  "(\<forall>d w. tools_select_all bk (world s) = ((d, None), w) \<longrightarrow>
      fetchTools (Some bk) s =
        s\<lparr>world := w, trace := trace s @ [ToolsSelectAllOrderByName], tools := or_empty d\<rparr>)
   \<and> (\<forall>d w. movements_select_by_status bk ''active'' (world s) = ((d, None), w) \<longrightarrow>
      fetchToolsInUse (Some bk) s =
        s\<lparr>world := w,
          trace := trace s @ [MovementsSelectByStatusOrderByCheckoutDateDesc ''active''],
          toolsInUse := map usage_of (or_empty d)\<rparr>)
   \<and> (\<forall>d w. movements_select_all bk (world s) = ((d, None), w) \<longrightarrow>
      fetchMovements (Some bk) s =
        s\<lparr>world := w, trace := trace s @ [MovementsSelectAllOrderByCreatedAtDesc],
          movements := or_empty d, movements_loading := False\<rparr>)
   \<and> (\<forall>d err w. tools_insert bk (t\<lparr>available_stock := stock t\<rparr>) (world s) = ((d, err), w) \<longrightarrow>
      fst (addTool (Some bk) t s) = ((case err of None \<Rightarrow> d | Some e \<Rightarrow> None), err)
      \<and> issued s (snd (addTool (Some bk) t s)) =
          ToolsInsert (t\<lparr>available_stock := stock t\<rparr>) #
            (case err of None \<Rightarrow> [ToolsSelectAllOrderByName] | Some e \<Rightarrow> []))
   \<and> (\<forall>d err w.
        tools_update_by_id_select bk i (u\<lparr>patch_updated_at := Some (now bk (world s))\<rparr>) (world s)
          = ((d, err), w) \<longrightarrow>
      fst (updateTool (Some bk) i u s) = ((case err of None \<Rightarrow> d | Some e \<Rightarrow> None), err)
      \<and> issued s (snd (updateTool (Some bk) i u s)) =
          ToolsUpdateByIdSelect i (u\<lparr>patch_updated_at := Some (now bk (world s))\<rparr>) #
            (case err of None \<Rightarrow> [ToolsSelectAllOrderByName] | Some e \<Rightarrow> []))
   \<and> (\<forall>d err w. tools_delete_by_id bk i (world s) = ((d, err), w) \<longrightarrow>
      fst (deleteTool (Some bk) i s) = err
      \<and> issued s (snd (deleteTool (Some bk) i s)) =
          ToolsDeleteById i # (case err of None \<Rightarrow> [ToolsSelectAllOrderByName] | Some e \<Rightarrow> []))
   \<and> signIn (Some bk) email password s =
      (fst (auth_sign_in bk email password (world s)),
       s\<lparr>world := snd (auth_sign_in bk email password (world s)),
         trace := trace s @ [AuthSignInWithPassword email password]\<rparr>)
   \<and> signOut (Some bk) s =
      (snd (fst (auth_sign_out bk (world s))),
       s\<lparr>world := snd (auth_sign_out bk (world s)), trace := trace s @ [AuthSignOut]\<rparr>)
   \<and> (\<forall>a err w1 d w2.
        tools_select_available_stock bk toolId (world s) = ((Some a, err), w1) \<and> \<not> a < qty
        \<and> movements_insert bk (checkout_row toolId toolName qty userName ar nts (now bk w1)) w1
            = ((d, None), w2) \<longrightarrow>
      issued s (snd (createCheckout (Some bk) toolId toolName qty userName ar nts s)) =
        [ToolsSelectAvailableStockById toolId,
         MovementsInsert (checkout_row toolId toolName qty userName ar nts (now bk w1)),
         ToolsUpdateById toolId (no_patch\<lparr>patch_available_stock := Some (a - qty)\<rparr>),
         MovementsSelectAllOrderByCreatedAtDesc])
   \<and> (\<forall>m err w1 r w2 d w3 a err2 w4.
        movements_select_by_id bk movementId (world s) = ((Some m, err), w1)
        \<and> movements_update_status bk movementId ''returned'' (now bk w1) w1 = (r, w2)
        \<and> movements_insert bk (checkin_row m returnQuantity userName nts (now bk w2)) w2
            = ((d, None), w3)
        \<and> tools_select_available_stock bk (tool_id m) w3 = ((Some a, err2), w4) \<longrightarrow>
      issued s (snd (createCheckin (Some bk) movementId returnQuantity userName nts s)) =
        [MovementsSelectById movementId,
         MovementsUpdateStatusById movementId ''returned'' (now bk w1),
         MovementsInsert (checkin_row m returnQuantity userName nts (now bk w2)),
         ToolsSelectAvailableStockById (tool_id m),
         ToolsUpdateById (tool_id m) (no_patch\<lparr>patch_available_stock := Some (a + returnQuantity)\<rparr>),
         MovementsSelectAllOrderByCreatedAtDesc])"
proof (intro conjI)
  show "(\<forall>d w. tools_select_all bk (world s) = ((d, None), w) \<longrightarrow>
      fetchTools (Some bk) s =
        s\<lparr>world := w, trace := trace s @ [ToolsSelectAllOrderByName], tools := or_empty d\<rparr>)"
    by (simp add: fetchTools_ok)
  show "(\<forall>d w. movements_select_by_status bk ''active'' (world s) = ((d, None), w) \<longrightarrow>
      fetchToolsInUse (Some bk) s =
        s\<lparr>world := w,
          trace := trace s @ [MovementsSelectByStatusOrderByCheckoutDateDesc ''active''],
          toolsInUse := map usage_of (or_empty d)\<rparr>)"
    by (simp add: fetchToolsInUse_ok)
  show "(\<forall>d w. movements_select_all bk (world s) = ((d, None), w) \<longrightarrow>
      fetchMovements (Some bk) s =
        s\<lparr>world := w, trace := trace s @ [MovementsSelectAllOrderByCreatedAtDesc],
          movements := or_empty d, movements_loading := False\<rparr>)"
    by (simp add: fetchMovements_ok)
  show "(\<forall>d err w. tools_insert bk (t\<lparr>available_stock := stock t\<rparr>) (world s) = ((d, err), w) \<longrightarrow>
      fst (addTool (Some bk) t s) = ((case err of None \<Rightarrow> d | Some e \<Rightarrow> None), err)
      \<and> issued s (snd (addTool (Some bk) t s)) =
          ToolsInsert (t\<lparr>available_stock := stock t\<rparr>) #
            (case err of None \<Rightarrow> [ToolsSelectAllOrderByName] | Some e \<Rightarrow> []))"
    by (intro allI impI; rule addTool_result; assumption)
  show "(\<forall>d err w.
        tools_update_by_id_select bk i (u\<lparr>patch_updated_at := Some (now bk (world s))\<rparr>) (world s)
          = ((d, err), w) \<longrightarrow>
      fst (updateTool (Some bk) i u s) = ((case err of None \<Rightarrow> d | Some e \<Rightarrow> None), err)
      \<and> issued s (snd (updateTool (Some bk) i u s)) =
          ToolsUpdateByIdSelect i (u\<lparr>patch_updated_at := Some (now bk (world s))\<rparr>) #
            (case err of None \<Rightarrow> [ToolsSelectAllOrderByName] | Some e \<Rightarrow> []))"
    by (intro allI impI; rule updateTool_result; assumption)
  show "(\<forall>d err w. tools_delete_by_id bk i (world s) = ((d, err), w) \<longrightarrow>
      fst (deleteTool (Some bk) i s) = err
      \<and> issued s (snd (deleteTool (Some bk) i s)) =
          ToolsDeleteById i # (case err of None \<Rightarrow> [ToolsSelectAllOrderByName] | Some e \<Rightarrow> []))"
    by (intro allI impI; rule deleteTool_result; assumption)
  show "signIn (Some bk) email password s =
      (fst (auth_sign_in bk email password (world s)),
       s\<lparr>world := snd (auth_sign_in bk email password (world s)),
         trace := trace s @ [AuthSignInWithPassword email password]\<rparr>)"
    by (simp add: signIn_def remote_def split: prod.splits)
  show "signOut (Some bk) s =
      (snd (fst (auth_sign_out bk (world s))),
       s\<lparr>world := snd (auth_sign_out bk (world s)), trace := trace s @ [AuthSignOut]\<rparr>)"
    by (simp add: signOut_def remote_def split: prod.splits)
  show "(\<forall>a err w1 d w2.
        tools_select_available_stock bk toolId (world s) = ((Some a, err), w1) \<and> \<not> a < qty
        \<and> movements_insert bk (checkout_row toolId toolName qty userName ar nts (now bk w1)) w1
            = ((d, None), w2) \<longrightarrow>
      issued s (snd (createCheckout (Some bk) toolId toolName qty userName ar nts s)) =
        [ToolsSelectAvailableStockById toolId,
         MovementsInsert (checkout_row toolId toolName qty userName ar nts (now bk w1)),
         ToolsUpdateById toolId (no_patch\<lparr>patch_available_stock := Some (a - qty)\<rparr>),
         MovementsSelectAllOrderByCreatedAtDesc])"
    by (intro allI impI; elim conjE; rule createCheckout_ok_issued; assumption)
  show "(\<forall>m err w1 r w2 d w3 a err2 w4.
        movements_select_by_id bk movementId (world s) = ((Some m, err), w1)
        \<and> movements_update_status bk movementId ''returned'' (now bk w1) w1 = (r, w2)
        \<and> movements_insert bk (checkin_row m returnQuantity userName nts (now bk w2)) w2
            = ((d, None), w3)
        \<and> tools_select_available_stock bk (tool_id m) w3 = ((Some a, err2), w4) \<longrightarrow>
      issued s (snd (createCheckin (Some bk) movementId returnQuantity userName nts s)) =
        [MovementsSelectById movementId,
         MovementsUpdateStatusById movementId ''returned'' (now bk w1),
         MovementsInsert (checkin_row m returnQuantity userName nts (now bk w2)),
         ToolsSelectAvailableStockById (tool_id m),
         ToolsUpdateById (tool_id m) (no_patch\<lparr>patch_available_stock := Some (a + returnQuantity)\<rparr>),
         MovementsSelectAllOrderByCreatedAtDesc])"
    by (intro allI impI; elim conjE; rule createCheckin_ok_issued; assumption)
qed

theorem passthrough_operations_witness:
  "fst (addTool (Some mem_backend) hammer (init empty_db))
     = (Some \<lparr>name = ''hammer'', stock = 5, available_stock = 5, other_columns = [],
          tool_row_id = ''i'', tool_created_at = 101, tool_updated_at = 101\<rparr>, None)
   \<and> issued (init empty_db) (snd (addTool (Some mem_backend) hammer (init empty_db)))
     = [ToolsInsert (hammer\<lparr>available_stock := stock hammer\<rparr>), ToolsSelectAllOrderByName]
   \<and> issued (init stock_db)
        (snd (createCheckout (Some mem_backend) ''t1'' ''hammer'' 2 ''ana'' ''taller'' None (init stock_db)))
     = [ToolsSelectAvailableStockById ''t1'',
        MovementsInsert (checkout_row ''t1'' ''hammer'' 2 ''ana'' ''taller'' None 101),
        ToolsUpdateById ''t1'' (no_patch\<lparr>patch_available_stock := Some 3\<rparr>),
        MovementsSelectAllOrderByCreatedAtDesc]"
proof -
  have nw: "now mem_backend = db_clock"
    by (simp add: mem_backend_def)
  have ins: "tools_insert mem_backend (hammer\<lparr>available_stock := stock hammer\<rparr>) (world (init empty_db))
      = ((Some \<lparr>name = ''hammer'', stock = 5, available_stock = 5, other_columns = [],
            tool_row_id = ''i'', tool_created_at = 101, tool_updated_at = 101\<rparr>, None),
         empty_db\<lparr>db_tools := [\<lparr>name = ''hammer'', stock = 5, available_stock = 5, other_columns = [],
            tool_row_id = ''i'', tool_created_at = 101, tool_updated_at = 101\<rparr>],
           db_clock := 101, db_served := 1\<rparr>)"
    by (simp add: mem_simps example_simps hammer_def)
  have sel: "tools_select_available_stock mem_backend ''t1'' (world (init stock_db))
      = ((Some 5, None), stock_db\<lparr>db_clock := 101, db_served := 1\<rparr>)"
    by (simp add: mem_simps example_simps)
  have mins: "movements_insert mem_backend
        (checkout_row ''t1'' ''hammer'' 2 ''ana'' ''taller'' None 101)
        (stock_db\<lparr>db_clock := 101, db_served := 1\<rparr>)
      = ((Some (movement_new.extend (checkout_row ''t1'' ''hammer'' 2 ''ana'' ''taller'' None 101)
                  \<lparr>movement_row_id = ''ii'', created_at = 102\<rparr>), None),
         stock_db\<lparr>db_clock := 102, db_served := 2,
           db_movements := [movement_new.extend (checkout_row ''t1'' ''hammer'' 2 ''ana'' ''taller'' None 101)
                  \<lparr>movement_row_id = ''ii'', created_at = 102\<rparr>]\<rparr>)"
    by (simp add: mem_simps example_simps numeral_2_eq_2)
  note p1 = passthrough_operations [where bk = mem_backend and s = "init empty_db" and t = hammer]
  note p2 = passthrough_operations [where bk = mem_backend and s = "init stock_db"
      and toolId = "''t1''" and toolName = "''hammer''" and qty = 2 and userName = "''ana''"
      and ar = "''taller''" and nts = None]
  have a: "fst (addTool (Some mem_backend) hammer (init empty_db))
       = (Some \<lparr>name = ''hammer'', stock = 5, available_stock = 5, other_columns = [],
          tool_row_id = ''i'', tool_created_at = 101, tool_updated_at = 101\<rparr>, None)
     \<and> issued (init empty_db) (snd (addTool (Some mem_backend) hammer (init empty_db)))
       = [ToolsInsert (hammer\<lparr>available_stock := stock hammer\<rparr>), ToolsSelectAllOrderByName]"
    using p1 ins by simp
  have b: "issued (init stock_db)
        (snd (createCheckout (Some mem_backend) ''t1'' ''hammer'' 2 ''ana'' ''taller'' None (init stock_db)))
     = [ToolsSelectAvailableStockById ''t1'',
        MovementsInsert (checkout_row ''t1'' ''hammer'' 2 ''ana'' ''taller'' None 101),
        ToolsUpdateById ''t1'' (no_patch\<lparr>patch_available_stock := Some 3\<rparr>),
        MovementsSelectAllOrderByCreatedAtDesc]"
    using p2 sel mins by (simp add: nw)
  show ?thesis using a b by simp
qed

text \<open>
  C10, as stated, fails in its second half: given an object that has the keys
  \<^verbatim>\<open>id\<close>, \<^verbatim>\<open>created_at\<close> and \<^verbatim>\<open>updated_at\<close> (a row
  of the list, say, which the declared type of the argument accepts),
  \<^verbatim>\<open>addTool\<close> puts all three into the row it inserts, and the backend stores
  them.
\<close>

theorem addTool_forwards_id:
  "inserted_tools (issued (init empty_db) (snd (addTool (Some mem_backend) known_tool (init empty_db))))
     = [\<lparr>name = ''hammer'', stock = 5, available_stock = 5, other_columns = [],
         new_id = Some ''t1'', new_created_at = Some 1, new_updated_at = Some 1\<rparr>]
   \<and> db_tools (world (snd (addTool (Some mem_backend) known_tool (init empty_db))))
     = [\<lparr>name = ''hammer'', stock = 5, available_stock = 5, other_columns = [],
         tool_row_id = ''t1'', tool_created_at = 1, tool_updated_at = 1\<rparr>]"
  by (simp add: addTool_def fetchTools_def remote_def issued_def mem_simps example_simps known_tool_def)

text \<open>
  C10, amended: the one row that \<^verbatim>\<open>addTool\<close> inserts is the given object
  with \<open>available_stock\<close> set to the given \<open>stock\<close>, whatever
  \<open>available_stock\<close> it carried, and every other key as given. So
  \<^verbatim>\<open>addTool\<close> adds no \<^verbatim>\<open>id\<close>, \<^verbatim>\<open>created_at\<close> or
  \<^verbatim>\<open>updated_at\<close> of its own: the row has each of them exactly when the
  argument has it, and none when the argument has only the keys its type lists.
\<close>

theorem addTool_inserts_full_stock:
  "inserted_tools (issued s (snd (addTool (Some bk) t s))) = [t\<lparr>available_stock := stock t\<rparr>]
   \<and> available_stock (t\<lparr>available_stock := stock t\<rparr>) = stock t
   \<and> stock (t\<lparr>available_stock := stock t\<rparr>) = stock t
   \<and> name (t\<lparr>available_stock := stock t\<rparr>) = name t
   \<and> other_columns (t\<lparr>available_stock := stock t\<rparr>) = other_columns t
   \<and> new_id (t\<lparr>available_stock := stock t\<rparr>) = new_id t
   \<and> new_created_at (t\<lparr>available_stock := stock t\<rparr>) = new_created_at t
   \<and> new_updated_at (t\<lparr>available_stock := stock t\<rparr>) = new_updated_at t
   \<and> (new_id t = None \<and> new_created_at t = None \<and> new_updated_at t = None \<longrightarrow>
        inserted_tools (issued s (snd (addTool (Some bk) t s)))
          = [\<lparr>name = name t, stock = stock t, available_stock = stock t,
              other_columns = other_columns t,
              new_id = None, new_created_at = None, new_updated_at = None\<rparr>])"
  by (cases t) (simp add: addTool_issued)

theorem addTool_inserts_full_stock_witness:
  "new_id hammer = None \<and> new_created_at hammer = None \<and> new_updated_at hammer = None
   \<and> available_stock hammer = 0
   \<and> inserted_tools (issued (init empty_db) (snd (addTool (Some mem_backend) hammer (init empty_db))))
     = [\<lparr>name = ''hammer'', stock = 5, available_stock = 5, other_columns = [],
         new_id = None, new_created_at = None, new_updated_at = None\<rparr>]"
  using addTool_inserts_full_stock [of "init empty_db" mem_backend hammer]
  by (simp add: hammer_def)

text \<open>
  C6, as stated, fails in its last clause: events are not the only path by which changes
  made elsewhere reach local state. On a page that has unmounted \<^verbatim>\<open>useTools\<close>
  and holds no subscription, after another client has written a tool and a movement,
  \<^verbatim>\<open>refetch\<close> brings both into \<open>tools\<close> and \<open>toolsInUse\<close>, and the
  re-fetch after deleting an unrelated tool brings the new tool into \<open>tools\<close>.
\<close>

theorem refetch_without_subscription:
  "subscriptions written_elsewhere = []
   \<and> tools written_elsewhere = []
   \<and> toolsInUse written_elsewhere = []
   \<and> db_tools (world written_elsewhere) = [hammer_row]
   \<and> db_movements (world written_elsewhere) = [checkout_a]
   \<and> tools (useTools_refetch (Some mem_backend) written_elsewhere) = [hammer_row]
   \<and> toolsInUse (useTools_refetch (Some mem_backend) written_elsewhere) = [usage_of checkout_a]
   \<and> fst (deleteTool (Some mem_backend) ''t9'' written_elsewhere) = None
   \<and> tools (snd (deleteTool (Some mem_backend) ''t9'' written_elsewhere)) = [hammer_row]"
proof -
  have act: "status checkout_a = ''active''" and hid: "tool_row_id hammer_row \<noteq> ''t9''"
    by (simp_all add: checkout_a_def hammer_row_def)
  have a: "subscriptions written_elsewhere = [] \<and> tools written_elsewhere = []
      \<and> toolsInUse written_elsewhere = [] \<and> db_tools (world written_elsewhere) = [hammer_row]
      \<and> db_movements (world written_elsewhere) = [checkout_a]"
    by (simp add: written_elsewhere_eq init_def empty_db_def)
  have b: "tools (useTools_refetch (Some mem_backend) written_elsewhere) = [hammer_row]
      \<and> toolsInUse (useTools_refetch (Some mem_backend) written_elsewhere) = [usage_of checkout_a]"
    by (simp add: written_elsewhere_eq useTools_refetch_def fetchTools_def fetchToolsInUse_def
        remote_def or_empty_def mem_simps init_def empty_db_def act)
  have c: "fst (deleteTool (Some mem_backend) ''t9'' written_elsewhere) = None
      \<and> tools (snd (deleteTool (Some mem_backend) ''t9'' written_elsewhere)) = [hammer_row]"
    by (simp add: written_elsewhere_eq deleteTool_def fetchTools_def
        remote_def or_empty_def mem_simps init_def empty_db_def hid)
  show ?thesis using a b c by blast
qed

text \<open>
  C6, amended: with a client, the effect of \<^verbatim>\<open>useTools\<close> subscribes to the
  change events of the tables \<^verbatim>\<open>tools\<close> and \<^verbatim>\<open>movements\<close> and then
  fetches both lists; the effect of \<^verbatim>\<open>useMovements\<close> subscribes to
  \<^verbatim>\<open>movements\<close> and then fetches. While subscribed, \<^verbatim>\<open>useTools\<close>
  answers an event of \<^verbatim>\<open>tools\<close> by \<^verbatim>\<open>fetchTools\<close> alone and an
  event of \<^verbatim>\<open>movements\<close> by \<^verbatim>\<open>fetchToolsInUse\<close> and
  \<^verbatim>\<open>fetchTools\<close>; \<^verbatim>\<open>useMovements\<close> answers an event of
  \<^verbatim>\<open>movements\<close> by \<^verbatim>\<open>fetchMovements\<close>. An event of any other
  table, or of a table the hook is not subscribed to, changes nothing. Unmounting
  unsubscribes, after which no event changes anything. Whatever the page does, a list
  changes only when the select that fills it is issued; besides the events, that happens
  when the page itself fetches: on mount, in \<^verbatim>\<open>refetch\<close>, which needs no
  subscription, and in the re-fetch after its own mutation.
\<close>

theorem realtime_by_subscription:
  "fst (useTools_mount (Some bk) s) = None
   \<and> (\<forall>d1 e1 w1 d2 e2 w2.
        tools_select_all bk (world s) = ((d1, e1), w1)
        \<and> movements_select_by_status bk ''active'' w1 = ((d2, e2), w2) \<longrightarrow>
      snd (useTools_mount (Some bk) s) =
        s\<lparr>world := w2,
          trace := trace s @ [Subscribe ''tools'', Subscribe ''movements'', ToolsSelectAllOrderByName,
            MovementsSelectByStatusOrderByCheckoutDateDesc ''active''],
          console := console s
            @ (case e1 of None \<Rightarrow> [] | Some x \<Rightarrow> [ErrorLog ''Error fetching tools:'' x])
            @ (case e2 of None \<Rightarrow> [] | Some x \<Rightarrow> [ErrorLog ''Error fetching tools in use:'' x]),
          tools := (case e1 of None \<Rightarrow> or_empty d1 | Some x \<Rightarrow> tools s),
          toolsInUse := (case e2 of None \<Rightarrow> map usage_of (or_empty d2) | Some x \<Rightarrow> toolsInUse s),
          loading := False,
          subscriptions := subscriptions s @ [''tools'', ''movements'']\<rparr>)
   \<and> (\<forall>d e w. movements_select_all bk (world s) = ((d, e), w) \<longrightarrow>
      useMovements_mount (Some bk) s =
        s\<lparr>world := w,
          trace := trace s @ [Subscribe ''movements'', MovementsSelectAllOrderByCreatedAtDesc],
          console := console s
            @ (case e of None \<Rightarrow> [] | Some x \<Rightarrow> [ErrorLog ''Error fetching movements:'' x]),
          movements := (case e of None \<Rightarrow> or_empty d | Some x \<Rightarrow> []),
          movements_loading := False,
          movements_subscriptions := movements_subscriptions s @ [''movements'']\<rparr>)
   \<and> (''tools'' \<in> set (subscriptions s) \<longrightarrow>
        useTools_on_change (Some bk) ''tools'' s = fetchTools (Some bk) s
        \<and> issued s (useTools_on_change (Some bk) ''tools'' s) = [ToolsSelectAllOrderByName])
   \<and> (''movements'' \<in> set (subscriptions s) \<longrightarrow>
        useTools_on_change (Some bk) ''movements'' s = fetchTools (Some bk) (fetchToolsInUse (Some bk) s)
        \<and> issued s (useTools_on_change (Some bk) ''movements'' s) =
            [MovementsSelectByStatusOrderByCheckoutDateDesc ''active'', ToolsSelectAllOrderByName])
   \<and> (''movements'' \<in> set (movements_subscriptions s) \<longrightarrow>
        useMovements_on_change (Some bk) ''movements'' s = fetchMovements (Some bk) s
        \<and> issued s (useMovements_on_change (Some bk) ''movements'' s)
            = [MovementsSelectAllOrderByCreatedAtDesc])
   \<and> (table \<notin> set (subscriptions s) \<or> (table \<noteq> ''tools'' \<and> table \<noteq> ''movements'') \<longrightarrow>
        useTools_on_change (Some bk) table s = s)
   \<and> (table \<notin> set (movements_subscriptions s) \<or> table \<noteq> ''movements'' \<longrightarrow>
        useMovements_on_change (Some bk) table s = s)
   \<and> useTools_unmount s =
        s\<lparr>trace := trace s @ [Unsubscribe ''tools'', Unsubscribe ''movements''],
          subscriptions := removeAll ''movements'' (removeAll ''tools'' (subscriptions s))\<rparr>
   \<and> useMovements_unmount (Some bk) s =
        s\<lparr>trace := trace s @ [Unsubscribe ''movements''],
          movements_subscriptions := removeAll ''movements'' (movements_subscriptions s)\<rparr>
   \<and> useTools_on_change (Some bk) table (useTools_unmount s) = useTools_unmount s
   \<and> useMovements_on_change (Some bk) table (useMovements_unmount (Some bk) s)
       = useMovements_unmount (Some bk) s
   \<and> pulls s (perform (Some bk) a s)
   \<and> useTools_refetch (Some bk) s = fetchToolsInUse (Some bk) (fetchTools (Some bk) s)
   \<and> issued s (useTools_refetch (Some bk) s) =
       [ToolsSelectAllOrderByName, MovementsSelectByStatusOrderByCheckoutDateDesc ''active'']"
proof (intro conjI)
  show "fst (useTools_mount (Some bk) s) = None"
    by (simp add: useTools_mount_def)
  show "(\<forall>d1 e1 w1 d2 e2 w2.
        tools_select_all bk (world s) = ((d1, e1), w1)
        \<and> movements_select_by_status bk ''active'' w1 = ((d2, e2), w2) \<longrightarrow>
      snd (useTools_mount (Some bk) s) =
        s\<lparr>world := w2,
          trace := trace s @ [Subscribe ''tools'', Subscribe ''movements'', ToolsSelectAllOrderByName,
            MovementsSelectByStatusOrderByCheckoutDateDesc ''active''],
          console := console s
            @ (case e1 of None \<Rightarrow> [] | Some x \<Rightarrow> [ErrorLog ''Error fetching tools:'' x])
            @ (case e2 of None \<Rightarrow> [] | Some x \<Rightarrow> [ErrorLog ''Error fetching tools in use:'' x]),
          tools := (case e1 of None \<Rightarrow> or_empty d1 | Some x \<Rightarrow> tools s),
          toolsInUse := (case e2 of None \<Rightarrow> map usage_of (or_empty d2) | Some x \<Rightarrow> toolsInUse s),
          loading := False,
          subscriptions := subscriptions s @ [''tools'', ''movements'']\<rparr>)"
    by (intro allI impI; elim conjE; rule useTools_mount_state; assumption)
  show "(\<forall>d e w. movements_select_all bk (world s) = ((d, e), w) \<longrightarrow>
      useMovements_mount (Some bk) s =
        s\<lparr>world := w,
          trace := trace s @ [Subscribe ''movements'', MovementsSelectAllOrderByCreatedAtDesc],
          console := console s
            @ (case e of None \<Rightarrow> [] | Some x \<Rightarrow> [ErrorLog ''Error fetching movements:'' x]),
          movements := (case e of None \<Rightarrow> or_empty d | Some x \<Rightarrow> []),
          movements_loading := False,
          movements_subscriptions := movements_subscriptions s @ [''movements'']\<rparr>)"
    by (intro allI impI; rule useMovements_mount_state; assumption)
  show "(''tools'' \<in> set (subscriptions s) \<longrightarrow>
        useTools_on_change (Some bk) ''tools'' s = fetchTools (Some bk) s
        \<and> issued s (useTools_on_change (Some bk) ''tools'' s) = [ToolsSelectAllOrderByName])"
    by (simp add: useTools_on_change_def issued_def trace_fetchTools)
  show "(''movements'' \<in> set (subscriptions s) \<longrightarrow>
        useTools_on_change (Some bk) ''movements'' s = fetchTools (Some bk) (fetchToolsInUse (Some bk) s)
        \<and> issued s (useTools_on_change (Some bk) ''movements'' s) =
            [MovementsSelectByStatusOrderByCheckoutDateDesc ''active'', ToolsSelectAllOrderByName])"
    by (simp add: useTools_on_change_def on_movements_issued)
  show "(''movements'' \<in> set (movements_subscriptions s) \<longrightarrow>
        useMovements_on_change (Some bk) ''movements'' s = fetchMovements (Some bk) s
        \<and> issued s (useMovements_on_change (Some bk) ''movements'' s)
            = [MovementsSelectAllOrderByCreatedAtDesc])"
    by (simp add: useMovements_on_change_def issued_def trace_fetchMovements)
  show "(table \<notin> set (subscriptions s) \<or> (table \<noteq> ''tools'' \<and> table \<noteq> ''movements'') \<longrightarrow>
        useTools_on_change (Some bk) table s = s)"
    by (auto simp add: useTools_on_change_def)
  show "(table \<notin> set (movements_subscriptions s) \<or> table \<noteq> ''movements'' \<longrightarrow>
        useMovements_on_change (Some bk) table s = s)"
    by (auto simp add: useMovements_on_change_def)
  show "useTools_unmount s =
        s\<lparr>trace := trace s @ [Unsubscribe ''tools'', Unsubscribe ''movements''],
          subscriptions := removeAll ''movements'' (removeAll ''tools'' (subscriptions s))\<rparr>"
    by (simp add: useTools_unmount_def unsubscribe_def)
  show "useMovements_unmount (Some bk) s =
        s\<lparr>trace := trace s @ [Unsubscribe ''movements''],
          movements_subscriptions := removeAll ''movements'' (movements_subscriptions s)\<rparr>"
    by (simp add: useMovements_unmount_def movements_unsubscribe_def)
  show "useTools_on_change (Some bk) table (useTools_unmount s) = useTools_unmount s"
    by (rule useTools_unmount_silent)
  show "useMovements_on_change (Some bk) table (useMovements_unmount (Some bk) s)
       = useMovements_unmount (Some bk) s"
    by (rule useMovements_unmount_silent)
  show "pulls s (perform (Some bk) a s)"
    by (rule pulls_perform)
  show "useTools_refetch (Some bk) s = fetchToolsInUse (Some bk) (fetchTools (Some bk) s)"
    by (simp add: useTools_refetch_def)
  show "issued s (useTools_refetch (Some bk) s) =
       [ToolsSelectAllOrderByName, MovementsSelectByStatusOrderByCheckoutDateDesc ''active'']"
    by (rule refetch_issued)
qed

theorem realtime_by_subscription_witness:
  "''movements'' \<in> set (subscriptions lent_elsewhere)
   \<and> toolsInUse lent_elsewhere = []
   \<and> toolsInUse (useTools_on_change (Some mem_backend) ''movements'' lent_elsewhere)
       = [usage_of checkout_a]
   \<and> issued lent_elsewhere (useTools_on_change (Some mem_backend) ''movements'' lent_elsewhere)
       = [MovementsSelectByStatusOrderByCheckoutDateDesc ''active'', ToolsSelectAllOrderByName]
   \<and> useTools_on_change (Some mem_backend) ''movements'' (useTools_unmount lent_elsewhere)
       = useTools_unmount lent_elsewhere
   \<and> useTools_on_change (Some mem_backend) ''users'' lent_elsewhere = lent_elsewhere
   \<and> mounted = (init empty_db)
       \<lparr>world := empty_db\<lparr>db_clock := 102, db_served := 2\<rparr>,
         trace := [Subscribe ''tools'', Subscribe ''movements'', ToolsSelectAllOrderByName,
           MovementsSelectByStatusOrderByCheckoutDateDesc ''active''],
         loading := False, subscriptions := [''tools'', ''movements'']\<rparr>
   \<and> pulls lent_elsewhere (perform (Some mem_backend) (ToolsChannelEvent ''movements'') lent_elsewhere)"
proof -
  have m: "mounted = (init empty_db)
      \<lparr>world := empty_db\<lparr>db_clock := 102, db_served := 2\<rparr>,
        trace := [Subscribe ''tools'', Subscribe ''movements'', ToolsSelectAllOrderByName,
          MovementsSelectByStatusOrderByCheckoutDateDesc ''active''],
        loading := False, subscriptions := [''tools'', ''movements'']\<rparr>"
  proof -
    have s1: "tools_select_all mem_backend (world (init empty_db))
        = ((Some [], None), empty_db\<lparr>db_clock := 101, db_served := 1\<rparr>)"
      by (simp add: mem_simps example_simps)
    have s2: "movements_select_by_status mem_backend ''active'' (empty_db\<lparr>db_clock := 101, db_served := 1\<rparr>)
        = ((Some [], None), empty_db\<lparr>db_clock := 102, db_served := 2\<rparr>)"
      by (simp add: mem_simps example_simps numeral_2_eq_2)
    from realtime_by_subscription [where bk = mem_backend and s = "init empty_db"] s1 s2
    show ?thesis
      by (simp add: mounted_def or_empty_def init_def)
  qed
  have sub: "''movements'' \<in> set (subscriptions lent_elsewhere)"
    by (simp add: lent_elsewhere_def m)
  have t0: "toolsInUse lent_elsewhere = []"
    by (simp add: lent_elsewhere_def m init_def)
  note r = realtime_by_subscription [where bk = mem_backend and s = lent_elsewhere
      and table = "''movements''" and a = "ToolsChannelEvent ''movements''"]
  note r2 = realtime_by_subscription [where bk = mem_backend and s = lent_elsewhere
      and table = "''users''"]
  have eq: "useTools_on_change (Some mem_backend) ''movements'' lent_elsewhere
      = fetchTools (Some mem_backend) (fetchToolsInUse (Some mem_backend) lent_elsewhere)"
    using r sub by blast
  have act: "status checkout_a = ''active''"
    by (simp add: checkout_a_def)
  have t1: "toolsInUse (useTools_on_change (Some mem_backend) ''movements'' lent_elsewhere)
      = [usage_of checkout_a]"
    unfolding eq
    by (simp add: lent_elsewhere_def m fetchTools_def fetchToolsInUse_def remote_def or_empty_def
        mem_simps example_simps act)
  have other: "useTools_on_change (Some mem_backend) ''users'' lent_elsewhere = lent_elsewhere"
    using r2 by simp
  have p: "pulls lent_elsewhere (perform (Some mem_backend) (ToolsChannelEvent ''movements'') lent_elsewhere)"
    using r by blast
  have i: "issued lent_elsewhere (useTools_on_change (Some mem_backend) ''movements'' lent_elsewhere)
       = [MovementsSelectByStatusOrderByCheckoutDateDesc ''active'', ToolsSelectAllOrderByName]"
    using r sub by blast
  have u: "useTools_on_change (Some mem_backend) ''movements'' (useTools_unmount lent_elsewhere)
       = useTools_unmount lent_elsewhere"
    using r by blast
  show ?thesis using sub t0 t1 i u other m p by blast
qed

text \<open>
  C3, as stated, fails for the lists a mutation affects outside its own hook: on a page
  with both hooks mounted, a checkout of 2 takes the tool's \<open>available_stock\<close> in the
  database from 5 to 3 and adds an active movement, and returns having re-fetched the
  movements only; \<open>tools\<close> still shows 5 available and \<open>toolsInUse\<close> is still
  empty.
\<close>

theorem checkout_leaves_tools_stale:
  "map available_stock (tools page) = [5]
   \<and> toolsInUse page = []
   \<and> snd (fst (createCheckout (Some mem_backend) ''t1'' ''hammer'' 2 ''ana'' ''taller'' None page)) = None
   \<and> issued page (snd (createCheckout (Some mem_backend) ''t1'' ''hammer'' 2 ''ana'' ''taller'' None page))
       = [ToolsSelectAvailableStockById ''t1'',
          MovementsInsert (checkout_row ''t1'' ''hammer'' 2 ''ana'' ''taller'' None 104),
          ToolsUpdateById ''t1'' (stock_patch 3),
          MovementsSelectAllOrderByCreatedAtDesc]
   \<and> map available_stock (db_tools (world (snd (createCheckout (Some mem_backend) ''t1'' ''hammer'' 2
        ''ana'' ''taller'' None page)))) = [3]
   \<and> map status (db_movements (world (snd (createCheckout (Some mem_backend) ''t1'' ''hammer'' 2
        ''ana'' ''taller'' None page)))) = [''active'']
   \<and> map available_stock (tools (snd (createCheckout (Some mem_backend) ''t1'' ''hammer'' 2
        ''ana'' ''taller'' None page))) = [5]
   \<and> toolsInUse (snd (createCheckout (Some mem_backend) ''t1'' ''hammer'' 2 ''ana'' ''taller'' None
        page)) = []"
  by (simp add: page_eq createCheckout_def fetchMovements_def remote_def issued_def or_empty_def
      checkout_row_def stock_patch_def no_patch_def movement_new.defs mem_simps init_def
      empty_db_def stock_db_def hammer_row_def)

text \<open>
  C3, amended: with a client, mounting \<^verbatim>\<open>useTools\<close> stores the tools and the
  tools in use that its two selects return, mounting \<^verbatim>\<open>useMovements\<close> stores
  the movements that its select returns. Every mutation that returns without error has
  re-fetched the list of its own hook before returning, and returns in the state that
  fetch left: \<^verbatim>\<open>addTool\<close>, \<^verbatim>\<open>updateTool\<close> and
  \<^verbatim>\<open>deleteTool\<close> issue their write and then store the tools the select
  returns; \<^verbatim>\<open>createCheckout\<close> and \<^verbatim>\<open>createCheckin\<close> end by storing
  the movements the select returns. \<^verbatim>\<open>createCheckout\<close> and
  \<^verbatim>\<open>createCheckin\<close> never fetch the tools or the tools in use and leave both
  lists as they were. A change event of a subscribed table runs the fetches of the hook.
\<close>

theorem refetch_after_write:
  "(\<forall>d1 e1 w1 d2 e2 w2.
        tools_select_all bk (world s) = ((d1, e1), w1)
        \<and> movements_select_by_status bk ''active'' w1 = ((d2, e2), w2) \<longrightarrow>
      snd (useTools_mount (Some bk) s) =
        s\<lparr>world := w2,
          trace := trace s @ [Subscribe ''tools'', Subscribe ''movements'', ToolsSelectAllOrderByName,
            MovementsSelectByStatusOrderByCheckoutDateDesc ''active''],
          console := console s
            @ (case e1 of None \<Rightarrow> [] | Some x \<Rightarrow> [ErrorLog ''Error fetching tools:'' x])
            @ (case e2 of None \<Rightarrow> [] | Some x \<Rightarrow> [ErrorLog ''Error fetching tools in use:'' x]),
          tools := (case e1 of None \<Rightarrow> or_empty d1 | Some x \<Rightarrow> tools s),
          toolsInUse := (case e2 of None \<Rightarrow> map usage_of (or_empty d2) | Some x \<Rightarrow> toolsInUse s),
          loading := False,
          subscriptions := subscriptions s @ [''tools'', ''movements'']\<rparr>)
   \<and> (\<forall>d e w. movements_select_all bk (world s) = ((d, e), w) \<longrightarrow>
      useMovements_mount (Some bk) s =
        s\<lparr>world := w,
          trace := trace s @ [Subscribe ''movements'', MovementsSelectAllOrderByCreatedAtDesc],
          console := console s
            @ (case e of None \<Rightarrow> [] | Some x \<Rightarrow> [ErrorLog ''Error fetching movements:'' x]),
          movements := (case e of None \<Rightarrow> or_empty d | Some x \<Rightarrow> []),
          movements_loading := False,
          movements_subscriptions := movements_subscriptions s @ [''movements'']\<rparr>)
   \<and> (snd (fst (addTool (Some bk) t s)) = None \<longrightarrow>
        (\<exists>s'. snd (addTool (Some bk) t s) = fetchTools (Some bk) s')
        \<and> issued s (snd (addTool (Some bk) t s)) =
            [ToolsInsert (t\<lparr>available_stock := stock t\<rparr>), ToolsSelectAllOrderByName])
   \<and> (\<forall>d w d2 w2.
        tools_insert bk (t\<lparr>available_stock := stock t\<rparr>) (world s) = ((d, None), w)
        \<and> tools_select_all bk w = ((d2, None), w2) \<longrightarrow>
      addTool (Some bk) t s =
        ((d, None),
         s\<lparr>world := w2,
           trace := trace s @ [ToolsInsert (t\<lparr>available_stock := stock t\<rparr>), ToolsSelectAllOrderByName],
           tools := or_empty d2\<rparr>))
   \<and> (snd (fst (updateTool (Some bk) i u s)) = None \<longrightarrow>
        (\<exists>s'. snd (updateTool (Some bk) i u s) = fetchTools (Some bk) s')
        \<and> issued s (snd (updateTool (Some bk) i u s)) =
            [ToolsUpdateByIdSelect i (u\<lparr>patch_updated_at := Some (now bk (world s))\<rparr>),
             ToolsSelectAllOrderByName])
   \<and> (\<forall>d w d2 w2.
        tools_update_by_id_select bk i (u\<lparr>patch_updated_at := Some (now bk (world s))\<rparr>) (world s)
          = ((d, None), w)
        \<and> tools_select_all bk w = ((d2, None), w2) \<longrightarrow>
      updateTool (Some bk) i u s =
        ((d, None),
         s\<lparr>world := w2,
           trace := trace s @
             [ToolsUpdateByIdSelect i (u\<lparr>patch_updated_at := Some (now bk (world s))\<rparr>),
              ToolsSelectAllOrderByName],
           tools := or_empty d2\<rparr>))
   \<and> (fst (deleteTool (Some bk) i s) = None \<longrightarrow>
        (\<exists>s'. snd (deleteTool (Some bk) i s) = fetchTools (Some bk) s')
        \<and> issued s (snd (deleteTool (Some bk) i s)) = [ToolsDeleteById i, ToolsSelectAllOrderByName])
   \<and> (\<forall>d w d2 w2.
        tools_delete_by_id bk i (world s) = ((d, None), w)
        \<and> tools_select_all bk w = ((d2, None), w2) \<longrightarrow>
      deleteTool (Some bk) i s =
        (None,
         s\<lparr>world := w2, trace := trace s @ [ToolsDeleteById i, ToolsSelectAllOrderByName],
           tools := or_empty d2\<rparr>))
   \<and> (snd (fst (createCheckout (Some bk) toolId toolName qty userName ar nts s)) = None \<longrightarrow>
        (\<exists>s'. snd (createCheckout (Some bk) toolId toolName qty userName ar nts s)
            = fetchMovements (Some bk) s')
        \<and> last (trace (snd (createCheckout (Some bk) toolId toolName qty userName ar nts s)))
            = MovementsSelectAllOrderByCreatedAtDesc)
   \<and> (\<forall>a err w1 d w2 r w3 d4 w4.
        tools_select_available_stock bk toolId (world s) = ((Some a, err), w1) \<and> \<not> a < qty
        \<and> movements_insert bk (checkout_row toolId toolName qty userName ar nts (now bk w1)) w1
            = ((d, None), w2)
        \<and> tools_update_by_id bk toolId (stock_patch (a - qty)) w2 = (r, w3)
        \<and> movements_select_all bk w3 = ((d4, None), w4) \<longrightarrow>
      createCheckout (Some bk) toolId toolName qty userName ar nts s =
        ((d, None),
         s\<lparr>world := w4,
           trace := trace s @ [ToolsSelectAvailableStockById toolId,
             MovementsInsert (checkout_row toolId toolName qty userName ar nts (now bk w1)),
             ToolsUpdateById toolId (stock_patch (a - qty)),
             MovementsSelectAllOrderByCreatedAtDesc],
           movements := or_empty d4, movements_loading := False\<rparr>))
   \<and> (snd (fst (createCheckin (Some bk) movementId returnQuantity userName nts s)) = None \<longrightarrow>
        (\<exists>s'. snd (createCheckin (Some bk) movementId returnQuantity userName nts s)
            = fetchMovements (Some bk) s')
        \<and> last (trace (snd (createCheckin (Some bk) movementId returnQuantity userName nts s)))
            = MovementsSelectAllOrderByCreatedAtDesc)
   \<and> (\<forall>m err w1 r w2 d w3 a err2 w4 r2 w5 d6 w6.
        movements_select_by_id bk movementId (world s) = ((Some m, err), w1)
        \<and> movements_update_status bk movementId ''returned'' (now bk w1) w1 = (r, w2)
        \<and> movements_insert bk (checkin_row m returnQuantity userName nts (now bk w2)) w2
            = ((d, None), w3)
        \<and> tools_select_available_stock bk (tool_id m) w3 = ((Some a, err2), w4)
        \<and> tools_update_by_id bk (tool_id m) (stock_patch (a + returnQuantity)) w4 = (r2, w5)
        \<and> movements_select_all bk w5 = ((d6, None), w6) \<longrightarrow>
      createCheckin (Some bk) movementId returnQuantity userName nts s =
        ((d, None),
         s\<lparr>world := w6,
           trace := trace s @ [MovementsSelectById movementId,
             MovementsUpdateStatusById movementId ''returned'' (now bk w1),
             MovementsInsert (checkin_row m returnQuantity userName nts (now bk w2)),
             ToolsSelectAvailableStockById (tool_id m),
             ToolsUpdateById (tool_id m) (stock_patch (a + returnQuantity)),
             MovementsSelectAllOrderByCreatedAtDesc],
           movements := or_empty d6, movements_loading := False\<rparr>))
   \<and> tools (snd (createCheckout (Some bk) toolId toolName qty userName ar nts s)) = tools s
   \<and> toolsInUse (snd (createCheckout (Some bk) toolId toolName qty userName ar nts s)) = toolsInUse s
   \<and> ToolsSelectAllOrderByName
       \<notin> set (issued s (snd (createCheckout (Some bk) toolId toolName qty userName ar nts s)))
   \<and> MovementsSelectByStatusOrderByCheckoutDateDesc ''active''
       \<notin> set (issued s (snd (createCheckout (Some bk) toolId toolName qty userName ar nts s)))
   \<and> tools (snd (createCheckin (Some bk) movementId returnQuantity userName nts s)) = tools s
   \<and> toolsInUse (snd (createCheckin (Some bk) movementId returnQuantity userName nts s)) = toolsInUse s
   \<and> ToolsSelectAllOrderByName
       \<notin> set (issued s (snd (createCheckin (Some bk) movementId returnQuantity userName nts s)))
   \<and> MovementsSelectByStatusOrderByCheckoutDateDesc ''active''
       \<notin> set (issued s (snd (createCheckin (Some bk) movementId returnQuantity userName nts s)))
   \<and> (''tools'' \<in> set (subscriptions s) \<longrightarrow>
        useTools_on_change (Some bk) ''tools'' s = fetchTools (Some bk) s)
   \<and> (''movements'' \<in> set (subscriptions s) \<longrightarrow>
        useTools_on_change (Some bk) ''movements'' s
          = fetchTools (Some bk) (fetchToolsInUse (Some bk) s))
   \<and> (''movements'' \<in> set (movements_subscriptions s) \<longrightarrow>
        useMovements_on_change (Some bk) ''movements'' s = fetchMovements (Some bk) s)"
proof (intro conjI)
  show "(\<forall>d1 e1 w1 d2 e2 w2.
        tools_select_all bk (world s) = ((d1, e1), w1)
        \<and> movements_select_by_status bk ''active'' w1 = ((d2, e2), w2) \<longrightarrow>
      snd (useTools_mount (Some bk) s) =
        s\<lparr>world := w2,
          trace := trace s @ [Subscribe ''tools'', Subscribe ''movements'', ToolsSelectAllOrderByName,
            MovementsSelectByStatusOrderByCheckoutDateDesc ''active''],
          console := console s
            @ (case e1 of None \<Rightarrow> [] | Some x \<Rightarrow> [ErrorLog ''Error fetching tools:'' x])
            @ (case e2 of None \<Rightarrow> [] | Some x \<Rightarrow> [ErrorLog ''Error fetching tools in use:'' x]),
          tools := (case e1 of None \<Rightarrow> or_empty d1 | Some x \<Rightarrow> tools s),
          toolsInUse := (case e2 of None \<Rightarrow> map usage_of (or_empty d2) | Some x \<Rightarrow> toolsInUse s),
          loading := False,
          subscriptions := subscriptions s @ [''tools'', ''movements'']\<rparr>)"
    by (intro allI impI; elim conjE; rule useTools_mount_state; assumption)
  show "(\<forall>d e w. movements_select_all bk (world s) = ((d, e), w) \<longrightarrow>
      useMovements_mount (Some bk) s =
        s\<lparr>world := w,
          trace := trace s @ [Subscribe ''movements'', MovementsSelectAllOrderByCreatedAtDesc],
          console := console s
            @ (case e of None \<Rightarrow> [] | Some x \<Rightarrow> [ErrorLog ''Error fetching movements:'' x]),
          movements := (case e of None \<Rightarrow> or_empty d | Some x \<Rightarrow> []),
          movements_loading := False,
          movements_subscriptions := movements_subscriptions s @ [''movements'']\<rparr>)"
    by (intro allI impI; rule useMovements_mount_state; assumption)
  show "(snd (fst (addTool (Some bk) t s)) = None \<longrightarrow>
        (\<exists>s'. snd (addTool (Some bk) t s) = fetchTools (Some bk) s')
        \<and> issued s (snd (addTool (Some bk) t s)) =
            [ToolsInsert (t\<lparr>available_stock := stock t\<rparr>), ToolsSelectAllOrderByName])"
    using addTool_refetch [of bk t s] by (auto simp: issued_def trace_fetchTools)
  show "(\<forall>d w d2 w2.
        tools_insert bk (t\<lparr>available_stock := stock t\<rparr>) (world s) = ((d, None), w)
        \<and> tools_select_all bk w = ((d2, None), w2) \<longrightarrow>
      addTool (Some bk) t s =
        ((d, None),
         s\<lparr>world := w2,
           trace := trace s @ [ToolsInsert (t\<lparr>available_stock := stock t\<rparr>), ToolsSelectAllOrderByName],
           tools := or_empty d2\<rparr>))"
    by (intro allI impI; elim conjE; rule addTool_refetched; assumption)
  show "(snd (fst (updateTool (Some bk) i u s)) = None \<longrightarrow>
        (\<exists>s'. snd (updateTool (Some bk) i u s) = fetchTools (Some bk) s')
        \<and> issued s (snd (updateTool (Some bk) i u s)) =
            [ToolsUpdateByIdSelect i (u\<lparr>patch_updated_at := Some (now bk (world s))\<rparr>),
             ToolsSelectAllOrderByName])"
    using updateTool_refetch [of bk i u s] by (auto simp: issued_def trace_fetchTools)
  show "(\<forall>d w d2 w2.
        tools_update_by_id_select bk i (u\<lparr>patch_updated_at := Some (now bk (world s))\<rparr>) (world s)
          = ((d, None), w)
        \<and> tools_select_all bk w = ((d2, None), w2) \<longrightarrow>
      updateTool (Some bk) i u s =
        ((d, None),
         s\<lparr>world := w2,
           trace := trace s @
             [ToolsUpdateByIdSelect i (u\<lparr>patch_updated_at := Some (now bk (world s))\<rparr>),
              ToolsSelectAllOrderByName],
           tools := or_empty d2\<rparr>))"
    by (intro allI impI; elim conjE; rule updateTool_refetched; assumption)
  show "(fst (deleteTool (Some bk) i s) = None \<longrightarrow>
        (\<exists>s'. snd (deleteTool (Some bk) i s) = fetchTools (Some bk) s')
        \<and> issued s (snd (deleteTool (Some bk) i s)) = [ToolsDeleteById i, ToolsSelectAllOrderByName])"
    using deleteTool_refetch [of bk i s] by (auto simp: issued_def trace_fetchTools)
  show "(\<forall>d w d2 w2.
        tools_delete_by_id bk i (world s) = ((d, None), w)
        \<and> tools_select_all bk w = ((d2, None), w2) \<longrightarrow>
      deleteTool (Some bk) i s =
        (None,
         s\<lparr>world := w2, trace := trace s @ [ToolsDeleteById i, ToolsSelectAllOrderByName],
           tools := or_empty d2\<rparr>))"
    by (intro allI impI; elim conjE; rule deleteTool_refetched; assumption)
  show "(snd (fst (createCheckout (Some bk) toolId toolName qty userName ar nts s)) = None \<longrightarrow>
        (\<exists>s'. snd (createCheckout (Some bk) toolId toolName qty userName ar nts s)
            = fetchMovements (Some bk) s')
        \<and> last (trace (snd (createCheckout (Some bk) toolId toolName qty userName ar nts s)))
            = MovementsSelectAllOrderByCreatedAtDesc)"
    using createCheckout_refetch [of bk toolId toolName qty userName ar nts s]
    by (auto simp: trace_fetchMovements)
  show "(\<forall>a err w1 d w2 r w3 d4 w4.
        tools_select_available_stock bk toolId (world s) = ((Some a, err), w1) \<and> \<not> a < qty
        \<and> movements_insert bk (checkout_row toolId toolName qty userName ar nts (now bk w1)) w1
            = ((d, None), w2)
        \<and> tools_update_by_id bk toolId (stock_patch (a - qty)) w2 = (r, w3)
        \<and> movements_select_all bk w3 = ((d4, None), w4) \<longrightarrow>
      createCheckout (Some bk) toolId toolName qty userName ar nts s =
        ((d, None),
         s\<lparr>world := w4,
           trace := trace s @ [ToolsSelectAvailableStockById toolId,
             MovementsInsert (checkout_row toolId toolName qty userName ar nts (now bk w1)),
             ToolsUpdateById toolId (stock_patch (a - qty)),
             MovementsSelectAllOrderByCreatedAtDesc],
           movements := or_empty d4, movements_loading := False\<rparr>))"
    by (intro allI impI; elim conjE; rule createCheckout_refetched; assumption)
  show "(snd (fst (createCheckin (Some bk) movementId returnQuantity userName nts s)) = None \<longrightarrow>
        (\<exists>s'. snd (createCheckin (Some bk) movementId returnQuantity userName nts s)
            = fetchMovements (Some bk) s')
        \<and> last (trace (snd (createCheckin (Some bk) movementId returnQuantity userName nts s)))
            = MovementsSelectAllOrderByCreatedAtDesc)"
    using createCheckin_refetch [of bk movementId returnQuantity userName nts s]
    by (auto simp: trace_fetchMovements)
  show "(\<forall>m err w1 r w2 d w3 a err2 w4 r2 w5 d6 w6.
        movements_select_by_id bk movementId (world s) = ((Some m, err), w1)
        \<and> movements_update_status bk movementId ''returned'' (now bk w1) w1 = (r, w2)
        \<and> movements_insert bk (checkin_row m returnQuantity userName nts (now bk w2)) w2
            = ((d, None), w3)
        \<and> tools_select_available_stock bk (tool_id m) w3 = ((Some a, err2), w4)
        \<and> tools_update_by_id bk (tool_id m) (stock_patch (a + returnQuantity)) w4 = (r2, w5)
        \<and> movements_select_all bk w5 = ((d6, None), w6) \<longrightarrow>
      createCheckin (Some bk) movementId returnQuantity userName nts s =
        ((d, None),
         s\<lparr>world := w6,
           trace := trace s @ [MovementsSelectById movementId,
             MovementsUpdateStatusById movementId ''returned'' (now bk w1),
             MovementsInsert (checkin_row m returnQuantity userName nts (now bk w2)),
             ToolsSelectAvailableStockById (tool_id m),
             ToolsUpdateById (tool_id m) (stock_patch (a + returnQuantity)),
             MovementsSelectAllOrderByCreatedAtDesc],
           movements := or_empty d6, movements_loading := False\<rparr>))"
    by (intro allI impI; elim conjE; rule createCheckin_refetched; assumption)
  show "tools (snd (createCheckout (Some bk) toolId toolName qty userName ar nts s)) = tools s"
    by (simp add: createCheckout_keeps_tools)
  show "toolsInUse (snd (createCheckout (Some bk) toolId toolName qty userName ar nts s)) = toolsInUse s"
    by (simp add: createCheckout_keeps_tools)
  show "ToolsSelectAllOrderByName
       \<notin> set (issued s (snd (createCheckout (Some bk) toolId toolName qty userName ar nts s)))"
    by (simp add: createCheckout_keeps_tools)
  show "MovementsSelectByStatusOrderByCheckoutDateDesc ''active''
       \<notin> set (issued s (snd (createCheckout (Some bk) toolId toolName qty userName ar nts s)))"
    by (simp add: createCheckout_keeps_tools)
  show "tools (snd (createCheckin (Some bk) movementId returnQuantity userName nts s)) = tools s"
    by (simp add: createCheckin_keeps_tools)
  show "toolsInUse (snd (createCheckin (Some bk) movementId returnQuantity userName nts s)) = toolsInUse s"
    by (simp add: createCheckin_keeps_tools)
  show "ToolsSelectAllOrderByName
       \<notin> set (issued s (snd (createCheckin (Some bk) movementId returnQuantity userName nts s)))"
    by (simp add: createCheckin_keeps_tools)
  show "MovementsSelectByStatusOrderByCheckoutDateDesc ''active''
       \<notin> set (issued s (snd (createCheckin (Some bk) movementId returnQuantity userName nts s)))"
    by (simp add: createCheckin_keeps_tools)
  show "(''tools'' \<in> set (subscriptions s) \<longrightarrow>
        useTools_on_change (Some bk) ''tools'' s = fetchTools (Some bk) s)"
    by (simp add: useTools_on_change_def)
  show "(''movements'' \<in> set (subscriptions s) \<longrightarrow>
        useTools_on_change (Some bk) ''movements'' s
          = fetchTools (Some bk) (fetchToolsInUse (Some bk) s))"
    by (simp add: useTools_on_change_def)
  show "(''movements'' \<in> set (movements_subscriptions s) \<longrightarrow>
        useMovements_on_change (Some bk) ''movements'' s = fetchMovements (Some bk) s)"
    by (simp add: useMovements_on_change_def)
qed

theorem refetch_after_write_witness:
  "tools (snd (useTools_mount (Some mem_backend) (init stock_db))) = [hammer_row]
   \<and> map quantity (movements (useMovements_mount (Some mem_backend) (init lent_db))) = [2]
   \<and> map name (tools (snd (addTool (Some mem_backend) hammer (init empty_db)))) = [''hammer'']
   \<and> map name (tools (snd (updateTool (Some mem_backend) ''t1'' rename (init stock_db)))) = [''mallet'']
   \<and> tools page = [hammer_row]
   \<and> tools (snd (deleteTool (Some mem_backend) ''t1'' page)) = []
   \<and> movements page = []
   \<and> map quantity (movements (snd (createCheckout (Some mem_backend) ''t1'' ''hammer'' 2 ''ana''
         ''taller'' None page))) = [2]
   \<and> tools (snd (createCheckout (Some mem_backend) ''t1'' ''hammer'' 2 ''ana'' ''taller'' None page))
       = [hammer_row]
   \<and> map movement_type (movements (snd (createCheckin (Some mem_backend) ''m1'' 2 ''ana'' None
         (init lent_db)))) = [''checkin'', ''checkout'']
   \<and> useTools_on_change (Some mem_backend) ''tools'' page = fetchTools (Some mem_backend) page
   \<and> useTools_on_change (Some mem_backend) ''movements'' page
       = fetchTools (Some mem_backend) (fetchToolsInUse (Some mem_backend) page)
   \<and> useMovements_on_change (Some mem_backend) ''movements'' page
       = fetchMovements (Some mem_backend) page"
proof -
  have hid: "tool_row_id hammer_row = ''t1''" and hnm: "name hammer_row = ''hammer''"
    and cid: "movement_row_id checkout_a = ''m1''" and ctool: "tool_id checkout_a = ''t1''"
    and cq: "quantity checkout_a = 2" and ctype: "movement_type checkout_a = ''checkout''"
    by (simp_all add: hammer_row_def checkout_a_def)
  (* mounting useTools *)
  have a1: "tools_select_all mem_backend (world (init stock_db))
      = ((Some [hammer_row], None), stock_db\<lparr>db_clock := 101, db_served := 1\<rparr>)"
    by (simp add: mem_simps init_def stock_db_def empty_db_def)
  have a2: "movements_select_by_status mem_backend ''active'' (stock_db\<lparr>db_clock := 101, db_served := 1\<rparr>)
      = ((Some [], None), stock_db\<lparr>db_clock := 102, db_served := 2\<rparr>)"
    by (simp add: mem_simps stock_db_def empty_db_def numeral_2_eq_2)
  have A: "tools (snd (useTools_mount (Some mem_backend) (init stock_db))) = [hammer_row]"
    using refetch_after_write [where bk = mem_backend and s = "init stock_db"] a1 a2
    by (simp add: or_empty_def)
  (* mounting useMovements *)
  have b1: "movements_select_all mem_backend (world (init lent_db))
      = ((Some [checkout_a], None), lent_db\<lparr>db_clock := 101, db_served := 1\<rparr>)"
    by (simp add: mem_simps init_def lent_db_def empty_db_def)
  have B: "map quantity (movements (useMovements_mount (Some mem_backend) (init lent_db))) = [2]"
    using refetch_after_write [where bk = mem_backend and s = "init lent_db"] b1
    by (simp add: or_empty_def cq)
  (* addTool *)
  define t where "t = hammer\<lparr>available_stock := stock hammer\<rparr>"
  define wc1 where "wc1 = snd (tools_insert mem_backend t (world (init empty_db)))"
  define dc1 where "dc1 = fst (fst (tools_insert mem_backend t (world (init empty_db))))"
  define wc2 where "wc2 = snd (tools_select_all mem_backend wc1)"
  define dc2 where "dc2 = fst (fst (tools_select_all mem_backend wc1))"
  have c1: "tools_insert mem_backend (hammer\<lparr>available_stock := stock hammer\<rparr>) (world (init empty_db))
      = ((dc1, None), wc1)"
    by (simp add: dc1_def wc1_def t_def mem_simps init_def empty_db_def)
  have c2: "tools_select_all mem_backend wc1 = ((dc2, None), wc2)"
    by (simp add: dc2_def wc2_def wc1_def t_def mem_simps init_def empty_db_def)
  have c3: "map name (or_empty dc2) = [''hammer'']"
    by (simp add: dc2_def wc1_def t_def or_empty_def mem_simps init_def empty_db_def hammer_def)
  have C: "map name (tools (snd (addTool (Some mem_backend) hammer (init empty_db)))) = [''hammer'']"
    using refetch_after_write [where bk = mem_backend and s = "init empty_db" and t = hammer] c1 c2 c3
    by simp
  (* updateTool *)
  define u where "u = rename\<lparr>patch_updated_at := Some (now mem_backend (world (init stock_db)))\<rparr>"
  define wd1 where "wd1 = snd (tools_update_by_id_select mem_backend ''t1'' u (world (init stock_db)))"
  define dd1 where "dd1 = fst (fst (tools_update_by_id_select mem_backend ''t1'' u (world (init stock_db))))"
  define wd2 where "wd2 = snd (tools_select_all mem_backend wd1)"
  define dd2 where "dd2 = fst (fst (tools_select_all mem_backend wd1))"
  have d1: "tools_update_by_id_select mem_backend ''t1''
        (rename\<lparr>patch_updated_at := Some (now mem_backend (world (init stock_db)))\<rparr>)
        (world (init stock_db)) = ((dd1, None), wd1)"
    by (simp add: dd1_def wd1_def u_def rename_def no_patch_def mem_simps init_def stock_db_def
        empty_db_def hid)
  have d2: "tools_select_all mem_backend wd1 = ((dd2, None), wd2)"
    by (simp add: dd2_def wd2_def wd1_def mem_simps init_def stock_db_def empty_db_def)
  have d3: "map name (or_empty dd2) = [''mallet'']"
    by (simp add: dd2_def wd1_def u_def rename_def no_patch_def or_empty_def mem_simps init_def
        stock_db_def empty_db_def hid)
  have D: "map name (tools (snd (updateTool (Some mem_backend) ''t1'' rename (init stock_db)))) = [''mallet'']"
    using refetch_after_write [where bk = mem_backend and s = "init stock_db" and i = "''t1''"
        and u = rename] d1 d2 d3
    by simp
  (* deleteTool *)
  have pw: "world page = stock_db\<lparr>db_clock := 103, db_served := 3\<rparr>"
    and pt: "tools page = [hammer_row]" and pm: "movements page = []"
    and ps: "subscriptions page = [''tools'', ''movements'']"
    and pms: "movements_subscriptions page = [''movements'']"
    by (simp_all add: page_eq init_def)
  have e1: "tools_delete_by_id mem_backend ''t1'' (world page)
      = ((None, None), stock_db\<lparr>db_tools := [], db_clock := 104, db_served := 4\<rparr>)"
    by (simp add: pw mem_simps stock_db_def empty_db_def hid)
  have e2: "tools_select_all mem_backend (stock_db\<lparr>db_tools := [], db_clock := 104, db_served := 4\<rparr>)
      = ((Some [], None), stock_db\<lparr>db_tools := [], db_clock := 105, db_served := 5\<rparr>)"
    by (simp add: mem_simps stock_db_def empty_db_def)
  have E: "tools (snd (deleteTool (Some mem_backend) ''t1'' page)) = []"
    using refetch_after_write [where bk = mem_backend and s = page and i = "''t1''"] e1 e2
    by (simp add: or_empty_def)
  (* createCheckout *)
  define row where "row = checkout_row ''t1'' ''hammer'' 2 ''ana'' ''taller'' None
      (now mem_backend (stock_db\<lparr>db_clock := 104, db_served := 4\<rparr>))"
  define wf2 where "wf2 = snd (movements_insert mem_backend row (stock_db\<lparr>db_clock := 104, db_served := 4\<rparr>))"
  define df2 where "df2 = fst (fst (movements_insert mem_backend row (stock_db\<lparr>db_clock := 104, db_served := 4\<rparr>)))"
  define wf3 where "wf3 = snd (tools_update_by_id mem_backend ''t1'' (stock_patch (5 - 2)) wf2)"
  define rf3 where "rf3 = fst (tools_update_by_id mem_backend ''t1'' (stock_patch (5 - 2)) wf2)"
  define wf4 where "wf4 = snd (movements_select_all mem_backend wf3)"
  define df4 where "df4 = fst (fst (movements_select_all mem_backend wf3))"
  have f1: "tools_select_available_stock mem_backend ''t1'' (world page)
      = ((Some 5, None), stock_db\<lparr>db_clock := 104, db_served := 4\<rparr>)"
    by (simp add: pw mem_simps stock_db_def empty_db_def hammer_row_def)
  have f2: "movements_insert mem_backend
        (checkout_row ''t1'' ''hammer'' 2 ''ana'' ''taller'' None
           (now mem_backend (stock_db\<lparr>db_clock := 104, db_served := 4\<rparr>)))
        (stock_db\<lparr>db_clock := 104, db_served := 4\<rparr>) = ((df2, None), wf2)"
    by (simp add: df2_def wf2_def row_def mem_simps stock_db_def empty_db_def)
  have f3: "tools_update_by_id mem_backend ''t1'' (stock_patch (5 - 2)) wf2 = (rf3, wf3)"
    by (simp add: rf3_def wf3_def)
  have f4: "movements_select_all mem_backend wf3 = ((df4, None), wf4)"
    by (simp add: df4_def wf4_def wf3_def wf2_def row_def mem_simps stock_db_def empty_db_def)
  have f5: "map quantity (or_empty df4) = [2]"
    by (simp add: df4_def wf3_def wf2_def row_def or_empty_def checkout_row_def movement_new.defs
        mem_simps stock_db_def empty_db_def)
  note rf = refetch_after_write [where bk = mem_backend and s = page and toolId = "''t1''"
      and toolName = "''hammer''" and qty = 2 and userName = "''ana''" and ar = "''taller''"
      and nts = None]
  have F: "map quantity (movements (snd (createCheckout (Some mem_backend) ''t1'' ''hammer'' 2 ''ana''
         ''taller'' None page))) = [2]"
    using rf f1 f2 f3 f4 f5 by simp
  have F2: "tools (snd (createCheckout (Some mem_backend) ''t1'' ''hammer'' 2 ''ana'' ''taller'' None page))
       = [hammer_row]"
    using rf pt by simp
  (* createCheckin *)
  define wg1 where "wg1 = lent_db\<lparr>db_clock := 101, db_served := 1\<rparr>"
  define wg2 where "wg2 = snd (movements_update_status mem_backend ''m1'' ''returned'' (now mem_backend wg1) wg1)"
  define rg2 where "rg2 = fst (movements_update_status mem_backend ''m1'' ''returned'' (now mem_backend wg1) wg1)"
  define crow where "crow = checkin_row checkout_a 2 ''ana'' None (now mem_backend wg2)"
  define wg3 where "wg3 = snd (movements_insert mem_backend crow wg2)"
  define dg3 where "dg3 = fst (fst (movements_insert mem_backend crow wg2))"
  define wg4 where "wg4 = snd (tools_select_available_stock mem_backend ''t1'' wg3)"
  define wg5 where "wg5 = snd (tools_update_by_id mem_backend ''t1'' (stock_patch (3 + 2)) wg4)"
  define rg5 where "rg5 = fst (tools_update_by_id mem_backend ''t1'' (stock_patch (3 + 2)) wg4)"
  define wg6 where "wg6 = snd (movements_select_all mem_backend wg5)"
  define dg6 where "dg6 = fst (fst (movements_select_all mem_backend wg5))"
  have g1: "movements_select_by_id mem_backend ''m1'' (world (init lent_db)) = ((Some checkout_a, None), wg1)"
    by (simp add: wg1_def mem_simps init_def lent_db_def empty_db_def cid)
  have g2: "movements_update_status mem_backend ''m1'' ''returned'' (now mem_backend wg1) wg1 = (rg2, wg2)"
    by (simp add: rg2_def wg2_def)
  have g3: "movements_insert mem_backend (checkin_row checkout_a 2 ''ana'' None (now mem_backend wg2)) wg2
      = ((dg3, None), wg3)"
    by (simp add: dg3_def wg3_def crow_def wg2_def wg1_def mem_simps lent_db_def empty_db_def)
  have g4: "tools_select_available_stock mem_backend (tool_id checkout_a) wg3 = ((Some 3, None), wg4)"
    by (simp add: ctool wg4_def wg3_def crow_def wg2_def wg1_def mem_simps lent_db_def empty_db_def
        lent_hammer_def hid)
  have g5: "tools_update_by_id mem_backend (tool_id checkout_a) (stock_patch (3 + 2)) wg4 = (rg5, wg5)"
    by (simp add: ctool rg5_def wg5_def)
  have g6: "movements_select_all mem_backend wg5 = ((dg6, None), wg6)"
    by (simp add: dg6_def wg6_def wg5_def wg4_def wg3_def crow_def wg2_def wg1_def mem_simps
        lent_db_def empty_db_def)
  have g7: "map movement_type (or_empty dg6) = [''checkin'', ''checkout'']"
    by (simp add: dg6_def wg5_def wg4_def wg3_def crow_def wg2_def wg1_def or_empty_def
        checkin_row_def movement_new.defs mem_simps lent_db_def empty_db_def checkout_a_def)
  have G: "map movement_type (movements (snd (createCheckin (Some mem_backend) ''m1'' 2 ''ana'' None
         (init lent_db)))) = [''checkin'', ''checkout'']"
    using refetch_after_write [where bk = mem_backend and s = "init lent_db" and movementId = "''m1''"
        and returnQuantity = 2 and userName = "''ana''" and nts = None] g1 g2 g3 g4 g5 g6 g7
    by simp
  (* change events *)
  note rh = refetch_after_write [where bk = mem_backend and s = page]
  have H: "useTools_on_change (Some mem_backend) ''tools'' page = fetchTools (Some mem_backend) page
      \<and> useTools_on_change (Some mem_backend) ''movements'' page
          = fetchTools (Some mem_backend) (fetchToolsInUse (Some mem_backend) page)
      \<and> useMovements_on_change (Some mem_backend) ''movements'' page
          = fetchMovements (Some mem_backend) page"
    using rh ps pms by simp
  show ?thesis using A B C D pt E pm F F2 G H by blast
qed

end
